(* ===== verification/Prelude.thy ===== *)
theory Prelude
  imports Main "HOL-Library.Sublist" "HOL-Library.AList" "HOL-Library.List_Lexorder"
    "HOL-Library.Char_ord"
begin

text \<open>
  Shared vocabulary of the development.  The Python scripts of the repository raise
  exceptions and mutate a process state (files, standard output, environment); both are
  made explicit here:
  \<^item> \<open>exn\<close> lists the exceptions the modelled code raises or lets propagate;
  \<^item> \<open>pstate\<close> is the state of one script process;
  \<^item> \<open>('s, 'a) script\<close> is a computation that either returns a value or raises,
    together with the state it leaves behind (a raised exception does not undo the
    writes that came before it, as in Python);
  \<^item> Python truthiness of optional strings, used by every \<open>if value:\<close> of the code.
\<close>

named_theorems script_simps "unfolding rules of the script combinators"
named_theorems frame_intros "rules composing the frame of a script"
named_theorems preserves_intros "rules composing the invariants of a script"

subsection \<open>Exceptions\<close>

datatype exn =
    ClientError string          \<comment> \<open>\<open>botocore.exceptions.ClientError\<close>, by error code\<close>
  | ParamValidationError string \<comment> \<open>botocore's client-side parameter check, by parameter\<close>
  | FileNotFoundError string
  | PermissionError string
  | KeyError string
  | IndexError
  | ValueError string
  | SystemExit nat             \<comment> \<open>raised by \<open>sys.exit(n)\<close>\<close>

subsection \<open>Process state\<close>

record pstate =
  files :: "string \<rightharpoonup> string"       \<comment> \<open>path to file content\<close>
  readonly :: "string set"          \<comment> \<open>paths that cannot be opened for writing\<close>
  stdout :: "string list"           \<comment> \<open>lines printed so far\<close>
  environ :: "string \<rightharpoonup> string"     \<comment> \<open>\<open>os.environ\<close>\<close>

subsection \<open>Scripts: state passing with exceptions\<close>

type_synonym ('s, 'a) script = "'s \<Rightarrow> (exn + 'a) \<times> 's"

definition returnS :: "'a \<Rightarrow> ('s, 'a) script" where
  "returnS a s = (Inr a, s)"

definition raiseS :: "exn \<Rightarrow> ('s, 'a) script" where
  "raiseS e s = (Inl e, s)"

definition bindS :: "('s, 'a) script \<Rightarrow> ('a \<Rightarrow> ('s, 'b) script) \<Rightarrow> ('s, 'b) script" where
  "bindS m f s = (case m s of (Inl e, s') \<Rightarrow> (Inl e, s') | (Inr a, s') \<Rightarrow> f a s')"

text \<open>A pure computation that may raise (a provider call) as a script step.\<close>

definition liftS :: "exn + 'a \<Rightarrow> ('s, 'a) script" where
  "liftS r s = (r, s)"

definition print :: "string \<Rightarrow> (pstate, unit) script" where
  "print line s = (Inr (), s\<lparr>stdout := stdout s @ [line]\<rparr>)"

text \<open>
  The exit status of a Python process whose main code ends with the given outcome:
  normal completion is 0, \<open>sys.exit(n)\<close> is \<open>n\<close>, any other uncaught exception
  prints a traceback and exits with 1.
\<close>

fun exit_status :: "exn + 'a \<Rightarrow> nat" where
  "exit_status (Inr _) = 0"
| "exit_status (Inl (SystemExit n)) = n"
| "exit_status (Inl _) = 1"

subsection \<open>Computations that may raise\<close>

definition bindE :: "exn + 'a \<Rightarrow> ('a \<Rightarrow> exn + 'b) \<Rightarrow> exn + 'b" where
  "bindE r f = (case r of Inl e \<Rightarrow> Inl e | Inr a \<Rightarrow> f a)"

text \<open>A Python loop building a list, stopping at the first exception.\<close>

fun mapE :: "('a \<Rightarrow> exn + 'b) \<Rightarrow> 'a list \<Rightarrow> exn + 'b list" where
  "mapE f [] = Inr []"
| "mapE f (x # xs) = bindE (f x) (\<lambda>y. bindE (mapE f xs) (\<lambda>ys. Inr (y # ys)))"

text \<open>A Python \<open>for\<close> loop over a list whose body is a script, and one that threads
  an accumulator (the lists the scripts append to).\<close>

fun forS :: "('a \<Rightarrow> ('s, unit) script) \<Rightarrow> 'a list \<Rightarrow> ('s, unit) script" where
  "forS f [] = returnS ()"
| "forS f (x # xs) = bindS (f x) (\<lambda>_. forS f xs)"

fun foldS :: "('b \<Rightarrow> 'a \<Rightarrow> ('s, 'b) script) \<Rightarrow> 'b \<Rightarrow> 'a list \<Rightarrow> ('s, 'b) script" where
  "foldS f acc [] = returnS acc"
| "foldS f acc (x # xs) = bindS (f acc x) (\<lambda>acc'. foldS f acc' xs)"

text \<open>\<open>try: m except ClientError as e: if e.response['Error']['Code'] != code: raise e\<close>:
  the error with that code is swallowed (\<open>None\<close>), every other one propagates.\<close>

definition catch_code :: "string \<Rightarrow> ('s, 'a) script \<Rightarrow> ('s, 'a option) script" where
  "catch_code code m s =
     (case m s of
        (Inr a, s') \<Rightarrow> (Inr (Some a), s')
      | (Inl (ClientError c), s') \<Rightarrow> (if c = code then (Inr None, s') else (Inl (ClientError c), s'))
      | (Inl e, s') \<Rightarrow> (Inl e, s'))"

subsection \<open>Python truthiness of optional strings\<close>

text \<open>\<open>if v:\<close> on a value that is \<open>None\<close> or a \<open>str\<close>: both \<open>None\<close> and \<open>''\<close> are false.\<close>

fun truthy :: "string option \<Rightarrow> bool" where
  "truthy None = False"
| "truthy (Some v) = (v \<noteq> [])"

subsection \<open>Frames of scripts\<close>

text \<open>
  \<open>script_frame T M m\<close>: whatever its outcome, \<open>m\<close> changes no file outside \<open>T\<close>,
  leaves the environment and permissions alone, and only appends lines from \<open>M\<close> to the
  output.  The rules of the next section compose it over \<open>bindS\<close>, so a script's frame follows from
  the frames of its steps.
\<close>

definition script_frame :: "string set \<Rightarrow> string set \<Rightarrow> (pstate, 'a) script \<Rightarrow> bool" where
  "script_frame T M m \<longleftrightarrow>
     (\<forall>st r st'. m st = (r, st') \<longrightarrow>
        (\<forall>p. p \<notin> T \<longrightarrow> files st' p = files st p) \<and> environ st' = environ st \<and>
        readonly st' = readonly st \<and> (\<exists>ys. stdout st' = stdout st @ ys \<and> set ys \<subseteq> M))"

text \<open>\<open>preserves P m\<close>: every run of \<open>m\<close> from a state satisfying \<open>P\<close> ends, normally or
  by an exception, in a state satisfying \<open>P\<close>.\<close>

definition preserves :: "('s \<Rightarrow> bool) \<Rightarrow> ('s, 'a) script \<Rightarrow> bool" where
  "preserves P m \<longleftrightarrow> (\<forall>s r s'. P s \<longrightarrow> m s = (r, s') \<longrightarrow> P s')"

subsection \<open>Laws of the script combinators\<close>

lemma bindS_returnS [script_simps]: "bindS (returnS a) f = f a"
  by (rule ext) (simp add: bindS_def returnS_def)

lemma bindS_raiseS [script_simps]: "bindS (raiseS e) f = raiseS e"
  by (rule ext) (simp add: bindS_def raiseS_def)

lemma bindS_liftS [script_simps]:
  "bindS (liftS r) f = (case r of Inl e \<Rightarrow> raiseS e | Inr a \<Rightarrow> f a)"
  by (rule ext) (simp add: bindS_def liftS_def raiseS_def split: sum.split)

lemma bindS_assoc [script_simps]: "bindS (bindS m f) g = bindS m (\<lambda>a. bindS (f a) g)"
  by (rule ext) (simp add: bindS_def split: prod.split sum.split)

lemma bindS_print [script_simps]:
  "bindS (print l) f s = f () (s\<lparr>stdout := stdout s @ [l]\<rparr>)"
  by (simp add: bindS_def print_def)

lemma bindS_apply:
  "bindS m f s = (case m s of (Inl e, s') \<Rightarrow> (Inl e, s') | (Inr a, s') \<Rightarrow> f a s')"
  by (simp add: bindS_def)

declare returnS_def [script_simps] raiseS_def [script_simps]

lemma bindE_simps [simp]:
  "bindE (Inl e) f = Inl e"
  "bindE (Inr a) f = f a"
  by (simp_all add: bindE_def)

lemma bindE_eq_Inr: "bindE r f = Inr b \<longleftrightarrow> (\<exists>a. r = Inr a \<and> f a = Inr b)"
  by (cases r) auto

lemma mapE_Inr: "(\<forall>x \<in> set xs. \<exists>y. f x = Inr y) \<Longrightarrow> mapE f xs = Inr (map (\<lambda>x. projr (f x)) xs)"
  by (induction xs) auto

lemma mapE_Inr_length: "mapE f xs = Inr ys \<Longrightarrow> length ys = length xs"
  by (induction xs arbitrary: ys) (auto simp: bindE_eq_Inr)

lemma mapE_Inl: "x \<in> set xs \<Longrightarrow> f x = Inl e \<Longrightarrow> \<exists>e'. mapE f xs = Inl e'"
  by (induction xs) (auto simp: bindE_def split: sum.split)

subsection \<open>Frame rules\<close>

lemma frame_returnS [frame_intros]: "script_frame T M (returnS a)"
  by (auto simp: script_frame_def returnS_def)

lemma frame_raiseS [frame_intros]: "script_frame T M (raiseS e)"
  by (auto simp: script_frame_def raiseS_def)

lemma frame_liftS [frame_intros]: "script_frame T M (liftS r)"
  by (auto simp: script_frame_def liftS_def)

lemma frame_print [frame_intros]: "msg \<in> M \<Longrightarrow> script_frame T M (print msg)"
  by (auto simp: script_frame_def print_def)

lemma frame_if [frame_intros]:
  "script_frame T M a \<Longrightarrow> script_frame T M b \<Longrightarrow> script_frame T M (if c then a else b)"
  by simp

lemma frame_bindS [frame_intros]:
  assumes m: "script_frame T M m" and f: "\<And>a. script_frame T M (f a)"
  shows "script_frame T M (bindS m f)"
  unfolding script_frame_def
proof (intro allI impI)
  fix st r st'
  assume run: "bindS m f st = (r, st')"
  obtain r1 s1 where m1: "m st = (r1, s1)" by (cases "m st")
  from m m1 obtain ys where
    f1: "\<forall>p. p \<notin> T \<longrightarrow> files s1 p = files st p" and e1: "environ s1 = environ st"
    and ro1: "readonly s1 = readonly st" and o1: "stdout s1 = stdout st @ ys" and y1: "set ys \<subseteq> M"
    unfolding script_frame_def by blast
  show "(\<forall>p. p \<notin> T \<longrightarrow> files st' p = files st p) \<and> environ st' = environ st \<and>
      readonly st' = readonly st \<and> (\<exists>ys. stdout st' = stdout st @ ys \<and> set ys \<subseteq> M)"
  proof (cases r1)
    case (Inl e)
    with run m1 have "st' = s1" by (simp add: bindS_def)
    with f1 e1 ro1 o1 y1 show ?thesis by blast
  next
    case (Inr a)
    with run m1 have run2: "f a s1 = (r, st')" by (simp add: bindS_def)
    from f [of a] run2 obtain zs where
      "\<forall>p. p \<notin> T \<longrightarrow> files st' p = files s1 p" "environ st' = environ s1"
      "readonly st' = readonly s1" "stdout st' = stdout s1 @ zs" "set zs \<subseteq> M"
      unfolding script_frame_def by blast
    with f1 e1 ro1 o1 y1 show ?thesis
      by (intro conjI exI [of _ "ys @ zs"]) auto
  qed
qed

lemma frame_mono: "script_frame T M m \<Longrightarrow> T \<subseteq> T' \<Longrightarrow> M \<subseteq> M' \<Longrightarrow> script_frame T' M' m"
  unfolding script_frame_def by blast

subsection \<open>Invariants of scripts\<close>

lemma preserves_returnS [preserves_intros]: "preserves P (returnS a)"
  by (simp add: preserves_def returnS_def)

lemma preserves_raiseS [preserves_intros]: "preserves P (raiseS e)"
  by (simp add: preserves_def raiseS_def)

lemma preserves_liftS [preserves_intros]: "preserves P (liftS r)"
  by (simp add: preserves_def liftS_def)

lemma preserves_bindS [preserves_intros]:
  "preserves P m \<Longrightarrow> (\<And>a. preserves P (f a)) \<Longrightarrow> preserves P (bindS m f)"
  unfolding preserves_def
proof (intro allI impI)
  fix s r s'
  assume m: "\<forall>s r s'. P s \<longrightarrow> m s = (r, s') \<longrightarrow> P s'"
    and f: "\<And>a. \<forall>s r s'. P s \<longrightarrow> f a s = (r, s') \<longrightarrow> P s'"
    and p: "P s" and run: "bindS m f s = (r, s')"
  obtain r1 s1 where m1: "m s = (r1, s1)" by (cases "m s")
  with m p have p1: "P s1" by blast
  show "P s'"
  proof (cases r1)
    case (Inl e)
    with run m1 p1 show ?thesis by (simp add: bindS_def)
  next
    case (Inr a)
    with run m1 have "f a s1 = (r, s')" by (simp add: bindS_def)
    with f p1 show ?thesis by blast
  qed
qed

lemma preservesD: "preserves P m \<Longrightarrow> P s \<Longrightarrow> P (snd (m s))"
  unfolding preserves_def by (cases "m s") auto

lemma preserves_stateI:
  "(\<And>s. P s \<Longrightarrow> P (snd (m s))) \<Longrightarrow> preserves P m"
  unfolding preserves_def by (metis snd_conv)

lemma preserves_forS [preserves_intros]:
  "(\<And>x. preserves P (f x)) \<Longrightarrow> preserves P (forS f xs)"
  by (induction xs) (simp_all add: preserves_returnS preserves_bindS)

lemma preserves_foldS [preserves_intros]:
  "(\<And>acc x. preserves P (f acc x)) \<Longrightarrow> preserves P (foldS f acc xs)"
  by (induction xs arbitrary: acc) (simp_all add: preserves_returnS preserves_bindS)

lemma preserves_catch_code [preserves_intros]:
  "preserves P m \<Longrightarrow> preserves P (catch_code code m)"
  unfolding preserves_def catch_code_def
  by (auto split: prod.splits sum.splits exn.splits if_splits)

lemma forS_filter_field:
  assumes step: "\<And>x s. Inv s \<Longrightarrow> fst (f x s) = Inr () \<and> F (snd (f x s)) = filter (\<lambda>y. \<not> P x y) (F s) \<and> Inv (snd (f x s))"
  shows "Inv s \<Longrightarrow> fst (forS f xs s) = Inr () \<and>
    F (snd (forS f xs s)) = filter (\<lambda>y. \<not> (\<exists>x\<in>set xs. P x y)) (F s) \<and> Inv (snd (forS f xs s))"
proof (induction xs arbitrary: s)
  case Nil
  then show ?case by (simp add: returnS_def)
next
  case (Cons x xs)
  have h: "fst (f x s) = Inr () \<and> F (snd (f x s)) = filter (\<lambda>y. \<not> P x y) (F s) \<and> Inv (snd (f x s))"
    using step Cons.prems by blast
  then obtain s1 where run: "f x s = (Inr (), s1)"
    and f1: "F s1 = filter (\<lambda>y. \<not> P x y) (F s)" and i1: "Inv s1"
    by (cases "f x s") auto
  then have "forS f (x # xs) s = forS f xs s1" by (simp add: bindS_def)
  with Cons.IH [OF i1] f1 show ?case by (auto simp: filter_filter intro: filter_cong)
qed

lemma foldS_total:
  assumes "\<And>acc x s. x \<in> set xs \<Longrightarrow> Inv s \<Longrightarrow> (\<exists>a. f acc x s = (Inr a, T x s)) \<and> Inv (T x s)"
    and "Inv s"
  shows "\<exists>a. foldS f acc xs s = (Inr a, fold T xs s)"
  using assms
proof (induction xs arbitrary: acc s)
  case Nil
  then show ?case by (simp add: returnS_def)
next
  case (Cons x xs)
  from Cons.prems obtain a where run: "f acc x s = (Inr a, T x s)" and i: "Inv (T x s)"
    by (meson list.set_intros(1))
  have "\<exists>a'. foldS f a xs (T x s) = (Inr a', fold T xs (T x s))"
    by (rule Cons.IH) (use Cons.prems(1) i in auto)
  then show ?case by (simp add: bindS_def run)
qed

lemma preserves_if_cond [preserves_intros]:
  "(c \<Longrightarrow> preserves P a) \<Longrightarrow> (\<not> c \<Longrightarrow> preserves P b) \<Longrightarrow> preserves P (if c then a else b)"
  by simp

lemma preserves_read:
  "(\<And>s. preserves P (g s)) \<Longrightarrow> preserves P (\<lambda>s. g s s)"
  unfolding preserves_def by blast

lemma preserves_query: "preserves P (\<lambda>s. (f s, s))"
  by (simp add: preserves_def)

lemma preserves_case_option [preserves_intros]:
  "preserves P a \<Longrightarrow> (\<And>y. preserves P (b y)) \<Longrightarrow> preserves P (case opt of None \<Rightarrow> a | Some y \<Rightarrow> b y)"
  by (cases opt) simp_all

subsection \<open>Lists and association lists\<close>

lemma mapE_append:
  "mapE f (xs @ ys) = bindE (mapE f xs) (\<lambda>a. bindE (mapE f ys) (\<lambda>b. Inr (a @ b)))"
  by (induction xs) (auto simp: bindE_def split: sum.split)

lemma alist_update_new: "k \<notin> fst ` set al \<Longrightarrow> AList.update k v al = al @ [(k, v)]"
  by (induction al) auto

lemma mapE_Inr_iff: "mapE f xs = Inr ys \<longleftrightarrow> list_all2 (\<lambda>x y. f x = Inr y) xs ys"
proof (induction xs arbitrary: ys)
  case Nil
  then show ?case by auto
next
  case (Cons x xs)
  then show ?case by (cases ys) (auto simp: bindE_eq_Inr)
qed

lemma list_all2_map_of:
  assumes "list_all2 (\<lambda>x y. fst y = fst x \<and> R (snd x) (snd y)) xs ys" and "map_of xs k = Some v"
  shows "\<exists>w. map_of ys k = Some w \<and> R v w"
  using assms by (induction rule: list_all2_induct) (auto split: if_splits)

subsection \<open>Truthiness\<close>

lemma truthy_iff: "truthy v \<longleftrightarrow> (\<exists>x. v = Some x \<and> x \<noteq> [])"
  by (cases v) auto

subsection \<open>Lists\<close>

lemma prefix_drop_eq: "prefix xs ys \<Longrightarrow> ys = xs @ drop (length xs) ys"
  by (auto simp: prefix_def)

text \<open>Evaluation of occurrence tests on literal strings.\<close>

lemmas sublist_eval = sublist_code prefix_code

lemma sublist_Cons_iff: "sublist xs (y # ys) \<longleftrightarrow> prefix xs (y # ys) \<or> sublist xs ys"
  by (rule sublist_Cons_right)

end
