(* ===== verification/PyStr.thy ===== *)
theory PyStr
  imports Prelude
begin

text \<open>
  The Python string operations the scripts rely on, as CPython defines them:
  \<open>s.replace(old, new)\<close>, \<open>s.split(sep)\<close> and \<open>sep.join(parts)\<close>.
  \<open>str.replace\<close> with a non-empty \<open>old\<close> scans the text once from left to right and
  replaces each non-overlapping occurrence; text it has inserted is never scanned again.
  With an empty \<open>old\<close> it inserts \<open>new\<close> before every character and at the end.
  The main lemmas characterise \<open>replace\<close> as \<open>new.join(s.split(old))\<close>, show that the
  pieces between occurrences contain no occurrence, and give the round trip
  \<open>old.join(s.split(old)) = s\<close>.
\<close>

subsection \<open>Definitions\<close>

text \<open>The scan of \<open>replace\<close> for a non-empty pattern (CPython's \<open>replace_substring\<close>).\<close>

function replace_scan :: "string \<Rightarrow> string \<Rightarrow> string \<Rightarrow> string" where
  "replace_scan old new [] = []"
| "replace_scan old new (c # cs) =
     (if old \<noteq> [] \<and> prefix old (c # cs)
      then new @ replace_scan old new (drop (length old) (c # cs))
      else c # replace_scan old new cs)"
  by pat_completeness auto
termination
  by (relation "measure (\<lambda>(_, _, s). length s)") auto

definition str_replace :: "string \<Rightarrow> string \<Rightarrow> string \<Rightarrow> string" where
  "str_replace s old new =
     (if old = [] then new @ concat (map (\<lambda>c. c # new) s) else replace_scan old new s)"

text \<open>\<open>s.split(sep)\<close> for a non-empty separator; an empty one raises \<open>ValueError\<close>.\<close>

function split_scan :: "string \<Rightarrow> string \<Rightarrow> string list" where
  "split_scan sep [] = [[]]"
| "split_scan sep (c # cs) =
     (if sep \<noteq> [] \<and> prefix sep (c # cs)
      then [] # split_scan sep (drop (length sep) (c # cs))
      else (let r = split_scan sep cs in (c # hd r) # tl r))"
  by pat_completeness auto
termination
  by (relation "measure (\<lambda>(_, s). length s)") auto

definition str_split :: "string \<Rightarrow> string \<Rightarrow> exn + string list" where
  "str_split s sep = (if sep = [] then Inl (ValueError ''empty separator'') else Inr (split_scan sep s))"

fun str_join :: "string \<Rightarrow> string list \<Rightarrow> string" where
  "str_join sep [] = []"
| "str_join sep [x] = x"
| "str_join sep (x # y # ys) = x @ sep @ str_join sep (y # ys)"

text \<open>
  \<open>str(n)\<close> and \<open>int(s)\<close> for Python integers: decimal digits with a leading minus sign
  for negative numbers.  \<open>int(s)\<close> accepts an optional sign and a non-empty run of
  decimal digits and raises \<open>ValueError\<close> otherwise (the surrounding whitespace and the
  digit-group underscores that CPython also accepts are not modelled).  DynamoDB's
  low-level client returns numbers in this decimal form.
\<close>

definition digit_chars :: string where
  "digit_chars = ''0123456789''"

definition digit_char :: "nat \<Rightarrow> char" where
  "digit_char d = digit_chars ! d"

fun nat_str :: "nat \<Rightarrow> string" where
  "nat_str n = (if n < 10 then [digit_char n] else nat_str (n div 10) @ [digit_char (n mod 10)])"

definition dec_str :: "int \<Rightarrow> string" where
  "dec_str i = (if i < 0 then CHR ''-'' # nat_str (nat (- i)) else nat_str (nat i))"

definition char_digit :: "char \<Rightarrow> nat option" where
  "char_digit c = map_of (zip digit_chars [0, 1, 2, 3, 4, 5, 6, 7, 8, 9]) c"

fun digits_val :: "nat \<Rightarrow> string \<Rightarrow> nat option" where
  "digits_val acc [] = Some acc"
| "digits_val acc (c # cs) = (case char_digit c of None \<Rightarrow> None | Some d \<Rightarrow> digits_val (10 * acc + d) cs)"

definition split_sign :: "string \<Rightarrow> int \<times> string" where
  "split_sign s = (case s of [] \<Rightarrow> (1, [])
     | c # r \<Rightarrow> if c = CHR ''-'' then (-1, r) else if c = CHR ''+'' then (1, r) else (1, s))"

definition py_int :: "string \<Rightarrow> exn + int" where
  "py_int s =
     (let (sign, ds) = split_sign s
      in if ds = [] then Inl (ValueError s)
         else (case digits_val 0 ds of None \<Rightarrow> Inl (ValueError s) | Some n \<Rightarrow> Inr (sign * int n)))"

text \<open>\<open>str.lower()\<close> on the ASCII letters; other characters are kept (the names the
  scripts handle are ASCII).\<close>

definition upper_chars :: string where
  "upper_chars = ''ABCDEFGHIJKLMNOPQRSTUVWXYZ''"

definition lower_chars :: string where
  "lower_chars = ''abcdefghijklmnopqrstuvwxyz''"

definition lower_char :: "char \<Rightarrow> char" where
  "lower_char c = (case map_of (zip upper_chars lower_chars) c of None \<Rightarrow> c | Some l \<Rightarrow> l)"

definition str_lower :: "string \<Rightarrow> string" where
  "str_lower s = map lower_char s"

text \<open>The newline character, and \<open>repr\<close> of a list of strings as an f-string prints it
  (\<open>['a', 'b']\<close>), for strings without quotes or backslashes.\<close>

definition nl :: string where
  "nl = [CHR 0x0A]"

definition py_list_repr :: "string list \<Rightarrow> string" where
  "py_list_repr xs = ''['' @ str_join '', '' (map (\<lambda>x. [CHR 0x27] @ x @ [CHR 0x27]) xs) @ '']''"

subsection \<open>Basic facts\<close>

lemma split_scan_nonempty: "split_scan sep s \<noteq> []"
  by (induction sep s rule: split_scan.induct) (auto simp: Let_def)

lemma str_join_Cons_hd: "r \<noteq> [] \<Longrightarrow> str_join sep ((c # hd r) # tl r) = c # str_join sep r"
  by (cases r; cases "tl r") auto

lemma str_join_Nil_Cons: "r \<noteq> [] \<Longrightarrow> str_join sep ([] # r) = sep @ str_join sep r"
  by (cases r) auto

lemma split_scan_skip:
  "\<not> (sep \<noteq> [] \<and> prefix sep (c # cs)) \<Longrightarrow>
   split_scan sep (c # cs) = (c # hd (split_scan sep cs)) # tl (split_scan sep cs)"
  by (simp add: Let_def)

lemma replace_scan_join_split:
  "replace_scan old new s = str_join new (split_scan old s)"
proof (induction old s rule: split_scan.induct)
  case (1 sep)
  then show ?case by simp
next
  case (2 sep c cs)
  show ?case
  proof (cases "sep \<noteq> [] \<and> prefix sep (c # cs)")
    case True
    with "2.IH"(1) show ?thesis
      by (simp add: str_join_Nil_Cons split_scan_nonempty)
  next
    case False
    have "replace_scan sep new (c # cs) = c # replace_scan sep new cs"
      by (simp only: replace_scan.simps(2) if_not_P [OF False])
    then have "replace_scan sep new (c # cs) = c # str_join new (split_scan sep cs)"
      by (simp only: "2.IH"(2) [OF False])
    with False show ?thesis
      by (simp only: split_scan_skip str_join_Cons_hd split_scan_nonempty not_False_eq_True)
  qed
qed

lemma join_split_scan: "str_join sep (split_scan sep s) = s"
proof (induction sep s rule: split_scan.induct)
  case (1 sep)
  then show ?case by simp
next
  case (2 sep c cs)
  show ?case
  proof (cases "sep \<noteq> [] \<and> prefix sep (c # cs)")
    case True
    with "2.IH"(1) show ?thesis
      by (simp add: str_join_Nil_Cons split_scan_nonempty flip: prefix_drop_eq)
  next
    case False
    with "2.IH"(2) show ?thesis
      by (simp only: split_scan_skip str_join_Cons_hd split_scan_nonempty not_False_eq_True)
  qed
qed

lemma hd_split_scan_prefix: "prefix (hd (split_scan sep s)) s"
  by (induction sep s rule: split_scan.induct) (auto simp: Let_def)

lemma split_scan_pieces_free:
  "p \<in> set (split_scan sep s) \<Longrightarrow> sep \<noteq> [] \<Longrightarrow> \<not> sublist sep p"
proof (induction sep s arbitrary: p rule: split_scan.induct)
  case (1 sep)
  then show ?case by auto
next
  case (2 sep c cs)
  let ?r = "split_scan sep cs"
  show ?case
  proof (cases "prefix sep (c # cs)")
    case True
    with "2.IH"(1) "2.prems" show ?thesis by auto
  next
    case False
    have ne: "?r \<noteq> []" by (rule split_scan_nonempty)
    have hd_pre: "prefix (c # hd ?r) (c # cs)"
      using hd_split_scan_prefix [of sep cs] by simp
    have hd_free: "\<not> sublist sep (hd ?r)"
      using "2.IH"(2) [of "hd ?r"] False "2.prems"(2) ne by simp
    have "\<not> sublist sep (c # hd ?r)"
    proof
      assume "sublist sep (c # hd ?r)"
      then have "prefix sep (c # hd ?r) \<or> sublist sep (hd ?r)"
        by (simp only: sublist_Cons_iff)
      with hd_free have "prefix sep (c # hd ?r)" by simp
      from this hd_pre have "prefix sep (c # cs)" by (rule prefix_order.trans)
      with False show False by simp
    qed
    moreover have "p \<in> set (tl ?r) \<Longrightarrow> \<not> sublist sep p"
      using "2.IH"(2) False "2.prems"(2) ne by (cases ?r) auto
    ultimately show ?thesis
      using "2.prems"(1) False by (auto simp: Let_def)
  qed
qed

lemma replace_scan_absent: "\<not> sublist old s \<Longrightarrow> replace_scan old new s = s"
proof (induction old new s rule: replace_scan.induct)
  case (1 old new)
  then show ?case by simp
next
  case (2 old new c cs)
  then show ?case by (auto simp: sublist_Cons_iff)
qed

lemma str_replace_absent: "\<not> sublist old s \<Longrightarrow> str_replace s old new = s"
  by (auto simp: str_replace_def replace_scan_absent)

lemma str_replace_nonempty: "old \<noteq> [] \<Longrightarrow> str_replace s old new = replace_scan old new s"
  by (simp add: str_replace_def)

subsection \<open>Single-pass replacement\<close>

text \<open>
  For a non-empty token, \<open>s.replace(old, new)\<close> cuts \<open>s\<close> at the occurrences of
  \<open>old\<close> found by one left-to-right scan: the pieces, glued back with \<open>old\<close>, give
  \<open>s\<close> again (all text other than the replaced occurrences is kept, in order); no piece
  contains \<open>old\<close> (every occurrence of the original text is replaced); and the result is
  the pieces glued with \<open>new\<close> (inserted text is never scanned again).
\<close>

theorem str_replace_single_pass:
  assumes "old \<noteq> []"
  shows "str_replace s old new = str_join new (split_scan old s)
    \<and> str_join old (split_scan old s) = s
    \<and> (\<forall>p \<in> set (split_scan old s). \<not> sublist old p)"
  using assms
  by (simp add: str_replace_nonempty replace_scan_join_split join_split_scan split_scan_pieces_free)

theorem str_replace_single_pass_witness:
  "str_replace ''xABy'' ''AB'' ''Z'' = ''xZy'' \<and> split_scan ''AB'' ''xABy'' = [''x'', ''y'']"
proof -
  have "''AB'' \<noteq> []" by simp
  from str_replace_single_pass [OF this, of "''xABy''" "''Z''"] show ?thesis by simp
qed

subsection \<open>Decimal strings\<close>

declare nat_str.simps [simp del]

lemma char_digit_digit_char:
  assumes "d < 10" shows "char_digit (digit_char d) = Some d"
proof -
  have "\<forall>d \<in> {0, 1, 2, 3, 4, 5, 6, 7, 8, 9::nat}. char_digit (digit_char d) = Some d"
    by (simp add: char_digit_def digit_char_def digit_chars_def)
  moreover from assms have "d \<in> {0, 1, 2, 3, 4, 5, 6, 7, 8, 9::nat}" by auto
  ultimately show "char_digit (digit_char d) = Some d" by blast
qed

lemma digits_val_append:
  "digits_val acc (xs @ ys) = (case digits_val acc xs of None \<Rightarrow> None | Some a \<Rightarrow> digits_val a ys)"
  by (induction acc xs rule: digits_val.induct) (auto split: option.split)

lemma digits_val_nat_str: "digits_val acc (nat_str n) = Some (acc * 10 ^ length (nat_str n) + n)"
proof (induction n arbitrary: acc rule: nat_str.induct)
  case (1 n)
  show ?case
  proof (cases "n < 10")
    case True
    then have eq: "nat_str n = [digit_char n]" by (simp add: nat_str.simps)
    have "digits_val acc [digit_char n] = Some (10 * acc + n)"
      using True by (simp add: char_digit_digit_char)
    then show ?thesis by (simp only: eq) simp
  next
    case False
    let ?L = "length (nat_str (n div 10))"
    have eq: "nat_str n = nat_str (n div 10) @ [digit_char (n mod 10)]"
      using False by (simp add: nat_str.simps [of n])
    have "digits_val acc (nat_str n) =
        digits_val (acc * 10 ^ ?L + n div 10) [digit_char (n mod 10)]"
      using "1.IH" [OF False] by (simp add: eq digits_val_append)
    also have "\<dots> = Some (10 * (acc * 10 ^ ?L + n div 10) + n mod 10)"
      by (simp add: char_digit_digit_char)
    also have "10 * (acc * 10 ^ ?L + n div 10) + n mod 10 = acc * 10 ^ Suc ?L + n"
      by simp
    finally show ?thesis by (simp add: eq)
  qed
qed

lemma nat_str_nonempty: "nat_str n \<noteq> []"
  by (subst nat_str.simps) simp

lemma digit_char_mem: "d < 10 \<Longrightarrow> digit_char d \<in> set digit_chars"
  unfolding digit_char_def by (rule nth_mem) (simp add: digit_chars_def)

lemma hd_nat_str_digit: "hd (nat_str n) \<in> set digit_chars"
proof (induction n rule: nat_str.induct)
  case (1 n)
  then show ?case
    by (cases "n < 10") (simp_all add: nat_str.simps [of n] nat_str_nonempty digit_char_mem)
qed

lemma py_int_nat_str: "py_int (nat_str n) = Inr (int n)"
proof -
  obtain c cs where cs: "nat_str n = c # cs" using nat_str_nonempty by (cases "nat_str n") auto
  have "c \<in> set digit_chars" using hd_nat_str_digit [of n] cs by simp
  then have "c \<noteq> CHR ''-'' \<and> c \<noteq> CHR ''+''" by (auto simp: digit_chars_def)
  then show ?thesis using digits_val_nat_str [of 0 n] cs by (simp add: py_int_def split_sign_def)
qed

lemma py_int_dec_str: "py_int (dec_str i) = Inr i"
proof (cases "i < 0")
  case True
  then have "py_int (CHR ''-'' # nat_str (nat (- i))) = Inr i"
    using digits_val_nat_str [of 0 "nat (- i)"] nat_str_nonempty [of "nat (- i)"]
    by (simp add: py_int_def split_sign_def)
  with True show ?thesis by (simp add: dec_str_def)
next
  case False
  then show ?thesis by (simp add: dec_str_def py_int_nat_str)
qed

end
