(* ===== verification/Substitution.thy ===== *)
theory Substitution
  imports PyStr
begin

text \<open>
  The template substitution engine, \<open>replace_string_in_file\<close> of
  \<open>src/webgen/utils/prepare_files.py\<close>.  It reads the source file, applies the
  bindings \<open>(token, value)\<close> in list order, each as one \<open>str.replace\<close> over the
  whole current text, and writes the result to the target file.  A value that is falsy
  in Python (\<open>None\<close> or the empty string) is replaced by the sentinel \<open>NOT_FOUND\<close>.
  The lemmas give the effect of one binding, the no-op case, the frame of the file
  write and the error paths.
\<close>

type_synonym binding = "string \<times> string option"

definition NOT_FOUND :: string where
  "NOT_FOUND = ''NOT_FOUND''"

text \<open>The body of the \<open>for\<close> loop over \<open>str_list\<close> (lines 64--68).\<close>

fun substitute :: "binding list \<Rightarrow> string \<Rightarrow> string" where
  "substitute [] s = s"
| "substitute ((tok, v) # bs) s =
     substitute bs
       (if truthy v then str_replace s tok (the v) else str_replace s tok NOT_FOUND)"

text \<open>The whole function: read, substitute, write (lines 60--72).\<close>

definition replace_string_in_file :: "binding list \<Rightarrow> string \<Rightarrow> string \<Rightarrow> (pstate, unit) script" where
  "replace_string_in_file str_list source_file target_file st =
     (case files st source_file of
        None \<Rightarrow> (Inl (FileNotFoundError source_file), st)
      | Some text \<Rightarrow>
          if target_file \<in> readonly st then (Inl (PermissionError target_file), st)
          else (Inr (), st\<lparr>files := (files st)(target_file \<mapsto> substitute str_list text)\<rparr>))"

subsection \<open>Helper lemmas\<close>

text \<open>The text a binding puts in place of its token.\<close>

definition replacement :: "string option \<Rightarrow> string" where
  "replacement v = (if truthy v then the v else NOT_FOUND)"

lemma substitute_Cons_replacement:
  "substitute ((tok, v) # bs) s = substitute bs (str_replace s tok (replacement v))"
  by (simp add: replacement_def)

lemma replacement_simps [simp]:
  "replacement None = NOT_FOUND"
  "replacement (Some []) = NOT_FOUND"
  "x \<noteq> [] \<Longrightarrow> replacement (Some x) = x"
  by (simp_all add: replacement_def)

lemma substitute_append: "substitute (bs @ cs) s = substitute cs (substitute bs s)"
  by (induction bs arbitrary: s) (auto simp: substitute_Cons_replacement)

lemma replace_string_in_file_ok:
  "files st src = Some text \<Longrightarrow> tgt \<notin> readonly st \<Longrightarrow>
   replace_string_in_file bs src tgt st =
     (Inr (), st\<lparr>files := (files st)(tgt \<mapsto> substitute bs text)\<rparr>)"
  by (simp add: replace_string_in_file_def)

lemma replace_string_in_file_cases:
  "replace_string_in_file bs src tgt st = (r, st') \<Longrightarrow>
     (r = Inr () \<and> (\<exists>text. files st src = Some text \<and> tgt \<notin> readonly st \<and>
        st' = st\<lparr>files := (files st)(tgt \<mapsto> substitute bs text)\<rparr>))
   \<or> (\<exists>e. r = Inl e \<and> st' = st)"
  by (auto simp: replace_string_in_file_def split: option.splits if_splits)

lemma replace_string_in_file_frame:
  "replace_string_in_file bs src tgt st = (r, st') \<Longrightarrow> p \<noteq> tgt \<Longrightarrow> files st' p = files st p"
  by (auto simp: replace_string_in_file_def split: option.splits if_splits)

lemma replace_string_in_file_other_fields:
  "replace_string_in_file bs src tgt st = (r, st') \<Longrightarrow>
   stdout st' = stdout st \<and> environ st' = environ st \<and> readonly st' = readonly st"
  by (auto simp: replace_string_in_file_def split: option.splits if_splits)

lemma frame_replace [frame_intros]: "tgt \<in> T \<Longrightarrow> script_frame T M (replace_string_in_file bs src tgt)"
  unfolding script_frame_def
proof (intro allI impI)
  fix st r st'
  assume "tgt \<in> T" and run: "replace_string_in_file bs src tgt st = (r, st')"
  then show "(\<forall>p. p \<notin> T \<longrightarrow> files st' p = files st p) \<and> environ st' = environ st \<and>
      readonly st' = readonly st \<and> (\<exists>ys. stdout st' = stdout st @ ys \<and> set ys \<subseteq> M)"
    using replace_string_in_file_frame [OF run] replace_string_in_file_other_fields [OF run]
    by (metis append_Nil2 empty_set empty_subsetI)
qed

subsection \<open>Properties\<close>

text \<open>
  The scenario of the specification: a present value replaces its token, an absent
  one is written as \<open>NOT_FOUND\<close>, the rest of the text is kept.
\<close>

theorem substitute_spec_scenario:
  "substitute [(''REPLACE_ME_REGION'', Some ''us-east-1''), (''REPLACE_ME_USER_POOL_ID'', None)]
     ''url=REPLACE_ME_REGION;id=REPLACE_ME_USER_POOL_ID'' = ''url=us-east-1;id=NOT_FOUND''"
  by (simp add: str_replace_def NOT_FOUND_def)

text \<open>
  Substitution is a no-op on a text that contains none of the tokens: a second run on
  a file whose placeholders are gone leaves it as it is.
\<close>

theorem substitute_absent_noop:
  "(\<forall>(tok, v) \<in> set bs. \<not> sublist tok s) \<Longrightarrow> substitute bs s = s"
  by (induction bs) (auto simp: substitute_Cons_replacement str_replace_absent)

theorem substitute_absent_noop_witness:
  "substitute [(''REPLACE_ME_REGION'', Some ''eu-west-1'')] ''region=eu-west-1'' = ''region=eu-west-1''"
proof -
  have "\<forall>(tok, v) \<in> set [(''REPLACE_ME_REGION'', Some ''eu-west-1'')]. \<not> sublist tok ''region=eu-west-1''"
    by (simp add: sublist_eval)
  then show ?thesis by (rule substitute_absent_noop)
qed

text \<open>
  The bindings are applied one after the other to the whole current text, so a later
  token is also replaced where an earlier binding inserted it.  The specification asks
  that text introduced by one binding is not re-scanned for another; the code does not
  do that.
\<close>

theorem substitute_rescans_inserted_text:
  "substitute [(''REPLACE_ME_A'', Some ''REPLACE_ME_B''), (''REPLACE_ME_B'', Some ''x'')]
     ''REPLACE_ME_A'' = ''x''"
  by (simp add: str_replace_def)

text \<open>
  C4. A value that is present but empty is falsy in Python: wherever it stands in the
  bindings and whatever the text, it behaves exactly like an absent value, and its
  token is replaced by \<open>NOT_FOUND\<close> (for instance \<open>RECEIVER_EMAIL\<close> set to the empty
  string).
\<close>

theorem substitute_empty_value_is_sentinel:
  "substitute (bs @ (tok, Some []) # cs) s = substitute (bs @ (tok, None) # cs) s \<and>
   substitute (bs @ (tok, Some []) # cs) s = substitute cs (str_replace (substitute bs s) tok NOT_FOUND)"
  by (simp add: substitute_append substitute_Cons_replacement)

text \<open>
  C5. \<open>replace_string_in_file\<close> either succeeds, and then the target holds the
  substitution of the source text and every other file, the output and the environment
  are unchanged, or it raises and changes nothing.
\<close>

theorem replace_string_in_file_effect:
  assumes "replace_string_in_file bs src tgt st = (r, st')"
  shows "((r = Inr () \<and> (\<exists>text. files st src = Some text \<and>
            files st' tgt = Some (substitute bs text)))
       \<or> (\<exists>e. r = Inl e \<and> st' = st))
    \<and> (\<forall>p. p \<noteq> tgt \<longrightarrow> files st' p = files st p)
    \<and> stdout st' = stdout st \<and> environ st' = environ st"
  using replace_string_in_file_cases [OF assms] replace_string_in_file_frame [OF assms]
    replace_string_in_file_other_fields [OF assms]
  by auto

theorem replace_string_in_file_effect_witness:
  "files (snd (replace_string_in_file [(''T'', None)] ''f'' ''f''
      \<lparr>files = [''f'' \<mapsto> ''xTx''], readonly = {}, stdout = [], environ = Map.empty\<rparr>)) ''f''
    = Some ''xNOT_FOUNDx''"
proof -
  let ?st = "\<lparr>files = [''f'' \<mapsto> ''xTx''], readonly = {}, stdout = [], environ = Map.empty\<rparr>"
  obtain r st' where run: "replace_string_in_file [(''T'', None)] ''f'' ''f'' ?st = (r, st')"
    by (cases "replace_string_in_file [(''T'', None)] ''f'' ''f'' ?st")
  have r: "r = Inr ()"
    using run by (simp add: replace_string_in_file_def)
  from replace_string_in_file_effect [OF run] r
  have "files st' ''f'' = Some (substitute [(''T'', None)] ''xTx'')"
    by auto
  with run show ?thesis by (simp add: str_replace_def NOT_FOUND_def)
qed

end
