(* ===== verification/Provider.thy ===== *)
theory Provider
  imports Prelude
begin

text \<open>
  The provider query layer: the read-only lookups of \<open>src/webgen/utils/prepare_files.py\<close>
  (\<open>get_execute_api_endpoint\<close>, \<open>get_user_pool_id\<close>, \<open>get_user_pool_client_id\<close>,
  \<open>get_sagemaker_endpoint_name\<close>) over an explicit model of what the cloud holds.
  The cloud is a function from region names to the resources listed there; each list is
  in the provider's enumeration order.  What the provider does on its side is modelled
  from the SDK's documented behaviour: \<open>get_rest_apis\<close> returns its first page of 25
  items, the Cognito listings the \<open>MaxResults=10\<close> items asked for, \<open>list_endpoints\<close>
  the first page (\<open>MaxResults\<close> defaults to 10, and no \<open>NextToken\<close> is followed) of the
  endpoints filtered by status and name and sorted by creation time, newest first.
  A call may fail with a \<open>ClientError\<close> (the operations in \<open>failing\<close>), and botocore
  refuses \<open>None\<close> for a string parameter before any request is sent.
\<close>

datatype endpoint_status =
    OutOfService | Creating | Updating | SystemUpdating | RollingBack | InService
  | Deleting | Failed

record endpoint =
  ep_name :: string
  ep_status :: endpoint_status
  ep_created :: int

record region_state =
  rest_apis :: "(string \<times> string) list"          \<comment> \<open>(name, id)\<close>
  user_pools :: "(string \<times> string) list"         \<comment> \<open>(Name, Id)\<close>
  pool_clients :: "string \<rightharpoonup> (string \<times> string) list" \<comment> \<open>pool id to (ClientName, ClientId)\<close>
  sm_endpoints :: "endpoint list"
  failing :: "string set"                         \<comment> \<open>operations that raise a ClientError\<close>

type_synonym cloud = "string \<Rightarrow> region_state"

definition empty_region :: region_state where
  "empty_region = \<lparr>rest_apis = [], user_pools = [], pool_clients = Map.empty,
     sm_endpoints = [], failing = {}\<rparr>"

subsection \<open>The provider's side of each call\<close>

definition provider_call :: "region_state \<Rightarrow> string \<Rightarrow> 'a \<Rightarrow> exn + 'a" where
  "provider_call rs op resp = (if op \<in> failing rs then Inl (ClientError ''AccessDeniedException'') else Inr resp)"

definition get_rest_apis :: "region_state \<Rightarrow> exn + (string \<times> string) list" where
  "get_rest_apis rs = provider_call rs ''GetRestApis'' (take 25 (rest_apis rs))"

definition list_user_pools :: "region_state \<Rightarrow> nat \<Rightarrow> exn + (string \<times> string) list" where
  "list_user_pools rs max_results = provider_call rs ''ListUserPools'' (take max_results (user_pools rs))"

definition list_user_pool_clients ::
  "region_state \<Rightarrow> string option \<Rightarrow> nat \<Rightarrow> exn + (string \<times> string) list" where
  "list_user_pool_clients rs pool_id max_results =
     (case pool_id of
        None \<Rightarrow> Inl (ParamValidationError ''UserPoolId'')
      | Some pid \<Rightarrow>
          (case provider_call rs ''ListUserPoolClients'' (pool_clients rs pid) of
             Inl e \<Rightarrow> Inl e
           | Inr None \<Rightarrow> Inl (ClientError ''ResourceNotFoundException'')
           | Inr (Some cs) \<Rightarrow> Inr (take max_results cs)))"

definition list_endpoints :: "region_state \<Rightarrow> string \<Rightarrow> exn + endpoint list" where
  "list_endpoints rs name_contains =
     provider_call rs ''ListEndpoints''
       (take 10 (rev (sort_key ep_created
          (filter (\<lambda>e. ep_status e = InService \<and> sublist name_contains (ep_name e)) (sm_endpoints rs)))))"

text \<open>The region of a client created without \<open>region_name\<close>: botocore's default.\<close>

definition client_region :: "pstate \<Rightarrow> exn + string" where
  "client_region st = (case environ st ''AWS_DEFAULT_REGION'' of
                         None \<Rightarrow> Inl (ClientError ''NoRegionError'') | Some r \<Rightarrow> Inr r)"

subsection \<open>The lookups of the script\<close>

text \<open>
  The loops \<open>for x in items: if x[name] == wanted: found = x[id]\<close>: the last match wins.
\<close>

definition last_match :: "string \<Rightarrow> (string \<times> string) list \<Rightarrow> string option" where
  "last_match wanted items = foldl (\<lambda>found (n, i). if n = wanted then Some i else found) None items"

definition execute_api_url :: "string \<Rightarrow> string \<Rightarrow> string" where
  "execute_api_url api_id region = ''https://'' @ api_id @ ''.execute-api.'' @ region @ ''.amazonaws.com/prod''"

definition get_execute_api_endpoint :: "cloud \<Rightarrow> string \<Rightarrow> string \<Rightarrow> exn + string option" where
  "get_execute_api_endpoint c api_name region =
     (case get_rest_apis (c region) of
        Inl e \<Rightarrow> Inl e
      | Inr items \<Rightarrow>
          (let api_id = last_match api_name items
           in Inr (if truthy api_id then Some (execute_api_url (the api_id) region) else None)))"

text \<open>\<open>boto3.client('cognito-idp')\<close> has no \<open>region_name\<close>: the \<open>region\<close> argument is unused.\<close>

definition get_user_pool_id :: "cloud \<Rightarrow> pstate \<Rightarrow> string \<Rightarrow> string \<Rightarrow> exn + string option" where
  "get_user_pool_id c st user_pool_name region =
     (case client_region st of
        Inl e \<Rightarrow> Inl e
      | Inr r \<Rightarrow>
          (case list_user_pools (c r) 10 of
             Inl e \<Rightarrow> Inl e
           | Inr pools \<Rightarrow> Inr (last_match user_pool_name pools)))"

definition get_user_pool_client_id ::
  "cloud \<Rightarrow> pstate \<Rightarrow> string \<Rightarrow> string option \<Rightarrow> string \<Rightarrow> exn + string option" where
  "get_user_pool_client_id c st user_pool_client_name user_pool_id region =
     (case client_region st of
        Inl e \<Rightarrow> Inl e
      | Inr r \<Rightarrow>
          (case list_user_pool_clients (c r) user_pool_id 10 of
             Inl e \<Rightarrow> Inl e
           | Inr clients \<Rightarrow> Inr (last_match user_pool_client_name clients)))"

definition get_sagemaker_endpoint_name :: "cloud \<Rightarrow> string \<Rightarrow> string \<Rightarrow> exn + string option" where
  "get_sagemaker_endpoint_name c name_prefix region =
     (case list_endpoints (c region) name_prefix of
        Inl e \<Rightarrow> Inl e
      | Inr eps \<Rightarrow> Inr (if eps \<noteq> [] then Some (ep_name (hd eps)) else None))"

subsection \<open>Helper lemmas\<close>

lemma last_match_map_of: "last_match k xs = map_of (rev xs) k"
proof -
  have "foldl (\<lambda>found (n, i). if n = k then Some i else found) acc xs =
        (case map_of (rev xs) k of None \<Rightarrow> acc | Some i \<Rightarrow> Some i)" for acc
    by (induction xs arbitrary: acc rule: rev_induct) (auto split: option.split)
  then show ?thesis by (simp add: last_match_def split: option.split)
qed

lemma provider_call_ok [simp]: "op \<notin> failing rs \<Longrightarrow> provider_call rs op x = Inr x"
  by (simp add: provider_call_def)

lemma provider_call_fail [simp]:
  "op \<in> failing rs \<Longrightarrow> provider_call rs op x = Inl (ClientError ''AccessDeniedException'')"
  by (simp add: provider_call_def)

lemma sorted_rev_sort_key_desc:
  "sorted_wrt (\<lambda>a b. f b \<le> f a) (rev (sort_key f xs))"
proof -
  have "sorted_wrt (\<lambda>a b. f a \<le> f b) (sort_key f xs)"
    using sorted_sort_key [of f xs] by (simp only: sorted_map)
  then show ?thesis by (simp add: sorted_wrt_rev)
qed

lemma sort_key_eq_Nil [simp]: "sort_key f xs = [] \<longleftrightarrow> xs = []"
  by (metis length_0_conv length_sort)

lemma rev_sort_key_eq_Nil: "rev (sort_key f xs) = [] \<longleftrightarrow> xs = []"
  by simp

lemma hd_rev_sort_key_mem: "xs \<noteq> [] \<Longrightarrow> hd (rev (sort_key f xs)) \<in> set xs"
  by (metis hd_in_set rev_sort_key_eq_Nil set_rev set_sort)

lemma hd_rev_sort_key_max:
  assumes "xs \<noteq> []" and "y \<in> set xs"
  shows "f y \<le> f (hd (rev (sort_key f xs)))"
proof -
  let ?ys = "rev (sort_key f xs)"
  have ne: "?ys \<noteq> []" using assms(1) by simp
  have y: "y \<in> set ?ys" using assms(2) by simp
  have sw: "sorted_wrt (\<lambda>a b. f b \<le> f a) ?ys" by (rule sorted_rev_sort_key_desc)
  show ?thesis
  proof (cases "y = hd ?ys")
    case True
    then show ?thesis by simp
  next
    case False
    with y ne have "y \<in> set (tl ?ys)" by (cases ?ys) auto
    with sw ne show ?thesis by (cases ?ys) auto
  qed
qed

lemma get_execute_api_endpoint_found:
  assumes "''GetRestApis'' \<notin> failing (c region)"
    and "map_of (rev (take 25 (rest_apis (c region)))) api_name = Some i" and "i \<noteq> []"
  shows "get_execute_api_endpoint c api_name region = Inr (Some (execute_api_url i region))"
  using assms by (simp add: get_execute_api_endpoint_def get_rest_apis_def last_match_map_of)

lemma get_execute_api_endpoint_missing:
  assumes "''GetRestApis'' \<notin> failing (c region)"
    and "map_of (rev (take 25 (rest_apis (c region)))) api_name = None"
  shows "get_execute_api_endpoint c api_name region = Inr None"
  using assms by (simp add: get_execute_api_endpoint_def get_rest_apis_def last_match_map_of)

lemma get_user_pool_id_result:
  assumes "environ st ''AWS_DEFAULT_REGION'' = Some r" and "''ListUserPools'' \<notin> failing (c r)"
  shows "get_user_pool_id c st name region = Inr (map_of (rev (take 10 (user_pools (c r)))) name)"
  using assms
  by (simp add: get_user_pool_id_def client_region_def list_user_pools_def last_match_map_of)

lemma get_execute_api_endpoint_listed:
  assumes "''GetRestApis'' \<notin> failing (c region)"
  shows "get_execute_api_endpoint c n region =
    Inr (let api_id = map_of (rev (take 25 (rest_apis (c region)))) n
         in if truthy api_id then Some (execute_api_url (the api_id) region) else None)"
  using assms by (simp add: get_execute_api_endpoint_def get_rest_apis_def last_match_map_of Let_def)

lemma list_user_pool_clients_no_pool [simp]:
  "list_user_pool_clients rs None n = Inl (ParamValidationError ''UserPoolId'')"
  by (simp add: list_user_pool_clients_def)

subsection \<open>Properties\<close>

text \<open>
  C6. \<open>get_execute_api_endpoint\<close> never raises because no API has the name: when the
  listing succeeds it returns the URL built from the id of the last API of the first page
  with that name (the last match wins when names repeat), or \<open>None\<close>.
\<close>

theorem get_execute_api_endpoint_last_match:
  assumes "''GetRestApis'' \<notin> failing (c region)"
    and "\<forall>(n, i) \<in> set (rest_apis (c region)). i \<noteq> []"
  shows "get_execute_api_endpoint c api_name region =
    Inr (map_option (\<lambda>i. execute_api_url i region)
           (map_of (rev (take 25 (rest_apis (c region)))) api_name))"
proof (cases "map_of (rev (take 25 (rest_apis (c region)))) api_name")
  case None
  with assms(1) show ?thesis by (simp add: get_execute_api_endpoint_missing)
next
  case (Some i)
  then have "i \<noteq> []" using assms(2) by (auto dest!: map_of_SomeD in_set_takeD)
  with assms(1) Some show ?thesis by (simp add: get_execute_api_endpoint_found)
qed

theorem get_execute_api_endpoint_last_match_witness:
  "get_execute_api_endpoint
     (\<lambda>_. empty_region\<lparr>rest_apis := [(''MysfitsApi'', ''a1''), (''QuestionsAPI'', ''q9''), (''MysfitsApi'', ''b2'')]\<rparr>)
     ''MysfitsApi'' ''eu-west-1''
   = Inr (Some ''https://b2.execute-api.eu-west-1.amazonaws.com/prod'')"
proof -
  let ?c = "\<lambda>_::string. empty_region\<lparr>rest_apis := [(''MysfitsApi'', ''a1''), (''QuestionsAPI'', ''q9''), (''MysfitsApi'', ''b2'')]\<rparr>"
  have h1: "''GetRestApis'' \<notin> failing (?c ''eu-west-1'')" by (simp add: empty_region_def)
  have h2: "\<forall>(n, i) \<in> set (rest_apis (?c ''eu-west-1'')). i \<noteq> []" by simp
  show ?thesis
    using get_execute_api_endpoint_last_match [where c = ?c and region = "''eu-west-1''"
        and api_name = "''MysfitsApi''", OF h1 h2]
    by (simp add: execute_api_url_def)
qed

text \<open>
  C7. \<open>get_sagemaker_endpoint_name\<close> does not raise when the listing succeeds, and returns
  the name of an \<open>InService\<close> endpoint whose name contains the prefix and that no other
  such endpoint was created after, or \<open>None\<close> when there is no such endpoint.
\<close>

theorem get_sagemaker_endpoint_name_newest:
  assumes "''ListEndpoints'' \<notin> failing (c region)"
  shows "\<exists>r. get_sagemaker_endpoint_name c p region = Inr r \<and>
    (case r of
       None \<Rightarrow> \<not> (\<exists>e \<in> set (sm_endpoints (c region)). ep_status e = InService \<and> sublist p (ep_name e))
     | Some n \<Rightarrow> (\<exists>e \<in> set (sm_endpoints (c region)). ep_name e = n \<and> ep_status e = InService \<and>
          sublist p n \<and>
          (\<forall>e' \<in> set (sm_endpoints (c region)). ep_status e' = InService \<and> sublist p (ep_name e')
              \<longrightarrow> ep_created e' \<le> ep_created e)))"
proof -
  let ?ok = "\<lambda>e. ep_status e = InService \<and> sublist p (ep_name e)"
  let ?fs = "filter ?ok (sm_endpoints (c region))"
  let ?eps = "rev (sort_key ep_created ?fs)"
  have res: "get_sagemaker_endpoint_name c p region =
      Inr (if ?eps \<noteq> [] then Some (ep_name (hd ?eps)) else None)"
    using assms by (simp add: get_sagemaker_endpoint_name_def list_endpoints_def hd_take)
  show ?thesis
  proof (cases "?fs = []")
    case True
    then have "?eps = []" by simp
    with res have r: "get_sagemaker_endpoint_name c p region = Inr None" by simp
    from True have "\<not> (\<exists>e \<in> set (sm_endpoints (c region)). ?ok e)"
      by (simp only: filter_empty_conv) blast
    with r show ?thesis by simp
  next
    case False
    then have ne: "?eps \<noteq> []" by (simp only: rev_sort_key_eq_Nil) simp
    with res have r: "get_sagemaker_endpoint_name c p region = Inr (Some (ep_name (hd ?eps)))"
      by simp
    have "hd ?eps \<in> set ?fs" using False by (rule hd_rev_sort_key_mem)
    then have mem: "hd ?eps \<in> set (sm_endpoints (c region))" and ok: "?ok (hd ?eps)"
      by simp_all
    have "\<forall>e' \<in> set ?fs. ep_created e' \<le> ep_created (hd ?eps)"
      using hd_rev_sort_key_max [OF False] by blast
    then have max: "\<forall>e' \<in> set (sm_endpoints (c region)). ?ok e' \<longrightarrow> ep_created e' \<le> ep_created (hd ?eps)"
      by simp
    have "\<exists>e \<in> set (sm_endpoints (c region)). ep_name e = ep_name (hd ?eps) \<and> ep_status e = InService \<and>
          sublist p (ep_name (hd ?eps)) \<and>
          (\<forall>e' \<in> set (sm_endpoints (c region)). ?ok e' \<longrightarrow> ep_created e' \<le> ep_created e)"
      using mem ok max by blast
    with r show ?thesis by simp
  qed
qed

theorem get_sagemaker_endpoint_name_newest_witness:
  "get_sagemaker_endpoint_name
     (\<lambda>_. empty_region\<lparr>sm_endpoints :=
        [\<lparr>ep_name = ''mysfits-knn-1'', ep_status = InService, ep_created = 10\<rparr>,
         \<lparr>ep_name = ''mysfits-knn-2'', ep_status = InService, ep_created = 20\<rparr>,
         \<lparr>ep_name = ''mysfits-knn-3'', ep_status = Creating, ep_created = 30\<rparr>]\<rparr>)
     ''knn-'' ''eu-west-1'' = Inr (Some ''mysfits-knn-2'')"
proof -
  let ?c = "\<lambda>_::string. empty_region\<lparr>sm_endpoints :=
        [\<lparr>ep_name = ''mysfits-knn-1'', ep_status = InService, ep_created = 10\<rparr>,
         \<lparr>ep_name = ''mysfits-knn-2'', ep_status = InService, ep_created = 20\<rparr>,
         \<lparr>ep_name = ''mysfits-knn-3'', ep_status = Creating, ep_created = 30\<rparr>]\<rparr>"
  have h: "''ListEndpoints'' \<notin> failing (?c ''eu-west-1'')" by (simp add: empty_region_def)
  from get_sagemaker_endpoint_name_newest [where c = ?c and region = "''eu-west-1''"
      and p = "''knn-''", OF h]
  obtain r where "get_sagemaker_endpoint_name ?c ''knn-'' ''eu-west-1'' = Inr r" by blast
  then show ?thesis
    by (simp add: get_sagemaker_endpoint_name_def list_endpoints_def sublist_eval
        provider_call_def empty_region_def)
qed

text \<open>
  C8. When the user pool was not found, \<open>get_user_pool_client_id\<close> is called with
  \<open>UserPoolId=None\<close>; botocore rejects the parameter and the call raises instead of
  returning "not found".
\<close>

theorem get_user_pool_client_id_none_pool_raises:
  assumes "environ st ''AWS_DEFAULT_REGION'' = Some r"
  shows "get_user_pool_client_id c st name None region = Inl (ParamValidationError ''UserPoolId'')"
  using assms
  by (simp add: get_user_pool_client_id_def client_region_def list_user_pool_clients_def)

theorem get_user_pool_client_id_none_pool_raises_witness:
  "get_user_pool_client_id (\<lambda>_. empty_region)
     \<lparr>files = Map.empty, readonly = {}, stdout = [], environ = [''AWS_DEFAULT_REGION'' \<mapsto> ''eu-west-1'']\<rparr>
     ''MysfitsUserPoolClient'' None ''eu-west-1'' = Inl (ParamValidationError ''UserPoolId'')"
  by (rule get_user_pool_client_id_none_pool_raises) simp

end
