(* ===== verification/Orchestration.thy ===== *)
theory Orchestration
  imports Substitution Provider
begin

text \<open>
  The orchestration script, \<open>src/webgen/utils/prepare_files.py\<close>: four update modes,
  each a sequence of provider lookups, diagnostic prints and calls of
  \<open>replace_string_in_file\<close>, and the \<open>__main__\<close> block that reads the region from
  the environment and the mode from \<open>sys.argv[1]\<close>.  Each function is a script over the
  process state; the cloud is read-only during a run.  \<open>sys.exit(1)\<close> is the exception
  \<open>SystemExit 1\<close>, so a run's exit status is read off its outcome by \<open>exit_status\<close>.
\<close>

text \<open>\<open>if not v: print(msg)\<close>\<close>

definition warn_if_missing :: "string option \<Rightarrow> string \<Rightarrow> (pstate, unit) script" where
  "warn_if_missing v msg = (if truthy v then returnS () else print msg)"

text \<open>A lookup of the provider layer run in the current process state.\<close>

definition lookupS :: "(pstate \<Rightarrow> exn + 'a) \<Rightarrow> (pstate, 'a) script" where
  "lookupS f st = (f st, st)"

definition index_bindings ::
  "string option \<Rightarrow> string option \<Rightarrow> string option \<Rightarrow> string option \<Rightarrow> string
   \<Rightarrow> string option \<Rightarrow> string option \<Rightarrow> binding list" where
  "index_bindings api click questions recommendations region pool client =
     [(''REPLACE_ME_mysfitsApiEndpoint'', api),
      (''REPLACE_ME_streamingApiEndpoint'', click),
      (''REPLACE_ME_questionsApiEndpoint'', questions),
      (''REPLACE_ME_recommendationsApiEndpoint'', recommendations),
      (''REPLACE_ME_REGION'', Some region),
      (''REPLACE_ME_USER_POOL_ID'', pool),
      (''REPLACE_ME_USER_POOL_CLIENT_ID'', client)]"

definition cognito_bindings :: "string option \<Rightarrow> string option \<Rightarrow> binding list" where
  "cognito_bindings pool client =
     [(''REPLACE_ME_USER_POOL_ID'', pool), (''REPLACE_ME_USER_POOL_CLIENT_ID'', client)]"

text \<open>
  \<open>prepare_web_files\<close> (lines 75--132).  The three checks after the first one test
  \<open>api_endpoint\<close> again, as the code does, not the value just looked up.
\<close>

definition prepare_web_files :: "cloud \<Rightarrow> string \<Rightarrow> (pstate, unit) script" where
  "prepare_web_files c region =
     bindS (liftS (get_execute_api_endpoint c ''MysfitsApi'' region)) (\<lambda>api_endpoint.
     bindS (if \<not> truthy api_endpoint
            then bindS (print ''Found no API MysfitsApi'') (\<lambda>_. raiseS (SystemExit 1))
            else returnS ()) (\<lambda>_.
     bindS (liftS (get_execute_api_endpoint c ''ClickProcessingApi'' region)) (\<lambda>click_processing_api_endpoint.
     bindS (warn_if_missing api_endpoint ''Found no API ClickProcessingApi'') (\<lambda>_.
     bindS (liftS (get_execute_api_endpoint c ''QuestionsAPI'' region)) (\<lambda>questions_api_endpoint.
     bindS (warn_if_missing api_endpoint ''Found no API QuestionsAPI'') (\<lambda>_.
     bindS (liftS (get_execute_api_endpoint c ''RecommendationsAPI'' region)) (\<lambda>recommendations_api_endpoint.
     bindS (warn_if_missing api_endpoint ''Found no API RecommendationsAPI'') (\<lambda>_.
     bindS (lookupS (\<lambda>st. get_user_pool_id c st ''MysfitsUserPool'' region)) (\<lambda>user_pool_id.
     bindS (warn_if_missing user_pool_id ''Found no user pool MysfitsUserPool'') (\<lambda>_.
     bindS (lookupS (\<lambda>st. get_user_pool_client_id c st ''MysfitsUserPoolClient'' user_pool_id region))
       (\<lambda>user_pool_client_id.
     bindS (warn_if_missing user_pool_client_id ''Found no user pool client MysfitsUserPoolClient'') (\<lambda>_.
     bindS (replace_string_in_file
              (index_bindings api_endpoint click_processing_api_endpoint questions_api_endpoint
                 recommendations_api_endpoint region user_pool_id user_pool_client_id)
              ''web/index.html'' ''web/index.html'') (\<lambda>_.
     bindS (replace_string_in_file (cognito_bindings user_pool_id user_pool_client_id)
              ''web/register.html'' ''web/register.html'') (\<lambda>_.
     replace_string_in_file (cognito_bindings user_pool_id user_pool_client_id)
              ''web/confirm.html'' ''web/confirm.html''))))))))))))))"

text \<open>\<open>prepare_kinesis_file\<close> (lines 135--145).\<close>

definition prepare_kinesis_file :: "cloud \<Rightarrow> string \<Rightarrow> (pstate, unit) script" where
  "prepare_kinesis_file c region =
     bindS (liftS (get_execute_api_endpoint c ''MysfitsApi'' region)) (\<lambda>api_endpoint.
     bindS (warn_if_missing api_endpoint ''Found no API MysfitsApi'') (\<lambda>_.
     replace_string_in_file [(''REPLACE_ME_API_URL'', api_endpoint)]
       ''webgen/kinesis_firehose_stack.py'' ''webgen/kinesis_firehose_stack.py''))"

text \<open>
  \<open>prepare_xray_file\<close> (lines 148--154) with the module-level
  \<open>receiver_email = os.environ.get('RECEIVER_EMAIL', None)\<close> (line 9).  The script
  never changes its environment, so reading it here gives the value read at import.
\<close>

definition prepare_xray_file :: "cloud \<Rightarrow> string \<Rightarrow> (pstate, unit) script" where
  "prepare_xray_file c region st =
     (let receiver_email = environ st ''RECEIVER_EMAIL''
      in replace_string_in_file [(''REPLACE_ME_RECEIVER_EMAIL'', receiver_email)]
           ''webgen/xray_stack.py'' ''webgen/xray_stack.py'' st)"

text \<open>\<open>prepare_recommendations_file\<close> (lines 177--187).\<close>

definition prepare_recommendations_file :: "cloud \<Rightarrow> string \<Rightarrow> (pstate, unit) script" where
  "prepare_recommendations_file c region =
     bindS (liftS (get_sagemaker_endpoint_name c ''knn-'' region)) (\<lambda>sagemaker_endpoint_name.
     bindS (warn_if_missing sagemaker_endpoint_name ''Found no endpoint for lambda recommendations.py'') (\<lambda>_.
     replace_string_in_file [(''REPLACE_ME_SAGEMAKER_ENDPOINT_NAME'', sagemaker_endpoint_name)]
       ''lambda_recommendations/service/recommendations.py''
       ''lambda_recommendations/service/recommendations.py''))"

text \<open>
  The \<open>__main__\<close> block (lines 190--202): \<open>os.environ['AWS_DEFAULT_REGION']\<close> raises
  \<open>KeyError\<close> when unset, \<open>sys.argv[1]\<close> raises \<open>IndexError\<close> without an argument, and a
  mode other than the four is silently ignored.  \<open>argv\<close> includes the script name.
\<close>

definition prepare_main :: "cloud \<Rightarrow> string list \<Rightarrow> (pstate, unit) script" where
  "prepare_main c argv st =
     (case environ st ''AWS_DEFAULT_REGION'' of
        None \<Rightarrow> (Inl (KeyError ''AWS_DEFAULT_REGION''), st)
      | Some api_region \<Rightarrow>
          if length argv < 2 then (Inl IndexError, st)
          else
            (let update_type = argv ! 1 in
             if update_type = ''replace_web_endpoints_and_cognito_ids'' then prepare_web_files c api_region st
             else if update_type = ''replace_clickprocessingapi_endpoint'' then prepare_kinesis_file c api_region st
             else if update_type = ''replace_email'' then prepare_xray_file c api_region st
             else if update_type = ''replace_recommendationsapi_endpoint'' then prepare_recommendations_file c api_region st
             else (Inr (), st)))"

text \<open>The files each mode may write.\<close>

definition mode_targets :: "string \<Rightarrow> string set" where
  "mode_targets m =
     (if m = ''replace_web_endpoints_and_cognito_ids'' then {''web/index.html'', ''web/register.html'', ''web/confirm.html''}
      else if m = ''replace_clickprocessingapi_endpoint'' then {''webgen/kinesis_firehose_stack.py''}
      else if m = ''replace_email'' then {''webgen/xray_stack.py''}
      else if m = ''replace_recommendationsapi_endpoint'' then {''lambda_recommendations/service/recommendations.py''}
      else {})"

definition web_messages :: "string set" where
  "web_messages = {''Found no API MysfitsApi'', ''Found no user pool MysfitsUserPool'',
     ''Found no user pool client MysfitsUserPoolClient''}"

text \<open>A process state and a cloud used by the examples below.\<close>

definition st_demo :: pstate where
  "st_demo = \<lparr>files = [''webgen/xray_stack.py'' \<mapsto> ''receiver_email = REPLACE_ME_RECEIVER_EMAIL'',
                        ''web/index.html'' \<mapsto> ''api=REPLACE_ME_mysfitsApiEndpoint'',
                        ''web/register.html'' \<mapsto> ''pool=REPLACE_ME_USER_POOL_ID'',
                        ''web/confirm.html'' \<mapsto> ''pool=REPLACE_ME_USER_POOL_ID''],
     readonly = {}, stdout = [], environ = [''AWS_DEFAULT_REGION'' \<mapsto> ''eu-west-1'']\<rparr>"

definition cloud_demo :: cloud where
  "cloud_demo = (\<lambda>_. empty_region\<lparr>rest_apis := [(''MysfitsApi'', ''m1'')],
     user_pools := [(''MysfitsUserPool'', ''p1'')],
     pool_clients := [''p1'' \<mapsto> [(''MysfitsUserPoolClient'', ''k1'')]]\<rparr>)"

subsection \<open>Script laws for lookups\<close>

lemma bindS_lookupS [script_simps]:
  "bindS (lookupS f) g st = (case f st of Inl e \<Rightarrow> (Inl e, st) | Inr a \<Rightarrow> g a st)"
  by (simp add: bindS_def lookupS_def split: sum.split)

subsection \<open>Frames of the modes\<close>

lemma frame_lookupS [frame_intros]: "script_frame T M (lookupS f)"
  by (auto simp: script_frame_def lookupS_def)

lemma frame_warn [frame_intros]: "msg \<in> M \<Longrightarrow> script_frame T M (warn_if_missing v msg)"
  by (auto simp: warn_if_missing_def intro: frame_print frame_returnS)

lemma warn_if_missing_truthy: "truthy v \<Longrightarrow> warn_if_missing v msg = returnS ()"
  by (simp add: warn_if_missing_def)

lemma frame_exit_guard:
  assumes "msg \<in> M" and "b \<Longrightarrow> script_frame T M k"
  shows "script_frame T M (bindS (if \<not> b then bindS (print msg) (\<lambda>_. raiseS e) else returnS ()) (\<lambda>_. k))"
proof (cases b)
  case True
  with assms(2) show ?thesis by (simp add: script_simps)
next
  case False
  have "script_frame T M (bindS (print msg) (\<lambda>_. raiseS e))"
    using assms(1) by (intro frame_intros)
  with False show ?thesis by (simp add: script_simps)
qed

lemma prepare_web_files_frame:
  "script_frame {''web/index.html'', ''web/register.html'', ''web/confirm.html''} web_messages
     (prepare_web_files c region)"
  unfolding prepare_web_files_def
  apply (rule frame_bindS [OF frame_liftS])
  apply (rule frame_exit_guard)
  subgoal by (simp add: web_messages_def)
  subgoal by (simp only: warn_if_missing_truthy) (intro frame_intros; simp add: web_messages_def)
  done

lemma prepare_kinesis_file_frame:
  "script_frame {''webgen/kinesis_firehose_stack.py''} UNIV (prepare_kinesis_file c region)"
  unfolding prepare_kinesis_file_def by (intro frame_intros) simp_all

lemma prepare_recommendations_file_frame:
  "script_frame {''lambda_recommendations/service/recommendations.py''} UNIV (prepare_recommendations_file c region)"
  unfolding prepare_recommendations_file_def by (intro frame_intros) simp_all

lemma prepare_xray_file_frame:
  "script_frame {''webgen/xray_stack.py''} UNIV (prepare_xray_file c region)"
  unfolding script_frame_def
proof (intro allI impI)
  fix st r st'
  assume run: "prepare_xray_file c region st = (r, st')"
  have "script_frame {''webgen/xray_stack.py''} UNIV
      (replace_string_in_file [(''REPLACE_ME_RECEIVER_EMAIL'', environ st ''RECEIVER_EMAIL'')]
         ''webgen/xray_stack.py'' ''webgen/xray_stack.py'')"
    by (rule frame_replace) simp
  with run show "(\<forall>p. p \<notin> {''webgen/xray_stack.py''} \<longrightarrow> files st' p = files st p) \<and>
      environ st' = environ st \<and> readonly st' = readonly st \<and>
      (\<exists>ys. stdout st' = stdout st @ ys \<and> set ys \<subseteq> UNIV)"
    unfolding script_frame_def prepare_xray_file_def Let_def by blast
qed

lemma prepare_main_frame:
  assumes "1 < length argv"
  shows "script_frame (mode_targets (argv ! 1)) UNIV (prepare_main c argv)"
  unfolding script_frame_def
proof (intro allI impI)
  fix st r st'
  assume run: "prepare_main c argv st = (r, st')"
  show "(\<forall>p. p \<notin> mode_targets (argv ! 1) \<longrightarrow> files st' p = files st p) \<and>
      environ st' = environ st \<and> readonly st' = readonly st \<and>
      (\<exists>ys. stdout st' = stdout st @ ys \<and> set ys \<subseteq> UNIV)"
  proof (cases "environ st ''AWS_DEFAULT_REGION''")
    case None
    with run show ?thesis by (simp add: prepare_main_def)
  next
    case (Some reg)
    have web: "script_frame (mode_targets ''replace_web_endpoints_and_cognito_ids'') UNIV (prepare_web_files c reg)"
      by (rule frame_mono [OF prepare_web_files_frame]) (simp_all add: mode_targets_def)
    have kin: "script_frame (mode_targets ''replace_clickprocessingapi_endpoint'') UNIV (prepare_kinesis_file c reg)"
      by (simp add: mode_targets_def prepare_kinesis_file_frame)
    have xr: "script_frame (mode_targets ''replace_email'') UNIV (prepare_xray_file c reg)"
      by (simp add: mode_targets_def prepare_xray_file_frame)
    have rec: "script_frame (mode_targets ''replace_recommendationsapi_endpoint'') UNIV (prepare_recommendations_file c reg)"
      by (simp add: mode_targets_def prepare_recommendations_file_frame)
    show ?thesis
      using run Some assms web kin xr rec
      unfolding prepare_main_def script_frame_def Let_def
      by (auto split: if_splits)
  qed
qed

subsection \<open>Properties\<close>

text \<open>
  C9. In the web mode the diagnostics for a missing ClickProcessingApi, QuestionsAPI or
  RecommendationsAPI are never printed: the code tests \<open>api_endpoint\<close> (known to be
  set at that point) instead of the value it has just looked up.
\<close>

theorem prepare_web_files_never_reports_other_apis:
  assumes "prepare_web_files c region st = (r, st')"
  shows "\<exists>ys. stdout st' = stdout st @ ys \<and> ''Found no API ClickProcessingApi'' \<notin> set ys \<and>
     ''Found no API QuestionsAPI'' \<notin> set ys \<and> ''Found no API RecommendationsAPI'' \<notin> set ys"
proof -
  from prepare_web_files_frame [of c region] assms
  obtain ys where "stdout st' = stdout st @ ys" and "set ys \<subseteq> web_messages"
    unfolding script_frame_def by blast
  then show ?thesis by (auto simp: web_messages_def)
qed

theorem prepare_web_files_never_reports_other_apis_witness:
  "get_execute_api_endpoint cloud_demo ''ClickProcessingApi'' ''eu-west-1'' = Inr None \<and>
   ''Found no API ClickProcessingApi'' \<notin> set (stdout (snd (prepare_web_files cloud_demo ''eu-west-1'' st_demo)))"
proof -
  obtain r st' where run: "prepare_web_files cloud_demo ''eu-west-1'' st_demo = (r, st')"
    by (cases "prepare_web_files cloud_demo ''eu-west-1'' st_demo")
  from prepare_web_files_never_reports_other_apis [OF run]
  have "''Found no API ClickProcessingApi'' \<notin> set (stdout st')"
    by (auto simp: st_demo_def)
  moreover have "get_execute_api_endpoint cloud_demo ''ClickProcessingApi'' ''eu-west-1'' = Inr None"
    by (simp add: cloud_demo_def get_execute_api_endpoint_def get_rest_apis_def empty_region_def
        last_match_def)
  ultimately show ?thesis using run by simp
qed

text \<open>
  C10. Whatever the outcome, a run of the script changes no file other than the target
  files of the mode it was given, and no file at all for an unknown mode.
\<close>

theorem prepare_main_mode_frame:
  assumes "prepare_main c argv st = (r, st')" and "1 < length argv" and "p \<notin> mode_targets (argv ! 1)"
  shows "files st' p = files st p"
  using prepare_main_frame [OF assms(2)] assms(1,3) unfolding script_frame_def by blast

theorem prepare_main_mode_frame_witness:
  "files (snd (prepare_main cloud_demo [''prepare_files.py'', ''replace_email''] st_demo)) ''web/index.html''
     = Some ''api=REPLACE_ME_mysfitsApiEndpoint''"
proof -
  obtain r st' where run: "prepare_main cloud_demo [''prepare_files.py'', ''replace_email''] st_demo = (r, st')"
    by (cases "prepare_main cloud_demo [''prepare_files.py'', ''replace_email''] st_demo")
  have "''web/index.html'' \<notin> mode_targets ([''prepare_files.py'', ''replace_email''] ! 1)"
    by (simp add: mode_targets_def)
  from prepare_main_mode_frame [OF run _ this] run show ?thesis by (simp add: st_demo_def)
qed

text \<open>
  C11. In the web mode, when no API named MysfitsApi is found, the script prints the
  diagnostic and exits with status 1 before any file is touched.
\<close>

theorem prepare_main_web_missing_api_exits:
  assumes "environ st ''AWS_DEFAULT_REGION'' = Some region"
    and "''GetRestApis'' \<notin> failing (c region)"
    and "map_of (rev (take 25 (rest_apis (c region)))) ''MysfitsApi'' = None"
  shows "prepare_main c [prog, ''replace_web_endpoints_and_cognito_ids''] st =
           (Inl (SystemExit 1), st\<lparr>stdout := stdout st @ [''Found no API MysfitsApi'']\<rparr>)"
  using assms
  by (simp add: prepare_main_def prepare_web_files_def get_execute_api_endpoint_missing script_simps)

theorem prepare_main_web_missing_api_exits_witness:
  "exit_status (fst (prepare_main (\<lambda>_. empty_region)
      [''prepare_files.py'', ''replace_web_endpoints_and_cognito_ids''] st_demo)) = 1 \<and>
   files (snd (prepare_main (\<lambda>_. empty_region)
      [''prepare_files.py'', ''replace_web_endpoints_and_cognito_ids''] st_demo)) = files st_demo"
proof -
  have "prepare_main (\<lambda>_. empty_region) [''prepare_files.py'', ''replace_web_endpoints_and_cognito_ids''] st_demo =
      (Inl (SystemExit 1), st_demo\<lparr>stdout := stdout st_demo @ [''Found no API MysfitsApi'']\<rparr>)"
    by (rule prepare_main_web_missing_api_exits) (simp_all add: st_demo_def empty_region_def)
  then show ?thesis by simp
qed

text \<open>
  C12. In the email mode with \<open>RECEIVER_EMAIL\<close> unset, the placeholder of the X-Ray
  stack file is replaced by \<open>NOT_FOUND\<close> and the run completes normally (status 0).
\<close>

theorem prepare_main_email_unset_sentinel:
  assumes "environ st ''AWS_DEFAULT_REGION'' = Some region"
    and "environ st ''RECEIVER_EMAIL'' = None"
    and "files st ''webgen/xray_stack.py'' = Some text"
    and "''webgen/xray_stack.py'' \<notin> readonly st"
  shows "prepare_main c [prog, ''replace_email''] st =
     (Inr (), st\<lparr>files := (files st)(''webgen/xray_stack.py'' \<mapsto>
                    str_replace text ''REPLACE_ME_RECEIVER_EMAIL'' ''NOT_FOUND'')\<rparr>)"
  using assms
  by (simp add: prepare_main_def prepare_xray_file_def replace_string_in_file_ok NOT_FOUND_def)

theorem prepare_main_email_unset_sentinel_witness:
  "files (snd (prepare_main (\<lambda>_. empty_region) [''prepare_files.py'', ''replace_email''] st_demo))
     ''webgen/xray_stack.py'' = Some ''receiver_email = NOT_FOUND''"
proof -
  have "prepare_main (\<lambda>_. empty_region) [''prepare_files.py'', ''replace_email''] st_demo =
     (Inr (), st_demo\<lparr>files := (files st_demo)(''webgen/xray_stack.py'' \<mapsto>
        str_replace ''receiver_email = REPLACE_ME_RECEIVER_EMAIL'' ''REPLACE_ME_RECEIVER_EMAIL'' ''NOT_FOUND'')\<rparr>)"
    by (rule prepare_main_email_unset_sentinel) (simp_all add: st_demo_def)
  then show ?thesis by (simp add: str_replace_def)
qed

text \<open>
  C13. An unrecognised mode is a silent no-op: the run completes normally and changes
  nothing.
\<close>

theorem prepare_main_unknown_mode_noop:
  assumes "environ st ''AWS_DEFAULT_REGION'' = Some region" and "1 < length argv"
    and "argv ! 1 \<notin> {''replace_web_endpoints_and_cognito_ids'', ''replace_clickprocessingapi_endpoint'',
                     ''replace_email'', ''replace_recommendationsapi_endpoint''}"
  shows "prepare_main c argv st = (Inr (), st)"
  using assms by (simp add: prepare_main_def)

theorem prepare_main_unknown_mode_noop_witness:
  "prepare_main (\<lambda>_. empty_region) [''prepare_files.py'', ''replace_everything''] st_demo = (Inr (), st_demo)"
  by (rule prepare_main_unknown_mode_noop) (simp_all add: st_demo_def)

text \<open>
  C14. In the web mode, when the API is found but no user pool MysfitsUserPool is, the
  script does not degrade to \<open>NOT_FOUND\<close>: the client lookup is called with
  \<open>UserPoolId=None\<close>, botocore raises, and the run ends with status 1 and no file
  written.
\<close>

theorem prepare_main_web_missing_pool_crashes:
  assumes "environ st ''AWS_DEFAULT_REGION'' = Some region"
    and "''GetRestApis'' \<notin> failing (c region)" and "''ListUserPools'' \<notin> failing (c region)"
    and "map_of (rev (take 25 (rest_apis (c region)))) ''MysfitsApi'' = Some i" and "i \<noteq> []"
    and "map_of (rev (take 10 (user_pools (c region)))) ''MysfitsUserPool'' = None"
  shows "prepare_main c [prog, ''replace_web_endpoints_and_cognito_ids''] st =
     (Inl (ParamValidationError ''UserPoolId''),
      st\<lparr>stdout := stdout st @ [''Found no user pool MysfitsUserPool'']\<rparr>)"
  using assms
  by (simp add: prepare_main_def prepare_web_files_def script_simps get_execute_api_endpoint_listed
      warn_if_missing_def get_user_pool_id_result get_user_pool_client_id_def
      client_region_def execute_api_url_def)

theorem prepare_main_web_missing_pool_crashes_witness:
  "exit_status (fst (prepare_main (\<lambda>_. empty_region\<lparr>rest_apis := [(''MysfitsApi'', ''m1'')]\<rparr>)
      [''prepare_files.py'', ''replace_web_endpoints_and_cognito_ids''] st_demo)) = 1 \<and>
   files (snd (prepare_main (\<lambda>_. empty_region\<lparr>rest_apis := [(''MysfitsApi'', ''m1'')]\<rparr>)
      [''prepare_files.py'', ''replace_web_endpoints_and_cognito_ids''] st_demo)) = files st_demo"
proof -
  have "prepare_main (\<lambda>_. empty_region\<lparr>rest_apis := [(''MysfitsApi'', ''m1'')]\<rparr>)
      [''prepare_files.py'', ''replace_web_endpoints_and_cognito_ids''] st_demo =
     (Inl (ParamValidationError ''UserPoolId''),
      st_demo\<lparr>stdout := stdout st_demo @ [''Found no user pool MysfitsUserPool'']\<rparr>)"
    by (rule prepare_main_web_missing_pool_crashes [where i = "''m1''"])
      (simp_all add: st_demo_def empty_region_def)
  then show ?thesis by simp
qed

end
