(* ===== verification/TableClient.thy ===== *)
theory TableClient
  imports PyStr
begin

text \<open>
  The DynamoDB client of the Flask service, \<open>src/webgen/app/service/mysfitsTableClient.py\<close>,
  over an explicit model of the table \<open>MysfitsTable\<close> declared in
  \<open>src/webgen/webgen/dynamodb_stack.py\<close>.
  \<^item> An item is its attribute map in the low-level client's typed form
    (\<open>{'S': ...}\<close>, \<open>{'N': ...}\<close>, \<open>{'BOOL': ...}\<close>); numbers are integers here, and the
    client hands them out as decimal strings.
  \<^item> The table is an association list from the key \<open>MysfitId\<close> to the item, in scan order.
  \<^item> The responses, built as Python dicts and passed to \<open>json.dumps\<close>, are JSON values
    with their keys in insertion order.
  \<^item> Provider behaviour modelled from DynamoDB's documentation: \<open>get_item\<close> of a missing
    key returns a response without \<open>Item\<close>; \<open>query\<close> on a global secondary index returns
    the items whose index key equals the value, ordered by the index's sort key
    \<open>MysfitId\<close>, and rejects an index the table does not have; \<open>update_item\<close> creates a
    missing item, and rejects \<open>Likes + :n\<close> when \<open>Likes\<close> is not a number of the item.
  Scan and query pagination (1 MB pages) is not modelled: the code reads only the first
  page, which holds the whole table of this application.
\<close>

datatype attr = AttrS string | AttrN int | AttrBOOL bool

type_synonym item = "(string \<times> attr) list"
type_synonym table = "(string \<times> item) list"

datatype json = JStr string | JInt int | JBool bool | JArr "json list" | JObj "(string \<times> json) list"

text \<open>The provider's side of the table: the global secondary indexes of the deployed table,
  name and partition key, as \<open>DynamoDBStack\<close> declares them; \<open>query\<close> resolves \<open>IndexName\<close>
  against them.\<close>

definition table_indexes :: "(string \<times> string) list" where
  "table_indexes = [(''LawChaosIndex'', ''LawChaos''), (''GoodEvilIndex'', ''GoodEvil'')]"

subsection \<open>Reading typed attributes\<close>

text \<open>\<open>item[k]['S']\<close>, \<open>item[k]['N']\<close>, \<open>item[k]['BOOL']\<close>: a missing attribute or a value of
  another type raises \<open>KeyError\<close>.\<close>

definition attr_of :: "item \<Rightarrow> string \<Rightarrow> exn + attr" where
  "attr_of it k = (case map_of it k of None \<Rightarrow> Inl (KeyError k) | Some a \<Rightarrow> Inr a)"

definition get_S :: "item \<Rightarrow> string \<Rightarrow> exn + string" where
  "get_S it k = bindE (attr_of it k) (\<lambda>a. case a of AttrS v \<Rightarrow> Inr v | _ \<Rightarrow> Inl (KeyError ''S''))"

definition get_N :: "item \<Rightarrow> string \<Rightarrow> exn + string" where
  "get_N it k = bindE (attr_of it k) (\<lambda>a. case a of AttrN n \<Rightarrow> Inr (dec_str n) | _ \<Rightarrow> Inl (KeyError ''N''))"

definition get_BOOL :: "item \<Rightarrow> string \<Rightarrow> exn + bool" where
  "get_BOOL it k = bindE (attr_of it k) (\<lambda>a. case a of AttrBOOL b \<Rightarrow> Inr b | _ \<Rightarrow> Inl (KeyError ''BOOL''))"

subsection \<open>The operations\<close>

text \<open>The loop body shared by \<open>getAllMysfits\<close> and \<open>queryMysfits\<close> (lines 77--84, 112--119).\<close>

definition mysfit_summary :: "item \<Rightarrow> exn + json" where
  "mysfit_summary it =
     bindE (get_S it ''MysfitId'') (\<lambda>mysfitId.
     bindE (get_S it ''Name'') (\<lambda>name.
     bindE (get_S it ''GoodEvil'') (\<lambda>goodevil.
     bindE (get_S it ''LawChaos'') (\<lambda>lawchaos.
     bindE (get_S it ''Species'') (\<lambda>species.
     bindE (get_S it ''ThumbImageUri'') (\<lambda>thumb.
       Inr (JObj [(''mysfitId'', JStr mysfitId), (''name'', JStr name), (''goodevil'', JStr goodevil),
                  (''lawchaos'', JStr lawchaos), (''species'', JStr species),
                  (''thumbImageUri'', JStr thumb)])))))))"

text \<open>\<open>defaultdict(list)\<close> gets its key \<open>mysfits\<close> only on the first append.\<close>

definition mysfit_list :: "json list \<Rightarrow> json" where
  "mysfit_list ms = (if ms = [] then JObj [] else JObj [(''mysfits'', JArr ms)])"

definition getAllMysfits :: "table \<Rightarrow> exn + json" where
  "getAllMysfits t = bindE (mapE mysfit_summary (map snd t)) (\<lambda>ms. Inr (mysfit_list ms))"

text \<open>The provider's answer to the \<open>query\<close> of lines 95--108.\<close>

definition query_index :: "table \<Rightarrow> string \<Rightarrow> string \<Rightarrow> exn + item list" where
  "query_index t index_name v =
     (case map_of table_indexes index_name of
        None \<Rightarrow> Inl (ClientError ''ValidationException'')
      | Some key \<Rightarrow> Inr (map snd (sort_key fst (filter (\<lambda>(k, it). map_of it key = Some (AttrS v)) t))))"

definition queryMysfits :: "table \<Rightarrow> (string \<times> string) list \<Rightarrow> exn + json" where
  "queryMysfits t queryParam =
     (case map_of queryParam ''filter'' of
        None \<Rightarrow> Inl (KeyError ''filter'')
      | Some flt \<Rightarrow>
          (case map_of queryParam ''value'' of
             None \<Rightarrow> Inl (KeyError ''value'')
           | Some v \<Rightarrow>
               bindE (query_index t (flt @ ''Index'') v) (\<lambda>items.
               bindE (mapE mysfit_summary items) (\<lambda>ms. Inr (mysfit_list ms)))))"

definition getMysfit :: "table \<Rightarrow> string \<Rightarrow> exn + json" where
  "getMysfit t mysfitId =
     (case map_of t mysfitId of
        None \<Rightarrow> Inl (KeyError ''Item'')
      | Some it \<Rightarrow>
          bindE (get_S it ''MysfitId'') (\<lambda>mid.
          bindE (get_S it ''Name'') (\<lambda>name.
          bindE (bindE (get_N it ''Age'') py_int) (\<lambda>age.
          bindE (get_S it ''GoodEvil'') (\<lambda>goodevil.
          bindE (get_S it ''LawChaos'') (\<lambda>lawchaos.
          bindE (get_S it ''Species'') (\<lambda>species.
          bindE (get_S it ''Description'') (\<lambda>description.
          bindE (get_S it ''ThumbImageUri'') (\<lambda>thumb.
          bindE (get_S it ''ProfileImageUri'') (\<lambda>profile.
          bindE (get_N it ''Likes'') (\<lambda>likes.
          bindE (get_BOOL it ''Adopted'') (\<lambda>adopted.
            Inr (JObj [(''mysfitId'', JStr mid), (''name'', JStr name), (''age'', JInt age),
                       (''goodevil'', JStr goodevil), (''lawchaos'', JStr lawchaos),
                       (''species'', JStr species), (''description'', JStr description),
                       (''thumbImageUri'', JStr thumb), (''profileImageUri'', JStr profile),
                       (''likes'', JStr likes), (''adopted'', JBool adopted)])))))))))))))"

definition update_success :: json where
  "update_success = JObj [(''Update'', JStr ''Success'')]"

text \<open>\<open>update_item\<close> with \<open>SET Likes = Likes + :n\<close>, \<open>:n = 1\<close> (lines 156--174).\<close>

definition likeMysfit :: "string \<Rightarrow> (table, json) script" where
  "likeMysfit mysfitId t =
     (case map_of t mysfitId of
        None \<Rightarrow> (Inl (ClientError ''ValidationException''), t)
      | Some it \<Rightarrow>
          (case map_of it ''Likes'' of
             Some (AttrN n) \<Rightarrow> (Inr update_success, AList.update mysfitId (AList.update ''Likes'' (AttrN (n + 1)) it) t)
           | _ \<Rightarrow> (Inl (ClientError ''ValidationException''), t)))"

text \<open>\<open>update_item\<close> with \<open>SET Adopted = :b\<close>, \<open>:b = True\<close> (lines 177--195).\<close>

definition adoptMysfit :: "string \<Rightarrow> (table, json) script" where
  "adoptMysfit mysfitId t =
     (let it = (case map_of t mysfitId of None \<Rightarrow> [(''MysfitId'', AttrS mysfitId)] | Some it \<Rightarrow> it)
      in (Inr update_success, AList.update mysfitId (AList.update ''Adopted'' (AttrBOOL True) it) t))"

text \<open>\<open>put_item\<close> of one item (line 52): the whole item is replaced.\<close>

definition put_item :: "item \<Rightarrow> (table, unit) script" where
  "put_item it t =
     (case map_of it ''MysfitId'' of
        Some (AttrS k) \<Rightarrow> (Inr (), AList.update k it t)
      | _ \<Rightarrow> (Inl (ClientError ''ValidationException''), t))"

subsection \<open>Loading the initial values\<close>

text \<open>The attributes \<open>load_initial_values\<close> copies from each record of
  \<open>populate-dynamodb.json\<close> (lines 39--51), with the type key it reads each through.\<close>

datatype attr_type = TyS | TyN | TyBOOL

fun has_type :: "attr_type \<Rightarrow> attr \<Rightarrow> bool" where
  "has_type TyS (AttrS _) = True"
| "has_type TyN (AttrN _) = True"
| "has_type TyBOOL (AttrBOOL _) = True"
| "has_type _ _ = False"

fun type_key :: "attr_type \<Rightarrow> string" where
  "type_key TyS = ''S''"
| "type_key TyN = ''N''"
| "type_key TyBOOL = ''BOOL''"

definition item_schema :: "(string \<times> attr_type) list" where
  "item_schema =
     [(''MysfitId'', TyS), (''Name'', TyS), (''Species'', TyS), (''Description'', TyS),
      (''Age'', TyN), (''GoodEvil'', TyS), (''LawChaos'', TyS), (''ThumbImageUri'', TyS),
      (''ProfileImageUri'', TyS), (''Likes'', TyN), (''Adopted'', TyBOOL)]"

text \<open>One record \<open>mysfit['PutRequest']['Item']\<close> turned into the item dict: a missing
  attribute raises \<open>KeyError\<close> of its name, one of another type \<open>KeyError\<close> of the type key.
  The JSON file writes numbers as strings under \<open>N\<close>; the record here holds them parsed,
  as \<open>Decimal(...)\<close> does for the integers of the file.\<close>

definition load_item :: "item \<Rightarrow> exn + item" where
  "load_item raw =
     mapE (\<lambda>(k, ty). bindE (attr_of raw k)
             (\<lambda>a. if has_type ty a then Inr (k, a) else Inl (KeyError (type_key ty))))
          item_schema"

text \<open>The loop of lines 38--52: one \<open>put_item\<close> per record, in file order; the first
  record that fails stops the load, the records before it stay written.\<close>

fun load_initial_values :: "item list \<Rightarrow> (table, unit) script" where
  "load_initial_values [] = returnS ()"
| "load_initial_values (raw # raws) =
     bindS (liftS (load_item raw)) (\<lambda>it. bindS (put_item it) (\<lambda>_. load_initial_values raws))"

subsection \<open>Well-formed tables\<close>

definition wf_item :: "item \<Rightarrow> bool" where
  "wf_item it \<longleftrightarrow> list_all (\<lambda>(k, ty). case map_of it k of None \<Rightarrow> False | Some a \<Rightarrow> has_type ty a) item_schema"

definition wf_table :: "table \<Rightarrow> bool" where
  "wf_table t \<longleftrightarrow> distinct (map fst t) \<and>
     list_all (\<lambda>(k, it). wf_item it \<and> map_of it ''MysfitId'' = Some (AttrS k)) t"

text \<open>A table of two records in the form of \<open>populate-dynamodb.json\<close>, for the examples below.\<close>

definition demo_record :: "string \<Rightarrow> string \<Rightarrow> string \<Rightarrow> int \<Rightarrow> item" where
  "demo_record mid name lawchaos likes =
     [(''MysfitId'', AttrS mid), (''Name'', AttrS name), (''Species'', AttrS ''Ogre''),
      (''Description'', AttrS ''A friendly ogre.''), (''Age'', AttrN 6), (''GoodEvil'', AttrS ''Good''),
      (''LawChaos'', AttrS lawchaos), (''ThumbImageUri'', AttrS ''thumb.png''),
      (''ProfileImageUri'', AttrS ''profile.png''), (''Likes'', AttrN likes), (''Adopted'', AttrBOOL False)]"

definition demo_table :: table where
  "demo_table = [(''a1'', demo_record ''a1'' ''Rex'' ''Lawful'' 0), (''b2'', demo_record ''b2'' ''Mo'' ''Chaotic'' 3)]"

text \<open>A field of a response object.\<close>

definition json_get :: "json \<Rightarrow> string \<Rightarrow> json option" where
  "json_get j k = (case j of JObj kvs \<Rightarrow> map_of kvs k | _ \<Rightarrow> None)"

subsection \<open>Reading well-formed items\<close>

lemma has_type_iff [simp]:
  "has_type TyS a \<longleftrightarrow> (\<exists>v. a = AttrS v)"
  "has_type TyN a \<longleftrightarrow> (\<exists>n. a = AttrN n)"
  "has_type TyBOOL a \<longleftrightarrow> (\<exists>b. a = AttrBOOL b)"
  by (cases a; simp)+

lemma wf_item_attrs:
  assumes "wf_item it"
  shows "\<exists>mid name species descr age ge lc thumb prof likes adopted.
    map_of it ''MysfitId'' = Some (AttrS mid) \<and> map_of it ''Name'' = Some (AttrS name) \<and>
    map_of it ''Species'' = Some (AttrS species) \<and> map_of it ''Description'' = Some (AttrS descr) \<and>
    map_of it ''Age'' = Some (AttrN age) \<and> map_of it ''GoodEvil'' = Some (AttrS ge) \<and>
    map_of it ''LawChaos'' = Some (AttrS lc) \<and> map_of it ''ThumbImageUri'' = Some (AttrS thumb) \<and>
    map_of it ''ProfileImageUri'' = Some (AttrS prof) \<and> map_of it ''Likes'' = Some (AttrN likes) \<and>
    map_of it ''Adopted'' = Some (AttrBOOL adopted)"
  using assms
  by (auto simp: wf_item_def item_schema_def split: option.splits)

lemma get_S_AttrS [simp]: "map_of it k = Some (AttrS v) \<Longrightarrow> get_S it k = Inr v"
  by (simp add: get_S_def attr_of_def)

lemma get_N_AttrN [simp]: "map_of it k = Some (AttrN n) \<Longrightarrow> get_N it k = Inr (dec_str n)"
  by (simp add: get_N_def attr_of_def)

lemma get_BOOL_AttrBOOL [simp]: "map_of it k = Some (AttrBOOL b) \<Longrightarrow> get_BOOL it k = Inr b"
  by (simp add: get_BOOL_def attr_of_def)

lemma get_S_missing [simp]: "map_of it k = None \<Longrightarrow> get_S it k = Inl (KeyError k)"
  by (simp add: get_S_def attr_of_def)

lemma mysfit_summary_wf:
  assumes "wf_item it" and "map_of it ''MysfitId'' = Some (AttrS k)"
  shows "\<exists>j. mysfit_summary it = Inr j \<and> json_get j ''mysfitId'' = Some (JStr k)"
  using wf_item_attrs [OF assms(1)] assms(2) by (auto simp: mysfit_summary_def json_get_def)

lemma wf_table_map_of:
  "wf_table t \<longleftrightarrow> distinct (map fst t) \<and>
     (\<forall>k it. map_of t k = Some it \<longrightarrow> wf_item it \<and> map_of it ''MysfitId'' = Some (AttrS k))"
  by (auto simp: wf_table_def list_all_iff dest: map_of_SomeD intro: map_of_is_SomeI)

lemma wf_table_update:
  assumes "wf_table t" and "wf_item it" and "map_of it ''MysfitId'' = Some (AttrS k)"
  shows "wf_table (AList.update k it t)"
  using assms by (auto simp: wf_table_map_of update_conv' distinct_update)

lemma wf_item_set_likes: "wf_item it \<Longrightarrow> wf_item (AList.update ''Likes'' (AttrN m) it)"
  by (simp add: wf_item_def item_schema_def update_conv')

lemma wf_item_set_adopted: "wf_item it \<Longrightarrow> wf_item (AList.update ''Adopted'' (AttrBOOL b) it)"
  by (simp add: wf_item_def item_schema_def update_conv')

lemma likeMysfit_cases:
  "likeMysfit i t = (r, t') \<Longrightarrow>
     (t' = t \<and> r = Inl (ClientError ''ValidationException''))
   \<or> (\<exists>it n. map_of t i = Some it \<and> map_of it ''Likes'' = Some (AttrN n) \<and> r = Inr update_success \<and>
        t' = AList.update i (AList.update ''Likes'' (AttrN (n + 1)) it) t)"
  by (auto simp: likeMysfit_def split: option.splits attr.splits)

lemma mapE_summaries:
  assumes "list_all (\<lambda>(k, it). wf_item it \<and> map_of it ''MysfitId'' = Some (AttrS k)) kvs"
  shows "\<exists>ms. mapE mysfit_summary (map snd kvs) = Inr ms \<and>
    map (\<lambda>j. json_get j ''mysfitId'') ms = map (\<lambda>k. Some (JStr k)) (map fst kvs)"
  using assms
proof (induction kvs)
  case Nil
  then show ?case by simp
next
  case (Cons kv kvs)
  obtain k it where kv: "kv = (k, it)" by (cases kv)
  with Cons.prems have "wf_item it" and "map_of it ''MysfitId'' = Some (AttrS k)" by simp_all
  then obtain j where j: "mysfit_summary it = Inr j" "json_get j ''mysfitId'' = Some (JStr k)"
    using mysfit_summary_wf by blast
  from Cons.IH Cons.prems obtain ms where
    "mapE mysfit_summary (map snd kvs) = Inr ms"
    "map (\<lambda>j. json_get j ''mysfitId'') ms = map (\<lambda>k. Some (JStr k)) (map fst kvs)"
    by auto
  with kv j show ?case by (intro exI [of _ "j # ms"]) simp
qed

lemma getMysfit_fields:
  assumes "map_of t i = Some it" and "wf_item it"
    and "map_of it ''MysfitId'' = Some (AttrS m)" and "map_of it ''Age'' = Some (AttrN a)"
    and "map_of it ''Likes'' = Some (AttrN l)"
  shows "\<exists>j. getMysfit t i = Inr j \<and> json_get j ''mysfitId'' = Some (JStr m) \<and>
    json_get j ''age'' = Some (JInt a) \<and> json_get j ''likes'' = Some (JStr (dec_str l))"
  using wf_item_attrs [OF assms(2)] assms
  by (auto simp: getMysfit_def json_get_def py_int_dec_str)

lemma table_indexes_lookup:
  "map_of table_indexes (f @ ''Index'') =
     (if f = ''LawChaos'' \<or> f = ''GoodEvil'' then Some f else None)"
proof -
  have "''LawChaosIndex'' = ''LawChaos'' @ ''Index''" "''GoodEvilIndex'' = ''GoodEvil'' @ ''Index''"
    by simp_all
  then show ?thesis by (simp add: table_indexes_def del: append.simps)
qed

lemma distinct_map_fst_sort_key:
  "distinct (map fst xs) \<Longrightarrow> distinct (map fst (sort_key fst xs))"
  by (simp add: distinct_map)

lemma wf_table_mem_iff:
  "wf_table t \<Longrightarrow> (k, it) \<in> set t \<longleftrightarrow> map_of t k = Some it"
  by (simp add: wf_table_def)

lemma distinct_item_schema: "distinct (map fst item_schema)"
  by (simp add: item_schema_def)

lemma load_item_wf: "load_item raw = Inr it \<Longrightarrow> wf_item it"
proof -
  assume "load_item raw = Inr it"
  then have "list_all2 (\<lambda>x y. (case x of (k, ty) \<Rightarrow> bindE (attr_of raw k)
      (\<lambda>a. if has_type ty a then Inr (k, a) else Inl (KeyError (type_key ty)))) = Inr y) item_schema it"
    unfolding load_item_def mapE_Inr_iff .
  then have "list_all2 (\<lambda>x y. fst y = fst x \<and> has_type (snd x) (snd y)) item_schema it"
    by (rule list_all2_mono) (auto simp: bindE_eq_Inr split: if_splits)
  then show "wf_item it"
    using distinct_item_schema
    by (auto simp: wf_item_def list_all_iff dest!: list_all2_map_of [where k = _] map_of_is_SomeI)
qed

lemma put_item_wf_item:
  "wf_item it \<Longrightarrow> preserves wf_table (put_item it)"
proof (intro preserves_stateI)
  fix t assume "wf_item it" "wf_table t"
  moreover obtain k where "map_of it ''MysfitId'' = Some (AttrS k)"
    using wf_item_attrs [OF \<open>wf_item it\<close>] by blast
  ultimately show "wf_table (snd (put_item it t))" by (simp add: put_item_def wf_table_update)
qed

lemma preserves_load_put:
  assumes "\<And>u. preserves wf_table (g u)"
  shows "preserves wf_table (bindS (liftS (load_item raw)) (\<lambda>it. bindS (put_item it) g))"
  unfolding bindS_liftS
proof (cases "load_item raw")
  case (Inl e)
  then show "preserves wf_table (case load_item raw of Inl e \<Rightarrow> raiseS e | Inr it \<Rightarrow> bindS (put_item it) g)"
    by (simp add: preserves_raiseS)
next
  case (Inr it)
  then have "wf_item it" by (rule load_item_wf)
  with Inr assms show "preserves wf_table (case load_item raw of Inl e \<Rightarrow> raiseS e | Inr it \<Rightarrow> bindS (put_item it) g)"
    by (simp add: preserves_bindS put_item_wf_item)
qed

lemma table_writes_wf:
  assumes "wf_table t"
  shows "wf_table (snd (likeMysfit i t))"
    and "i \<in> fst ` set t \<Longrightarrow> wf_table (snd (adoptMysfit i t))"
    and "wf_item it \<Longrightarrow> wf_table (snd (put_item it t))"
proof -
  obtain r t' where run: "likeMysfit i t = (r, t')" by (cases "likeMysfit i t")
  from likeMysfit_cases [OF run] have "wf_table t'"
  proof (elim disjE exE conjE)
    assume "t' = t"
    with assms show ?thesis by simp
  next
    fix it n
    assume it: "map_of t i = Some it" and t': "t' = AList.update i (AList.update ''Likes'' (AttrN (n + 1)) it) t"
    from assms it have "wf_item it" and "map_of it ''MysfitId'' = Some (AttrS i)"
      by (auto simp: wf_table_map_of)
    then have "wf_item (AList.update ''Likes'' (AttrN (n + 1)) it)"
      and "map_of (AList.update ''Likes'' (AttrN (n + 1)) it) ''MysfitId'' = Some (AttrS i)"
      by (simp_all add: wf_item_set_likes update_conv')
    with assms t' show ?thesis by (simp add: wf_table_update)
  qed
  with run show "wf_table (snd (likeMysfit i t))" by simp
next
  assume "i \<in> fst ` set t"
  then obtain it where it: "map_of t i = Some it"
    by (metis map_of_eq_None_iff not_Some_eq)
  with assms have "wf_item it" and "map_of it ''MysfitId'' = Some (AttrS i)"
    by (auto simp: wf_table_map_of)
  with assms it show "wf_table (snd (adoptMysfit i t))"
    by (simp add: adoptMysfit_def wf_table_update wf_item_set_adopted update_conv')
next
  assume wi: "wf_item it"
  then obtain k where "map_of it ''MysfitId'' = Some (AttrS k)"
    using wf_item_attrs by blast
  with assms wi show "wf_table (snd (put_item it t))"
    by (simp add: put_item_def wf_table_update)
qed

subsection \<open>Properties of the client\<close>

text \<open>C15. Every write of the client keeps the table well formed (distinct keys, every item with the eleven typed attributes of the schema and its own key): \<open>likeMysfit\<close> always, \<open>adoptMysfit\<close> on a mysfit that exists, \<open>put_item\<close> of a well-formed item.\<close>

theorem table_ops_preserve_wf:
  assumes "wf_table t"
  shows "wf_table (snd (likeMysfit i t)) \<and> (i \<in> fst ` set t \<longrightarrow> wf_table (snd (adoptMysfit i t)))
    \<and> (wf_item it \<longrightarrow> wf_table (snd (put_item it t)))"
  using table_writes_wf [OF assms] by blast

text \<open>\<open>load_initial_values\<close> keeps a well-formed table well formed, whatever the records of the file: a record that fails stops the load before its \<open>put_item\<close>, and every item written has the schema.\<close>

theorem load_initial_values_wf:
  assumes "wf_table t"
  shows "wf_table (snd (load_initial_values raws t))"
proof -
  have "preserves wf_table (load_initial_values raws)"
    by (induction raws) (simp_all add: preserves_returnS preserves_load_put)
  then show ?thesis using assms by (rule preservesD)
qed

text \<open>C16. On a well-formed table \<open>getAllMysfits\<close> does not raise, and its answer lists one summary per item, in scan order, each with the item's key as \<open>mysfitId\<close>.\<close>

theorem getAllMysfits_total:
  assumes "wf_table t"
  shows "\<exists>ms. getAllMysfits t = Inr (mysfit_list ms) \<and>
    map (\<lambda>j. json_get j ''mysfitId'') ms = map (\<lambda>k. Some (JStr k)) (map fst t)"
  using mapE_summaries [of t] assms by (auto simp: wf_table_def getAllMysfits_def)

text \<open>C17. \<open>adoptMysfit\<close> of an id the table does not hold creates an item with only \<open>MysfitId\<close> and \<open>Adopted\<close>; from then on every \<open>getAllMysfits\<close> raises \<open>KeyError('Name')\<close>.\<close>

theorem adopt_unknown_breaks_scan:
  assumes "wf_table t" and "i \<notin> fst ` set t"
  shows "getAllMysfits (snd (adoptMysfit i t)) = Inl (KeyError ''Name'')"
proof -
  have none: "map_of t i = None" using assms(2) by (simp add: map_of_eq_None_iff)
  let ?new = "[(''MysfitId'', AttrS i), (''Adopted'', AttrBOOL True)]"
  have t': "snd (adoptMysfit i t) = t @ [(i, ?new)]"
    using none assms(2) by (simp add: adoptMysfit_def alist_update_new)
  obtain ms where "mapE mysfit_summary (map snd t) = Inr ms"
    using mapE_summaries [of t] assms(1) by (auto simp: wf_table_def)
  moreover have "mysfit_summary ?new = Inl (KeyError ''Name'')"
    by (simp add: mysfit_summary_def)
  ultimately show ?thesis
    by (simp add: t' getAllMysfits_def mapE_append)
qed

text \<open>C18. \<open>likeMysfit\<close> of a mysfit with \<open>n\<close> likes answers success, and \<open>getMysfit\<close> then reports the likes as the decimal string of \<open>n + 1\<close>.\<close>

theorem likeMysfit_increments:
  assumes "wf_table t" and "map_of t i = Some it" and "map_of it ''Likes'' = Some (AttrN n)"
  shows "fst (likeMysfit i t) = Inr update_success \<and>
    (\<exists>j. getMysfit (snd (likeMysfit i t)) i = Inr j \<and> json_get j ''likes'' = Some (JStr (dec_str (n + 1))))"
proof -
  let ?it' = "AList.update ''Likes'' (AttrN (n + 1)) it"
  have run: "likeMysfit i t = (Inr update_success, AList.update i ?it' t)"
    using assms(2,3) by (simp add: likeMysfit_def)
  from assms(1,2) have wf: "wf_item it" and mid: "map_of it ''MysfitId'' = Some (AttrS i)"
    by (auto simp: wf_table_map_of)
  obtain a where age: "map_of it ''Age'' = Some (AttrN a)" using wf_item_attrs [OF wf] by blast
  have "map_of (AList.update i ?it' t) i = Some ?it'" by (simp add: update_conv')
  moreover have "wf_item ?it'" using wf by (rule wf_item_set_likes)
  moreover have "map_of ?it' ''MysfitId'' = Some (AttrS i)" and "map_of ?it' ''Age'' = Some (AttrN a)"
    and "map_of ?it' ''Likes'' = Some (AttrN (n + 1))"
    using mid age by (simp_all add: update_conv')
  ultimately obtain j where "getMysfit (AList.update i ?it' t) i = Inr j"
      "json_get j ''likes'' = Some (JStr (dec_str (n + 1)))"
    using getMysfit_fields by blast
  with run show ?thesis by auto
qed

text \<open>\<open>getMysfit\<close> returns the stored age: the decimal string the client reads under \<open>N\<close> is parsed back by \<open>int(...)\<close> to the same integer, negative ages included.\<close>

theorem getMysfit_age_roundtrip:
  assumes "wf_table t" and "map_of t i = Some it" and "map_of it ''Age'' = Some (AttrN a)"
  shows "\<exists>j. getMysfit t i = Inr j \<and> json_get j ''mysfitId'' = Some (JStr i) \<and> json_get j ''age'' = Some (JInt a)"
proof -
  from assms(1,2) have wf: "wf_item it" and mid: "map_of it ''MysfitId'' = Some (AttrS i)"
    by (auto simp: wf_table_map_of)
  obtain l where "map_of it ''Likes'' = Some (AttrN l)" using wf_item_attrs [OF wf] by blast
  with assms(2,3) wf mid show ?thesis using getMysfit_fields by blast
qed

text \<open>C19. For an id the table does not hold, \<open>getMysfit\<close> raises \<open>KeyError('Item')\<close>, \<open>likeMysfit\<close> fails with the provider's \<open>ValidationException\<close> and leaves the table unchanged, and \<open>adoptMysfit\<close> answers success after creating a new item.\<close>

theorem missing_id_paths:
  assumes "map_of t i = None"
  shows "getMysfit t i = Inl (KeyError ''Item'')
    \<and> likeMysfit i t = (Inl (ClientError ''ValidationException''), t)
    \<and> adoptMysfit i t = (Inr update_success,
         AList.update i [(''MysfitId'', AttrS i), (''Adopted'', AttrBOOL True)] t)"
  using assms by (simp add: getMysfit_def likeMysfit_def adoptMysfit_def)

text \<open>C20. \<open>queryMysfits\<close> with filter \<open>LawChaos\<close> or \<open>GoodEvil\<close> answers exactly the mysfits whose attribute equals the value, in ascending \<open>MysfitId\<close> order and without repetition.\<close>

theorem queryMysfits_index:
  assumes "wf_table t" and "f = ''LawChaos'' \<or> f = ''GoodEvil''"
  shows "\<exists>ms ks. queryMysfits t [(''filter'', f), (''value'', v)] = Inr (mysfit_list ms) \<and>
    map (\<lambda>j. json_get j ''mysfitId'') ms = map (\<lambda>k. Some (JStr k)) ks \<and>
    sorted ks \<and> distinct ks \<and>
    set ks = {k. \<exists>it. map_of t k = Some it \<and> map_of it f = Some (AttrS v)}"
proof -
  let ?kvs = "sort_key fst (filter (\<lambda>(k, it). map_of it f = Some (AttrS v)) t)"
  have q: "queryMysfits t [(''filter'', f), (''value'', v)] =
      bindE (mapE mysfit_summary (map snd ?kvs)) (\<lambda>ms. Inr (mysfit_list ms))"
    using assms(2) by (simp add: queryMysfits_def query_index_def table_indexes_lookup)
  have "list_all (\<lambda>(k, it). wf_item it \<and> map_of it ''MysfitId'' = Some (AttrS k)) ?kvs"
    using assms(1) by (auto simp: wf_table_def list_all_iff)
  then obtain ms where ms: "mapE mysfit_summary (map snd ?kvs) = Inr ms"
      "map (\<lambda>j. json_get j ''mysfitId'') ms = map (\<lambda>k. Some (JStr k)) (map fst ?kvs)"
    using mapE_summaries by blast
  have "sorted (map fst ?kvs)" by (simp add: sorted_sort_key)
  moreover have "distinct (map fst ?kvs)"
    using assms(1) by (intro distinct_map_fst_sort_key) (auto simp: wf_table_def distinct_map_filter)
  moreover have "set (map fst ?kvs) = {k. \<exists>it. map_of t k = Some it \<and> map_of it f = Some (AttrS v)}"
    using wf_table_mem_iff [OF assms(1)] by force
  ultimately show ?thesis using q ms by (intro exI [of _ ms] exI [of _ "map fst ?kvs"]) simp
qed

text \<open>A filter other than \<open>LawChaos\<close> and \<open>GoodEvil\<close> names no index of the table: \<open>queryMysfits\<close> fails with \<open>ValidationException\<close>.\<close>

theorem queryMysfits_unknown_filter:
  assumes "f \<noteq> ''LawChaos''" and "f \<noteq> ''GoodEvil''"
  shows "queryMysfits t [(''filter'', f), (''value'', v)] = Inl (ClientError ''ValidationException'')"
  using assms by (simp add: queryMysfits_def query_index_def table_indexes_lookup)

text \<open>C22. On a well-formed table \<open>getAllMysfits\<close> answers the bare \<open>{}\<close>, with no \<open>mysfits\<close> key, exactly when the table is empty: the \<open>defaultdict\<close> gets the key only from the first item appended.\<close>

theorem getAllMysfits_empty_table:
  assumes "wf_table t"
  shows "getAllMysfits t = Inr (JObj []) \<longleftrightarrow> t = []"
proof -
  obtain ms where r: "mapE mysfit_summary (map snd t) = Inr ms"
    and "map (\<lambda>j. json_get j ''mysfitId'') ms = map (\<lambda>k. Some (JStr k)) (map fst t)"
    using mapE_summaries [of t] assms by (auto simp: wf_table_def)
  then have "length ms = length t" by (metis length_map)
  then show ?thesis by (auto simp: getAllMysfits_def r mysfit_list_def)
qed

subsection \<open>The properties on the example table\<close>

lemma demo_table_wf: "wf_table demo_table"
  by (simp add: wf_table_def demo_table_def demo_record_def wf_item_def item_schema_def del: has_type_iff)

theorem getAllMysfits_empty_table_witness:
  "wf_table demo_table \<and> wf_table [] \<and> getAllMysfits demo_table \<noteq> Inr (JObj []) \<and> getAllMysfits [] = Inr (JObj [])"
proof -
  have e: "wf_table []" by (simp add: wf_table_def)
  have "demo_table \<noteq> []" by (simp add: demo_table_def)
  then show ?thesis
    using getAllMysfits_empty_table [OF demo_table_wf] getAllMysfits_empty_table [OF e] demo_table_wf e by simp
qed

theorem table_ops_preserve_wf_witness:
  "wf_table demo_table \<and> wf_table (snd (likeMysfit ''b2'' demo_table))
   \<and> (''a1'' \<in> fst ` set demo_table \<and> wf_table (snd (adoptMysfit ''a1'' demo_table)))
   \<and> (wf_item (demo_record ''c3'' ''Zed'' ''Neutral'' 1)
      \<and> wf_table (snd (put_item (demo_record ''c3'' ''Zed'' ''Neutral'' 1) demo_table)))"
proof -
  have wi: "wf_item (demo_record ''c3'' ''Zed'' ''Neutral'' 1)"
    by (simp add: demo_record_def wf_item_def item_schema_def del: has_type_iff)
  have a1: "''a1'' \<in> fst ` set demo_table" by (simp add: demo_table_def)
  show ?thesis
    using table_ops_preserve_wf [OF demo_table_wf, where i = "''a1''" and it = "demo_record ''c3'' ''Zed'' ''Neutral'' 1"]
      table_ops_preserve_wf [OF demo_table_wf, where i = "''b2''" and it = "demo_record ''c3'' ''Zed'' ''Neutral'' 1"]
      demo_table_wf a1 wi
    by simp
qed

theorem load_initial_values_wf_witness:
  "wf_table [] \<and> wf_table (snd (load_initial_values
     [demo_record ''a1'' ''Rex'' ''Lawful'' 0, [(''MysfitId'', AttrS ''x'')]] []))"
  using load_initial_values_wf [of "[]" "[demo_record ''a1'' ''Rex'' ''Lawful'' 0, [(''MysfitId'', AttrS ''x'')]]"]
  by (simp add: wf_table_def)

theorem getAllMysfits_total_witness:
  "wf_table demo_table \<and> (\<exists>ms. getAllMysfits demo_table = Inr (mysfit_list ms) \<and>
    map (\<lambda>j. json_get j ''mysfitId'') ms = [Some (JStr ''a1''), Some (JStr ''b2'')])"
  using getAllMysfits_total [OF demo_table_wf] demo_table_wf by (simp add: demo_table_def)

theorem adopt_unknown_breaks_scan_witness:
  "wf_table demo_table \<and> ''zz'' \<notin> fst ` set demo_table \<and>
   getAllMysfits (snd (adoptMysfit ''zz'' demo_table)) = Inl (KeyError ''Name'')"
proof -
  have "''zz'' \<notin> fst ` set demo_table" by (simp add: demo_table_def)
  with demo_table_wf show ?thesis using adopt_unknown_breaks_scan by blast
qed

theorem likeMysfit_increments_witness:
  "wf_table demo_table \<and> map_of demo_table ''b2'' = Some (demo_record ''b2'' ''Mo'' ''Chaotic'' 3)
   \<and> map_of (demo_record ''b2'' ''Mo'' ''Chaotic'' 3) ''Likes'' = Some (AttrN 3)
   \<and> fst (likeMysfit ''b2'' demo_table) = Inr update_success
   \<and> (\<exists>j. getMysfit (snd (likeMysfit ''b2'' demo_table)) ''b2'' = Inr j \<and> json_get j ''likes'' = Some (JStr (dec_str 4)))"
proof -
  have m: "map_of demo_table ''b2'' = Some (demo_record ''b2'' ''Mo'' ''Chaotic'' 3)"
    by (simp add: demo_table_def)
  have l: "map_of (demo_record ''b2'' ''Mo'' ''Chaotic'' 3) ''Likes'' = Some (AttrN 3)"
    by (simp add: demo_record_def)
  show ?thesis using likeMysfit_increments [OF demo_table_wf m l] demo_table_wf m l by simp
qed

theorem getMysfit_age_roundtrip_witness:
  "wf_table demo_table \<and> map_of demo_table ''a1'' = Some (demo_record ''a1'' ''Rex'' ''Lawful'' 0)
   \<and> map_of (demo_record ''a1'' ''Rex'' ''Lawful'' 0) ''Age'' = Some (AttrN 6)
   \<and> (\<exists>j. getMysfit demo_table ''a1'' = Inr j \<and> json_get j ''mysfitId'' = Some (JStr ''a1'')
        \<and> json_get j ''age'' = Some (JInt 6))"
proof -
  have m: "map_of demo_table ''a1'' = Some (demo_record ''a1'' ''Rex'' ''Lawful'' 0)"
    by (simp add: demo_table_def)
  have a: "map_of (demo_record ''a1'' ''Rex'' ''Lawful'' 0) ''Age'' = Some (AttrN 6)"
    by (simp add: demo_record_def)
  show ?thesis using getMysfit_age_roundtrip [OF demo_table_wf m a] demo_table_wf m a by simp
qed

theorem missing_id_paths_witness:
  "map_of demo_table ''zz'' = None \<and> getMysfit demo_table ''zz'' = Inl (KeyError ''Item'')
   \<and> likeMysfit ''zz'' demo_table = (Inl (ClientError ''ValidationException''), demo_table)"
proof -
  have "map_of demo_table ''zz'' = None" by (simp add: demo_table_def)
  then show ?thesis using missing_id_paths [of demo_table "''zz''"] by simp
qed

theorem queryMysfits_index_witness:
  "wf_table demo_table \<and> (\<exists>ms ks. queryMysfits demo_table [(''filter'', ''LawChaos''), (''value'', ''Lawful'')] = Inr (mysfit_list ms) \<and>
    map (\<lambda>j. json_get j ''mysfitId'') ms = map (\<lambda>k. Some (JStr k)) ks \<and> sorted ks \<and> distinct ks \<and>
    set ks = {k. \<exists>it. map_of demo_table k = Some it \<and> map_of it ''LawChaos'' = Some (AttrS ''Lawful'')})"
  using queryMysfits_index [OF demo_table_wf, of "''LawChaos''" "''Lawful''"] demo_table_wf by simp

theorem queryMysfits_unknown_filter_witness:
  "''Species'' \<noteq> ''LawChaos'' \<and> ''Species'' \<noteq> ''GoodEvil'' \<and>
   queryMysfits demo_table [(''filter'', ''Species''), (''value'', ''Ogre'')] = Inl (ClientError ''ValidationException'')"
  using queryMysfits_unknown_filter [of "''Species''" demo_table "''Ogre''"] by simp

end
