(* ===== verification/Teardown.thy ===== *)
theory Teardown
  imports Provider PyStr
begin

text \<open>
  The teardown utility \<open>src/webgen/utils/clean_utils.py\<close>: one function per kind of
  resource, each a loop over the deployment regions and the names or prefixes it is
  given, and the main section that calls them with the application's lists.
  The state \<open>account\<close> holds the Python process (its output and environment), the
  provider state of \<open>Provider\<close> per region (Cognito user pools and SageMaker endpoints,
  shared with the lookups of \<open>prepare_files.py\<close> that the utility imports), the
  account-wide S3 bucket list, and the other regional resources.  A provider call may
  fail with a \<open>ClientError\<close> (the operations in \<open>failing\<close> of the region); a delete of a
  resource the region does not hold fails with the service's not-found code.
  S3 calls go through the client of the region the code creates it for, and may be
  refused like every other call.  Listings are modelled as the SDK documents them:
  \<open>list_buckets\<close> returns every bucket, \<open>describe_log_groups\<close> its first page of 50
  groups, the SageMaker listings their first page of 10 matches.
\<close>

record bucket =
  b_location :: "string option"    \<comment> \<open>\<open>LocationConstraint\<close>: \<open>None\<close> for us-east-1\<close>
  b_objects :: "string list"

record region_res =
  log_groups :: "string list"
  tables :: "string list"
  repositories :: "(string \<times> string list) list"  \<comment> \<open>(repositoryName, image ids)\<close>
  nat_gateways :: "(string \<times> string) list"    \<comment> \<open>(NatGatewayId, State)\<close>
  endpoint_configs :: "(string \<times> int) list" \<comment> \<open>(name, creation time)\<close>
  models :: "(string \<times> int) list"
  ecs_services :: "((string \<times> string) \<times> nat) list" \<comment> \<open>((cluster, service), deployments started)\<close>

record account =
  proc :: pstate
  providers :: cloud
  buckets :: "(string \<times> bucket) list"
  regional :: "string \<Rightarrow> region_res"

subsection \<open>Primitive steps\<close>

text \<open>\<open>print(line)\<close> of the utility.\<close>

definition say :: "string \<Rightarrow> (account, unit) script" where
  "say line s = (Inr (), s\<lparr>proc := (proc s)\<lparr>stdout := stdout (proc s) @ [line]\<rparr>\<rparr>)"

definition upd_regional :: "string \<Rightarrow> (region_res \<Rightarrow> region_res) \<Rightarrow> account \<Rightarrow> account" where
  "upd_regional r f s = s\<lparr>regional := (regional s)(r := f (regional s r))\<rparr>"

definition upd_provider :: "string \<Rightarrow> (region_state \<Rightarrow> region_state) \<Rightarrow> account \<Rightarrow> account" where
  "upd_provider r f s = s\<lparr>providers := (providers s)(r := f (providers s r))\<rparr>"

text \<open>A delete call of region \<open>r\<close>: the provider may refuse the operation; a name the
  region does not hold fails with \<open>code\<close>; otherwise \<open>del\<close> removes it.\<close>

definition delete_call ::
  "string \<Rightarrow> string \<Rightarrow> string \<Rightarrow> (account \<Rightarrow> bool) \<Rightarrow> (account \<Rightarrow> account) \<Rightarrow> (account, unit) script" where
  "delete_call r op code present del s =
     (case provider_call (providers s r) op () of
        Inl e \<Rightarrow> (Inl e, s)
      | Inr _ \<Rightarrow> if present s then (Inr (), del s) else (Inl (ClientError code), s))"

subsection \<open>Buckets (lines 12--47)\<close>

text \<open>\<open>s3_client.list_buckets()\<close>: every bucket of the account, whatever the client's
  region (lines 13--14).\<close>

definition list_buckets :: "string \<Rightarrow> (account, string list) script" where
  "list_buckets region s = (provider_call (providers s region) ''ListBuckets'' (map fst (buckets s)), s)"

definition get_bucket_location :: "string \<Rightarrow> string \<Rightarrow> (account, string option) script" where
  "get_bucket_location region b s =
     (case provider_call (providers s region) ''GetBucketLocation'' (map_of (buckets s) b) of
        Inl e \<Rightarrow> (Inl e, s)
      | Inr None \<Rightarrow> (Inl (ClientError ''NoSuchBucket''), s)
      | Inr (Some bk) \<Rightarrow> (Inr (b_location bk), s))"

text \<open>\<open>bucket.objects.delete()\<close> (the listing and the batched deletes of the objects, one
  call here) then \<open>delete_bucket\<close>, which refuses a bucket that still holds objects.\<close>

definition delete_objects :: "string \<Rightarrow> string \<Rightarrow> (account, unit) script" where
  "delete_objects region b s =
     (case provider_call (providers s region) ''DeleteObjects'' () of
        Inl e \<Rightarrow> (Inl e, s)
      | Inr _ \<Rightarrow> (Inr (), s\<lparr>buckets := AList.map_entry b (\<lambda>bk. bk\<lparr>b_objects := []\<rparr>) (buckets s)\<rparr>))"

definition delete_bucket :: "string \<Rightarrow> string \<Rightarrow> (account, unit) script" where
  "delete_bucket region b s =
     (case provider_call (providers s region) ''DeleteBucket'' () of
        Inl e \<Rightarrow> (Inl e, s)
      | Inr _ \<Rightarrow>
          (case map_of (buckets s) b of
             None \<Rightarrow> (Inl (ClientError ''NoSuchBucket''), s)
           | Some bk \<Rightarrow> if b_objects bk \<noteq> [] then (Inl (ClientError ''BucketNotEmpty''), s)
                       else (Inr (), s\<lparr>buckets := AList.delete b (buckets s)\<rparr>)))"

text \<open>The loop of lines 14--31 over the names listed at its start, appending each deleted
  bucket to \<open>deleted_buckets\<close>; every call goes through the client of \<open>region\<close>.\<close>

fun delete_buckets_loop :: "string \<Rightarrow> string \<Rightarrow> string list \<Rightarrow> string list \<Rightarrow> (account, string list) script" where
  "delete_buckets_loop pfx region [] deleted = returnS deleted"
| "delete_buckets_loop pfx region (b # bs) deleted =
     bindS (get_bucket_location region b) (\<lambda>loc.
       if loc \<noteq> Some region then delete_buckets_loop pfx region bs deleted
       else if pfx \<noteq> [] \<and> take (length pfx) b \<noteq> pfx then delete_buckets_loop pfx region bs deleted
       else bindS (delete_objects region b) (\<lambda>_.
            bindS (say (''Deleted all objects in bucket bucket '' @ b)) (\<lambda>_.
            bindS (delete_bucket region b) (\<lambda>_.
            delete_buckets_loop pfx region bs (deleted @ [b])))))"

definition delete_buckets_by_prefix :: "string \<Rightarrow> string \<Rightarrow> (account, unit) script" where
  "delete_buckets_by_prefix pfx region =
     bindS (list_buckets region) (\<lambda>names.
     bindS (delete_buckets_loop pfx region names []) (\<lambda>deleted.
       if deleted \<noteq> [] then say (''Deleted buckets: '' @ str_join nl deleted)
       else say (''No buckets with prefix:'' @ nl @ pfx)))"

definition clean_buckets_by_prefixes :: "string list \<Rightarrow> string list \<Rightarrow> (account, unit) script" where
  "clean_buckets_by_prefixes pfxs deployment_regions =
     bindS (say (nl @ ''---------- BUCKETS --------------------------------------------------'')) (\<lambda>_.
     forS (\<lambda>r. bindS (say (nl @ ''Region '' @ r @ '':'')) (\<lambda>_.
                forS (\<lambda>pfx. delete_buckets_by_prefix pfx r) pfxs)) deployment_regions)"

subsection \<open>Log groups (lines 50--66)\<close>

definition describe_log_groups :: "string \<Rightarrow> (account, string list) script" where
  "describe_log_groups r s = (provider_call (providers s r) ''DescribeLogGroups'' (take 50 (log_groups (regional s r))), s)"

definition delete_log_group :: "string \<Rightarrow> string \<Rightarrow> (account, unit) script" where
  "delete_log_group r name =
     delete_call r ''DeleteLogGroup'' ''ResourceNotFoundException''
       (\<lambda>s. name \<in> set (log_groups (regional s r)))
       (upd_regional r (\<lambda>rr. rr\<lparr>log_groups := removeAll name (log_groups rr)\<rparr>))"

text \<open>The test of line 56: case-insensitive containment, not a prefix test.\<close>

definition log_group_matches :: "string \<Rightarrow> string \<Rightarrow> bool" where
  "log_group_matches pfx name \<longleftrightarrow> sublist (str_lower pfx) (str_lower name)"

text \<open>The inner loop of lines 55--58: one delete per prefix the group matches.\<close>

definition log_group_body :: "string \<Rightarrow> string list \<Rightarrow> string \<Rightarrow> (account, unit) script" where
  "log_group_body r pfxs log_group_name =
     forS (\<lambda>pfx.
       if log_group_matches pfx log_group_name
       then bindS (delete_log_group r log_group_name) (\<lambda>_. say (''Deleted log group: '' @ log_group_name))
       else returnS ()) pfxs"

definition delete_log_groups_by_prefixes :: "string \<Rightarrow> string list \<Rightarrow> (account, unit) script" where
  "delete_log_groups_by_prefixes r pfxs =
     bindS (describe_log_groups r) (\<lambda>groups. forS (log_group_body r pfxs) groups)"

definition clean_logs_by_prefixes :: "string list \<Rightarrow> string list \<Rightarrow> (account, unit) script" where
  "clean_logs_by_prefixes pfxs deployment_regions =
     bindS (say (nl @ ''---------- LOG GROUPS -----------------------------------------------'')) (\<lambda>_.
     forS (\<lambda>r. bindS (say (nl @ ''Region '' @ r @ '':'')) (\<lambda>_. delete_log_groups_by_prefixes r pfxs))
       deployment_regions)"

subsection \<open>Tables, user pools, repositories (lines 69--144)\<close>

definition delete_table :: "string \<Rightarrow> string \<Rightarrow> (account, unit) script" where
  "delete_table r name =
     delete_call r ''DeleteTable'' ''ResourceNotFoundException''
       (\<lambda>s. name \<in> set (tables (regional s r)))
       (upd_regional r (\<lambda>rr. rr\<lparr>tables := removeAll name (tables rr)\<rparr>))"

text \<open>The pattern shared by the three name-driven cleaners: for every region and every
  name, a delete whose not-found error is swallowed; the names deleted are collected
  across all regions.\<close>

definition clean_by_names ::
  "string \<Rightarrow> (string \<Rightarrow> string \<Rightarrow> (account, string list) script) \<Rightarrow> string list \<Rightarrow> string list \<Rightarrow> (account, string list) script" where
  "clean_by_names header step names deployment_regions =
     bindS (say (nl @ header)) (\<lambda>_.
     foldS (\<lambda>acc r. bindS (say (nl @ ''Region '' @ r @ '':'')) (\<lambda>_.
                     foldS (\<lambda>acc name. bindS (step r name) (\<lambda>d. returnS (acc @ d))) acc names))
       [] deployment_regions)"

definition report_deleted :: "string \<Rightarrow> string \<Rightarrow> string list \<Rightarrow> string list \<Rightarrow> (account, unit) script" where
  "report_deleted what none names deleted =
     (if deleted \<noteq> [] then say (''Deleted '' @ what @ '': '' @ str_join nl deleted)
      else say (''No '' @ none @ '' with names:'' @ nl @ py_list_repr names))"

definition table_step :: "string \<Rightarrow> string \<Rightarrow> (account, string list) script" where
  "table_step r table_name =
     bindS (catch_code ''ResourceNotFoundException'' (delete_table r table_name)) (\<lambda>res.
       returnS (if res = None then [] else [table_name]))"

definition clean_tables_by_names :: "string list \<Rightarrow> string list \<Rightarrow> (account, unit) script" where
  "clean_tables_by_names names deployment_regions =
     bindS (clean_by_names ''---------- DynamoDB Tables --------------------------------------------------''
              table_step names deployment_regions)
       (report_deleted ''tables'' ''tables'' names)"

definition delete_user_pool :: "string \<Rightarrow> string \<Rightarrow> (account, unit) script" where
  "delete_user_pool r pool_id =
     delete_call r ''DeleteUserPool'' ''ResourceNotFoundException''
       (\<lambda>s. pool_id \<in> snd ` set (user_pools (providers s r)))
       (upd_provider r (\<lambda>rs. rs\<lparr>user_pools := filter (\<lambda>p. snd p \<noteq> pool_id) (user_pools rs)\<rparr>))"

text \<open>Line 103: the pool is looked up by the fixed name \<open>MysfitsUserPool\<close>, whatever
  \<open>pool_name\<close> is, with \<open>get_user_pool_id\<close> of \<open>prepare_files.py\<close>, whose client uses the
  process's default region.\<close>

definition pool_step :: "string \<Rightarrow> string \<Rightarrow> (account, string list) script" where
  "pool_step r pool_name s =
     bindS (liftS (get_user_pool_id (providers s) (proc s) ''MysfitsUserPool'' r)) (\<lambda>user_pool_id.
       case user_pool_id of
         None \<Rightarrow> returnS []
       | Some pid \<Rightarrow> bindS (catch_code ''ResourceNotFoundException'' (delete_user_pool r pid)) (\<lambda>res.
                      returnS (if res = None then [] else [pool_name]))) s"

definition clean_pools_by_names :: "string list \<Rightarrow> string list \<Rightarrow> (account, unit) script" where
  "clean_pools_by_names names deployment_regions =
     bindS (clean_by_names ''---------- Cognito User Pools --------------------------------------------------''
              pool_step names deployment_regions)
       (report_deleted ''pools'' ''pools'' names)"

text \<open>\<open>delete_repository(..., force=True)\<close>: the repository goes with its images.\<close>

definition delete_repository :: "string \<Rightarrow> string \<Rightarrow> (account, unit) script" where
  "delete_repository r name =
     delete_call r ''DeleteRepository'' ''RepositoryNotFoundException''
       (\<lambda>s. name \<in> fst ` set (repositories (regional s r)))
       (upd_regional r (\<lambda>rr. rr\<lparr>repositories := AList.delete name (repositories rr)\<rparr>))"

definition repository_step :: "string \<Rightarrow> string \<Rightarrow> (account, string list) script" where
  "repository_step r repository_name =
     bindS (catch_code ''RepositoryNotFoundException'' (delete_repository r repository_name)) (\<lambda>res.
       returnS (if res = None then [] else [repository_name]))"

definition clean_repositories_by_names :: "string list \<Rightarrow> string list \<Rightarrow> (account, unit) script" where
  "clean_repositories_by_names names deployment_regions =
     bindS (clean_by_names ''---------- ECR Repositories --------------------------------------------------''
              repository_step names deployment_regions)
       (report_deleted ''repositories'' ''repositories'' names)"

subsection \<open>NAT gateways (lines 147--173)\<close>

definition nat_states :: "string list" where
  "nat_states = [''pending'', ''failed'', ''available'', ''deleting'', ''deleted'']"

definition describe_nat_gateways :: "string \<Rightarrow> (account, (string \<times> string) list) script" where
  "describe_nat_gateways r s =
     (provider_call (providers s r) ''DescribeNatGateways''
        (filter (\<lambda>g. snd g \<in> set nat_states) (nat_gateways (regional s r))), s)"

definition list_nat_gateways :: "string list \<Rightarrow> (account, (string \<times> string) list) script" where
  "list_nat_gateways deployment_regions =
     bindS (say (nl @ ''---------- NAT Gateways --------------------------------------------------'')) (\<lambda>_.
     foldS (\<lambda>acc r. bindS (say (nl @ ''Region '' @ r @ '':'')) (\<lambda>_.
                     bindS (describe_nat_gateways r) (\<lambda>gws. returnS (acc @ gws))))
       [] deployment_regions)"

subsection \<open>SageMaker (lines 176--225)\<close>

text \<open>\<open>list_endpoint_configs\<close> and \<open>list_models\<close> with \<open>NameContains\<close>, newest first; the
  response is the first page of \<open>MaxResults\<close> (default 10) entries, and the code follows
  no \<open>NextToken\<close>.\<close>

definition newest_containing :: "string \<Rightarrow> (string \<times> int) list \<Rightarrow> string list" where
  "newest_containing p xs = map fst (rev (sort_key snd (filter (\<lambda>x. sublist p (fst x)) xs)))"

definition list_endpoint_configs :: "string \<Rightarrow> string \<Rightarrow> (account, string list) script" where
  "list_endpoint_configs r p s =
     (provider_call (providers s r) ''ListEndpointConfigs'' (take 10 (newest_containing p (endpoint_configs (regional s r)))), s)"

definition list_models :: "string \<Rightarrow> string \<Rightarrow> (account, string list) script" where
  "list_models r p s =
     (provider_call (providers s r) ''ListModels'' (take 10 (newest_containing p (models (regional s r)))), s)"

definition delete_endpoint :: "string \<Rightarrow> string \<Rightarrow> (account, unit) script" where
  "delete_endpoint r name =
     delete_call r ''DeleteEndpoint'' ''ValidationException''
       (\<lambda>s. name \<in> ep_name ` set (sm_endpoints (providers s r)))
       (upd_provider r (\<lambda>rs. rs\<lparr>sm_endpoints := filter (\<lambda>e. ep_name e \<noteq> name) (sm_endpoints rs)\<rparr>))"

definition delete_endpoint_config :: "string \<Rightarrow> string \<Rightarrow> (account, unit) script" where
  "delete_endpoint_config r name =
     delete_call r ''DeleteEndpointConfig'' ''ValidationException''
       (\<lambda>s. name \<in> fst ` set (endpoint_configs (regional s r)))
       (upd_regional r (\<lambda>rr. rr\<lparr>endpoint_configs := filter (\<lambda>c. fst c \<noteq> name) (endpoint_configs rr)\<rparr>))"

definition delete_model :: "string \<Rightarrow> string \<Rightarrow> (account, unit) script" where
  "delete_model r name =
     delete_call r ''DeleteModel'' ''ValidationException''
       (\<lambda>s. name \<in> fst ` set (models (regional s r)))
       (upd_regional r (\<lambda>rr. rr\<lparr>models := filter (\<lambda>c. fst c \<noteq> name) (models rr)\<rparr>))"

text \<open>The body of the region loop (lines 180--225); \<open>except ClientError as e: raise e\<close>
  changes nothing.\<close>

definition sagemaker_region :: "string \<Rightarrow> string option \<Rightarrow> string option \<Rightarrow> string option \<Rightarrow> (account, unit) script" where
  "sagemaker_region r endpoint_prefix endpoint_config_prefix model_prefix =
     bindS (if truthy endpoint_prefix
            then bindS (\<lambda>s. (list_endpoints (providers s r) (the endpoint_prefix), s)) (\<lambda>eps.
                 forS (\<lambda>e. bindS (delete_endpoint r (ep_name e)) (\<lambda>_.
                             say (''Deleted endpoint '' @ ep_name e @ '' in region '' @ r))) eps)
            else returnS ()) (\<lambda>_.
     bindS (if truthy endpoint_config_prefix
            then bindS (list_endpoint_configs r (the endpoint_config_prefix)) (\<lambda>cfgs.
                 forS (\<lambda>c. bindS (delete_endpoint_config r c) (\<lambda>_.
                             say (''Deleted endpoint configuration '' @ c @ '' in region '' @ r))) cfgs)
            else returnS ()) (\<lambda>_.
     if truthy model_prefix
     then bindS (list_models r (the model_prefix)) (\<lambda>ms.
          forS (\<lambda>m. bindS (delete_model r m) (\<lambda>_. say (''Deleted model '' @ m @ '' in region '' @ r))) ms)
     else returnS ()))"

definition clean_sagemaker_endpoints_by_prefix ::
  "string list \<Rightarrow> string option \<Rightarrow> string option \<Rightarrow> string option \<Rightarrow> (account, unit) script" where
  "clean_sagemaker_endpoints_by_prefix deployment_regions endpoint_prefix endpoint_config_prefix model_prefix =
     bindS (say (nl @ ''---------- Sagemaker --------------------------------------------------'')) (\<lambda>_.
     forS (\<lambda>r. sagemaker_region r endpoint_prefix endpoint_config_prefix model_prefix) deployment_regions)"

subsection \<open>The main section (lines 228--283)\<close>

definition deployment_region_list :: "string list" where
  "deployment_region_list = [''eu-west-1'']"

definition clean_main :: "(account, unit) script" where
  "clean_main =
     bindS (clean_buckets_by_prefixes [''mythicalmysfits'', ''sagemaker''] deployment_region_list) (\<lambda>_.
     bindS (clean_logs_by_prefixes [''mysfits'', ''welcome'', ''NotebookInstances'', ''ProcessingJobs'', ''TrainingJobs'']
              deployment_region_list) (\<lambda>_.
     bindS (clean_tables_by_names [''MysfitsTable'', ''MysfitsQuestionsTable''] deployment_region_list) (\<lambda>_.
     bindS (clean_pools_by_names [''MysfitsUserPool''] deployment_region_list) (\<lambda>_.
     bindS (clean_repositories_by_names [''mythicalmysfits/service''] deployment_region_list) (\<lambda>_.
     bindS (clean_sagemaker_endpoints_by_prefix deployment_region_list (Some ''mysfits'') (Some ''mysfits'') (Some ''knn'')) (\<lambda>_.
     bindS (list_nat_gateways deployment_region_list) (\<lambda>current_nat_gateways.
       if current_nat_gateways \<noteq> []
       then forS (\<lambda>g. say (''Please check if the following NAT Gateway requires manual deletion: '' @ fst g @
                            ''  -  state: '' @ snd g)) current_nat_gateways
       else say ''Found no NAT Gateway'')))))))"

subsection \<open>Specification helpers and example data\<close>

text \<open>The S3 operations of the bucket cleaner, all accepted by the client of a region.\<close>

definition s3_ok :: "string \<Rightarrow> account \<Rightarrow> bool" where
  "s3_ok r s \<longleftrightarrow> list_all (\<lambda>op. op \<notin> failing (providers s r))
     [''ListBuckets'', ''GetBucketLocation'', ''DeleteObjects'', ''DeleteBucket'']"

text \<open>A bucket \<open>delete_buckets_by_prefix prefix region\<close> deletes: located in the region,
  and named with the prefix when the prefix is not empty.\<close>

definition bucket_doomed :: "string \<Rightarrow> string \<Rightarrow> string \<times> bucket \<Rightarrow> bool" where
  "bucket_doomed pfx region x \<longleftrightarrow> b_location (snd x) = Some region \<and> (pfx = [] \<or> prefix pfx (fst x))"

text \<open>How many prefixes of the list a log group name matches (line 56).\<close>

definition matches_count :: "string list \<Rightarrow> string \<Rightarrow> nat" where
  "matches_count pfxs g = length (filter (\<lambda>p. log_group_matches p g) pfxs)"

definition drop_table :: "string \<Rightarrow> string \<Rightarrow> account \<Rightarrow> account" where
  "drop_table r n = upd_regional r (\<lambda>rr. rr\<lparr>tables := removeAll n (tables rr)\<rparr>)"

definition keeps_bucket :: "string \<times> bucket \<Rightarrow> account \<Rightarrow> bool" where
  "keeps_bucket x s \<longleftrightarrow> x \<in> set (buckets s)"

text \<open>An account in \<open>eu-west-1\<close> with the default region set to \<open>us-east-1\<close>.\<close>

definition demo_region_res :: region_res where
  "demo_region_res = \<lparr>log_groups = [''/aws/lambda/mysfits-welcome'', ''/ecs/NotMysfits'', ''/other''],
     tables = [''MysfitsTable''], repositories = [(''mythicalmysfits/service'', [''sha256:1''])], nat_gateways = [],
     endpoint_configs = [(''mysfits-cfg'', 1)], models = [(''knn-1'', 1)],
     ecs_services = [((''MythicalMysfits-Cluster'', ''MythicalMysfits-FargateService''), 1)]\<rparr>"

definition demo_account :: account where
  "demo_account = \<lparr>proc = \<lparr>files = Map.empty, readonly = {}, stdout = [],
        environ = [''AWS_DEFAULT_REGION'' \<mapsto> ''us-east-1'']\<rparr>,
     providers = (\<lambda>r. if r = ''eu-west-1''
        then empty_region\<lparr>user_pools := [(''MysfitsUserPool'', ''eu-west-1_abc'')],
               sm_endpoints := [\<lparr>ep_name = ''mysfits-ep'', ep_status = InService, ep_created = 1\<rparr>,
                                \<lparr>ep_name = ''mysfits-old'', ep_status = Failed, ep_created = 0\<rparr>]\<rparr>
        else empty_region\<lparr>user_pools := [(''MysfitsUserPool'', ''us-east-1_xyz'')]\<rparr>),
     buckets = [(''mythicalmysfits-site'', \<lparr>b_location = None, b_objects = [''index.html'']\<rparr>),
                (''mythicalmysfits-eu'', \<lparr>b_location = Some ''eu-west-1'', b_objects = []\<rparr>),
                (''logs-archive'', \<lparr>b_location = Some ''eu-west-1'', b_objects = [''a.log'']\<rparr>)],
     regional = (\<lambda>r. demo_region_res)\<rparr>"

text \<open>An account whose deployment region holds eleven \<open>InService\<close> endpoints named with
  \<open>mysfits\<close>, one more than a page of \<open>list_endpoints\<close>.\<close>

definition crowded_account :: account where
  "crowded_account = demo_account\<lparr>providers := (\<lambda>r. empty_region\<lparr>sm_endpoints :=
     map (\<lambda>(n, t). \<lparr>ep_name = n, ep_status = InService, ep_created = t\<rparr>)
       [(''mysfits-a'', 1), (''mysfits-b'', 2), (''mysfits-c'', 3), (''mysfits-d'', 4), (''mysfits-e'', 5),
        (''mysfits-f'', 6), (''mysfits-g'', 7), (''mysfits-h'', 8), (''mysfits-i'', 9), (''mysfits-j'', 10),
        (''mysfits-k'', 11)]\<rparr>)\<rparr>"

subsection \<open>Runs of the loops\<close>

lemma take_length_eq_prefix: "take (length p) b = p \<longleftrightarrow> prefix p b"
  by (metis append_take_drop_id prefix_def take_append append_eq_conv_conj prefixE)

lemma delete_map_entry: "AList.delete k (AList.map_entry k f xs) = AList.delete k xs"
  by (induction xs) (auto simp: AList.delete_eq split: prod.splits)

lemma map_of_delete_other: "k' \<noteq> k \<Longrightarrow> map_of (AList.delete k xs) k' = map_of xs k'"
  by (simp add: delete_conv')

lemma fst_set_delete: "fst ` set (AList.delete k xs) = fst ` set xs - {k}"
  by (induction xs) (auto simp: AList.delete_eq)

lemma delete_buckets_loop_run:
  assumes "distinct bs" and "set bs \<subseteq> fst ` set (buckets s)" and "distinct (map fst (buckets s))"
    and "s3_ok region s"
  shows "fst (delete_buckets_loop pfx region bs acc s) =
           Inr (acc @ filter (\<lambda>b. bucket_doomed pfx region (b, the (map_of (buckets s) b))) bs)
       \<and> buckets (snd (delete_buckets_loop pfx region bs acc s)) =
           filter (\<lambda>x. \<not> (fst x \<in> set bs \<and> bucket_doomed pfx region x)) (buckets s)
       \<and> providers (snd (delete_buckets_loop pfx region bs acc s)) = providers s
       \<and> regional (snd (delete_buckets_loop pfx region bs acc s)) = regional s
       \<and> environ (proc (snd (delete_buckets_loop pfx region bs acc s))) = environ (proc s)"
  using assms
proof (induction bs arbitrary: acc s)
  case Nil
  then show ?case by (simp add: returnS_def)
next
  case (Cons b bs)
  obtain bk where bk: "map_of (buckets s) b = Some bk"
    using Cons.prems(2) by (auto dest: weak_map_of_SomeI)
  have ok: "''GetBucketLocation'' \<notin> failing (providers s region)" "''DeleteObjects'' \<notin> failing (providers s region)"
    "''DeleteBucket'' \<notin> failing (providers s region)"
    using Cons.prems(4) by (simp_all add: s3_ok_def)
  show ?case
  proof (cases "bucket_doomed pfx region (b, bk)")
    case False
    then have run: "delete_buckets_loop pfx region (b # bs) acc s = delete_buckets_loop pfx region bs acc s"
      using bk ok by (auto simp: bindS_def get_bucket_location_def provider_call_def bucket_doomed_def take_length_eq_prefix)
    have "\<forall>x\<in>set (buckets s). fst x = b \<longrightarrow> \<not> bucket_doomed pfx region x"
      using False map_of_SomeD [OF bk] Cons.prems(3) by (auto dest: eq_key_imp_eq_value)
    then show ?thesis unfolding run using Cons.IH [of s acc] Cons.prems False bk
      by (auto intro!: filter_cong)
  next
    case True
    define s1 where "s1 = s\<lparr>proc := (proc s)\<lparr>stdout := stdout (proc s) @ [''Deleted all objects in bucket bucket '' @ b]\<rparr>,
       buckets := AList.delete b (buckets s)\<rparr>"
    have g: "\<not> (pfx \<noteq> [] \<and> take (length pfx) b \<noteq> pfx)" and loc: "b_location bk = Some region"
      using True by (auto simp: bucket_doomed_def take_length_eq_prefix)
    have run: "delete_buckets_loop pfx region (b # bs) acc s = delete_buckets_loop pfx region bs (acc @ [b]) s1"
      using g loc bk ok
      by (cases "pfx = []") (simp_all add: bindS_def get_bucket_location_def delete_objects_def say_def delete_bucket_def s1_def
          provider_call_def delete_map_entry map_of_map_entry del: take_eq_Nil)
    have s1b: "buckets s1 = AList.delete b (buckets s)" by (simp add: s1_def)
    have pre: "distinct bs" "set bs \<subseteq> fst ` set (buckets s1)" "distinct (map fst (buckets s1))" "s3_ok region s1"
      using Cons.prems by (auto simp: s1b fst_set_delete distinct_delete s3_ok_def s1_def)
    have same: "\<forall>x\<in>set bs. map_of (buckets s1) x = map_of (buckets s) x"
    proof
      fix x assume "x \<in> set bs"
      then have "x \<noteq> b" using Cons.prems(1) by auto
      then show "map_of (buckets s1) x = map_of (buckets s) x" by (simp add: s1b map_of_delete_other)
    qed
    have "filter (\<lambda>x. \<not> (fst x \<in> set bs \<and> bucket_doomed pfx region x)) (AList.delete b (buckets s)) =
          filter (\<lambda>x. \<not> (fst x \<in> set (b # bs) \<and> bucket_doomed pfx region x)) (buckets s)"
    proof -
      have "\<forall>x\<in>set (buckets s). fst x = b \<longrightarrow> bucket_doomed pfx region x"
        using True map_of_SomeD [OF bk] Cons.prems(3) by (auto dest: eq_key_imp_eq_value)
      then show ?thesis by (auto simp: AList.delete_eq filter_filter intro!: filter_cong)
    qed
    moreover have "filter (\<lambda>x. bucket_doomed pfx region (x, the (map_of (buckets s1) x))) bs =
        filter (\<lambda>x. bucket_doomed pfx region (x, the (map_of (buckets s) x))) bs"
      using same by (intro filter_cong) simp_all
    ultimately show ?thesis unfolding run using Cons.IH [OF pre, of "acc @ [b]"] True bk
      by (simp add: s1b) (simp add: s1_def)
  qed
qed

lemma say_fields [simp]:
  "fst (say l s) = Inr ()" "buckets (snd (say l s)) = buckets s" "providers (snd (say l s)) = providers s"
  "regional (snd (say l s)) = regional s" "environ (proc (snd (say l s))) = environ (proc s)"
  by (simp_all add: say_def)

lemma delete_buckets_by_prefix_run:
  assumes "distinct (map fst (buckets s))" and "s3_ok region s"
  shows "fst (delete_buckets_by_prefix pfx region s) = Inr ()
    \<and> buckets (snd (delete_buckets_by_prefix pfx region s)) = filter (\<lambda>x. \<not> bucket_doomed pfx region x) (buckets s)
    \<and> providers (snd (delete_buckets_by_prefix pfx region s)) = providers s
    \<and> regional (snd (delete_buckets_by_prefix pfx region s)) = regional s
    \<and> environ (proc (snd (delete_buckets_by_prefix pfx region s))) = environ (proc s)"
proof -
  let ?bs = "map fst (buckets s)"
  obtain r s1 where loop: "delete_buckets_loop pfx region ?bs [] s = (r, s1)" by fastforce
  have lb: "list_buckets region s = (Inr ?bs, s)"
    using assms(2) by (simp add: list_buckets_def s3_ok_def provider_call_def)
  from delete_buckets_loop_run [of ?bs s region pfx "[]"] assms loop obtain d where
    r: "r = Inr d" and b1: "buckets s1 = filter (\<lambda>x. \<not> (fst x \<in> set ?bs \<and> bucket_doomed pfx region x)) (buckets s)"
    and o1: "providers s1 = providers s" "regional s1 = regional s" "environ (proc s1) = environ (proc s)"
    by auto
  have "buckets s1 = filter (\<lambda>x. \<not> bucket_doomed pfx region x) (buckets s)"
    using b1 by (auto intro: filter_cong)
  with o1 show ?thesis
    by (simp add: delete_buckets_by_prefix_def bindS_def lb loop r split: if_splits)
qed

lemma delete_log_group_present:
  assumes "''DeleteLogGroup'' \<notin> failing (providers s r)" and "g \<in> set (log_groups (regional s r))"
  shows "delete_log_group r g s = (Inr (), upd_regional r (\<lambda>rr. rr\<lparr>log_groups := removeAll g (log_groups rr)\<rparr>) s)"
  using assms by (simp add: delete_log_group_def delete_call_def provider_call_def)

lemma delete_log_group_absent:
  assumes "g \<notin> set (log_groups (regional s r))"
  shows "fst (delete_log_group r g s) = Inl (ClientError ''ResourceNotFoundException'') \<or>
         fst (delete_log_group r g s) = Inl (ClientError ''AccessDeniedException'')"
  using assms by (simp add: delete_log_group_def delete_call_def provider_call_def)

lemma delete_log_group_missing:
  assumes "''DeleteLogGroup'' \<notin> failing (providers s r)" and "g \<notin> set (log_groups (regional s r))"
  shows "delete_log_group r g s = (Inl (ClientError ''ResourceNotFoundException''), s)"
  using assms by (simp add: delete_log_group_def delete_call_def provider_call_def)

lemma log_group_body_absent:
  assumes "''DeleteLogGroup'' \<notin> failing (providers s r)" and "g \<notin> set (log_groups (regional s r))"
  shows "log_group_body r ps g s =
           (if matches_count ps g = 0 then Inr () else Inl (ClientError ''ResourceNotFoundException''), s)"
proof (induction ps)
  case Nil
  then show ?case by (simp add: log_group_body_def matches_count_def returnS_def)
next
  case (Cons p ps)
  then show ?case
    using delete_log_group_missing [OF assms]
    by (auto simp: log_group_body_def matches_count_def bindS_def returnS_def)
qed

lemma log_group_body_present:
  assumes "''DeleteLogGroup'' \<notin> failing (providers s r)" and "g \<in> set (log_groups (regional s r))"
  shows "fst (log_group_body r ps g s) =
           (if matches_count ps g \<le> 1 then Inr () else Inl (ClientError ''ResourceNotFoundException''))
    \<and> regional (snd (log_group_body r ps g s)) =
        (if matches_count ps g = 0 then regional s
         else (regional s)(r := (regional s r)\<lparr>log_groups := removeAll g (log_groups (regional s r))\<rparr>))
    \<and> providers (snd (log_group_body r ps g s)) = providers s
    \<and> buckets (snd (log_group_body r ps g s)) = buckets s"
  using assms
proof (induction ps arbitrary: s)
  case Nil
  then show ?case by (simp add: log_group_body_def matches_count_def returnS_def)
next
  case (Cons p ps)
  show ?case
  proof (cases "log_group_matches p g")
    case False
    then have "log_group_body r (p # ps) g s = log_group_body r ps g s"
      by (simp add: log_group_body_def bindS_def returnS_def)
    with Cons False show ?thesis by (simp add: matches_count_def)
  next
    case True
    define s1 where "s1 = snd (say (''Deleted log group: '' @ g)
      (upd_regional r (\<lambda>rr. rr\<lparr>log_groups := removeAll g (log_groups rr)\<rparr>) s))"
    have run: "log_group_body r (p # ps) g s = log_group_body r ps g s1"
      using True delete_log_group_present [OF Cons.prems]
      by (simp add: log_group_body_def bindS_def s1_def say_def)
    have f1: "''DeleteLogGroup'' \<notin> failing (providers s1 r)" and a1: "g \<notin> set (log_groups (regional s1 r))"
      using Cons.prems by (simp_all add: s1_def upd_regional_def say_def)
    show ?thesis
      unfolding run log_group_body_absent [OF f1 a1] using True
      by (simp add: matches_count_def s1_def upd_regional_def say_def)
  qed
qed

lemma log_groups_loop:
  assumes "''DeleteLogGroup'' \<notin> failing (providers s r)"
    and "distinct gs" and "set gs \<subseteq> set (log_groups (regional s r))"
  shows "fst (forS (log_group_body r pfxs) gs s) =
           (if \<forall>g\<in>set gs. matches_count pfxs g \<le> 1 then Inr () else Inl (ClientError ''ResourceNotFoundException''))
    \<and> ((\<forall>g\<in>set gs. matches_count pfxs g \<le> 1) \<longrightarrow>
         log_groups (regional (snd (forS (log_group_body r pfxs) gs s)) r) =
           filter (\<lambda>g. \<not> (g \<in> set gs \<and> 0 < matches_count pfxs g)) (log_groups (regional s r))
       \<and> (\<forall>r'. r' \<noteq> r \<longrightarrow> regional (snd (forS (log_group_body r pfxs) gs s)) r' = regional s r')
       \<and> providers (snd (forS (log_group_body r pfxs) gs s)) = providers s
       \<and> buckets (snd (forS (log_group_body r pfxs) gs s)) = buckets s)"
  using assms
proof (induction gs arbitrary: s)
  case Nil
  then show ?case by (simp add: returnS_def)
next
  case (Cons g gs)
  have pres: "g \<in> set (log_groups (regional s r))" using Cons.prems(3) by simp
  note body = log_group_body_present [OF Cons.prems(1) pres, of pfxs]
  obtain res s1 where run1: "log_group_body r pfxs g s = (res, s1)" by fastforce
  show ?case
  proof (cases "matches_count pfxs g \<le> 1")
    case False
    with body run1 show ?thesis by (auto simp: bindS_def)
  next
    case True
    with body run1 have res: "res = Inr ()" and p1: "providers s1 = providers s" and b1: "buckets s1 = buckets s"
      and reg1: "regional s1 = (if matches_count pfxs g = 0 then regional s
         else (regional s)(r := (regional s r)\<lparr>log_groups := removeAll g (log_groups (regional s r))\<rparr>))"
      by auto
    have run: "forS (log_group_body r pfxs) (g # gs) s = forS (log_group_body r pfxs) gs s1"
      using run1 res by (simp add: bindS_def)
    have pre: "''DeleteLogGroup'' \<notin> failing (providers s1 r)" "distinct gs"
      "set gs \<subseteq> set (log_groups (regional s1 r))"
      using Cons.prems p1 reg1 by auto
    have "filter (\<lambda>x. \<not> (x \<in> set gs \<and> 0 < matches_count pfxs x)) (log_groups (regional s1 r)) =
          filter (\<lambda>x. \<not> (x \<in> set (g # gs) \<and> 0 < matches_count pfxs x)) (log_groups (regional s r))"
      using reg1 by (auto simp: removeAll_filter_not_eq filter_filter intro: filter_cong)
    then show ?thesis
      unfolding run using Cons.IH [OF pre] True p1 b1 reg1 by (auto split: if_splits)
  qed
qed

lemma table_step_run:
  assumes "''DeleteTable'' \<notin> failing (providers s r)"
  shows "\<exists>d. table_step r n s = (Inr d, drop_table r n s)"
proof (cases "n \<in> set (tables (regional s r))")
  case True
  with assms show ?thesis
    by (simp add: table_step_def delete_table_def delete_call_def provider_call_def catch_code_def
        bindS_def returnS_def drop_table_def)
next
  case False
  then have "drop_table r n s = s"
    by (simp add: drop_table_def upd_regional_def)
  with False assms show ?thesis
    by (simp add: table_step_def delete_table_def delete_call_def provider_call_def catch_code_def
        bindS_def returnS_def)
qed

lemma fold_drop_table:
  "tables (regional (fold (drop_table r) ns s) r') =
     (if r' = r then filter (\<lambda>t. t \<notin> set ns) (tables (regional s r')) else tables (regional s r'))
   \<and> providers (fold (drop_table r) ns s) = providers s \<and> buckets (fold (drop_table r) ns s) = buckets s"
  by (induction ns arbitrary: s)
     (auto simp: drop_table_def upd_regional_def removeAll_filter_not_eq filter_filter intro: filter_cong)

lemma bindS_say: "bindS (say l) f s = f () (snd (say l s))"
  by (simp add: bindS_def say_def)

lemma bindS_Inr: "m s = (Inr a, s') \<Longrightarrow> bindS m f s = f a s'"
  by (simp add: bindS_def)

text \<open>The loop over names of \<open>clean_by_names\<close> in one region, when each step returns
  names from \<open>A\<close> and moves the state by \<open>U\<close>, keeping \<open>Inv\<close>.\<close>

lemma names_loop_run:
  assumes step: "\<And>n s'. Inv s' \<Longrightarrow> \<exists>d. step n s' = (Inr d, U n s') \<and> set d \<subseteq> A \<and> Inv (U n s')"
    and "Inv s'" "set acc \<subseteq> A"
  shows "\<exists>d. foldS (\<lambda>acc name. bindS (step name) (\<lambda>d. returnS (acc @ d))) acc ns s' = (Inr d, fold U ns s')
           \<and> set d \<subseteq> A \<and> Inv (fold U ns s')"
  using assms(2,3)
proof (induction ns arbitrary: acc s')
  case Nil
  then show ?case by (simp add: returnS_def)
next
  case (Cons n ns)
  obtain d where run: "step n s' = (Inr d, U n s')" "set d \<subseteq> A" "Inv (U n s')"
    using step [OF Cons.prems(1)] by blast
  from Cons.IH [OF run(3), of "acc @ d"] Cons.prems(2) run(2) show ?case
    by (simp add: bindS_def returnS_def run(1))
qed

text \<open>\<open>clean_by_names\<close> completes when every step does, and its state is the steps'
  updates over the regions and names in loop order.\<close>

lemma clean_by_names_run:
  assumes step: "\<And>r n s'. r \<in> set regions \<Longrightarrow> Inv s' \<Longrightarrow>
                   \<exists>d. step r n s' = (Inr d, U r n s') \<and> set d \<subseteq> A \<and> Inv (U r n s')"
    and say_inv: "\<And>m s'. Inv s' \<Longrightarrow> Inv (snd (say m s'))"
    and "Inv s"
  shows "\<exists>d. clean_by_names hdr step names regions s =
     (Inr d, fold (\<lambda>r s'. fold (U r) names (snd (say (nl @ ''Region '' @ r @ '':'') s'))) regions
               (snd (say (nl @ hdr) s))) \<and> set d \<subseteq> A"
proof -
  define R where "R = (\<lambda>r s'. fold (U r) names (snd (say (nl @ ''Region '' @ r @ '':'') s')))"
  define G where "G = (\<lambda>acc r. bindS (say (nl @ ''Region '' @ r @ '':'')) (\<lambda>_.
                   foldS (\<lambda>acc name. bindS (step r name) (\<lambda>d. returnS (acc @ d))) acc names))"
  have loop: "\<exists>d. foldS G acc regs s' = (Inr d, fold R regs s') \<and> set d \<subseteq> A \<and> Inv (fold R regs s')"
    if "set regs \<subseteq> set regions" "Inv s'" "set acc \<subseteq> A" for regs acc s'
    using that
  proof (induction regs arbitrary: acc s')
    case Nil
    then show ?case by (simp add: returnS_def)
  next
    case (Cons r regs)
    have r: "r \<in> set regions" using Cons.prems(1) by simp
    obtain d where inner:
      "foldS (\<lambda>acc name. bindS (step r name) (\<lambda>d. returnS (acc @ d))) acc names
         (snd (say (nl @ ''Region '' @ r @ '':'') s')) = (Inr d, R r s')" "set d \<subseteq> A" "Inv (R r s')"
      using names_loop_run [where step = "step r" and U = "U r", OF step [OF r] say_inv [OF Cons.prems(2)] Cons.prems(3)]
      unfolding R_def by blast
    have F: "G acc r s' = (Inr d, R r s')"
      by (simp only: G_def bindS_say inner(1))
    have regs: "set regs \<subseteq> set regions" using Cons.prems(1) by simp
    show ?case using Cons.IH [OF regs inner(3) inner(2)] by (simp add: bindS_Inr [of "G acc r" s', OF F])
  qed
  from loop [of regions "snd (say (nl @ hdr) s)" "[]"] say_inv [OF assms(3)] show ?thesis
    unfolding clean_by_names_def R_def G_def by (simp add: bindS_say) blast
qed

lemma map_of_rev_take_id: "map_of (rev (take n ps)) k = Some i \<Longrightarrow> i \<in> snd ` set ps"
proof -
  assume "map_of (rev (take n ps)) k = Some i"
  then have "(k, i) \<in> set ps" by (auto dest!: map_of_SomeD in_set_takeD)
  then show ?thesis by (rule image_eqI [rotated]) simp
qed

lemma pool_step_foreign_id:
  assumes env: "environ (proc s) ''AWS_DEFAULT_REGION'' = Some e"
    and ok: "''ListUserPools'' \<notin> failing (providers s e)" "''DeleteUserPool'' \<notin> failing (providers s r)"
    and disj: "snd ` set (user_pools (providers s e)) \<inter> snd ` set (user_pools (providers s r)) = {}"
  shows "pool_step r n s = (Inr [], s)"
proof -
  have g: "get_user_pool_id (providers s) (proc s) ''MysfitsUserPool'' r =
      Inr (map_of (rev (take 10 (user_pools (providers s e)))) ''MysfitsUserPool'')"
    by (rule get_user_pool_id_result [where c = "providers s" and st = "proc s", OF env ok(1)])
  show ?thesis
  proof (cases "map_of (rev (take 10 (user_pools (providers s e)))) ''MysfitsUserPool''")
    case None
    then show ?thesis unfolding pool_step_def g by (simp add: bindS_liftS returnS_def)
  next
    case (Some pid)
    then have "pid \<in> snd ` set (user_pools (providers s e))" by (rule map_of_rev_take_id)
    with disj have "pid \<notin> snd ` set (user_pools (providers s r))" by auto
    with Some ok(2) show ?thesis unfolding pool_step_def g
      by (simp add: bindS_liftS bindS_def returnS_def catch_code_def delete_user_pool_def delete_call_def)
  qed
qed

lemma endpoint_loop_run:
  assumes "''DeleteEndpoint'' \<notin> failing (providers s r)"
    and "distinct (map ep_name es)" and "ep_name ` set es \<subseteq> ep_name ` set (sm_endpoints (providers s r))"
  shows "fst (forS (\<lambda>e. bindS (delete_endpoint r (ep_name e)) (\<lambda>_.
                 say (''Deleted endpoint '' @ ep_name e @ '' in region '' @ r))) es s) = Inr ()
    \<and> providers (snd (forS (\<lambda>e. bindS (delete_endpoint r (ep_name e)) (\<lambda>_.
                 say (''Deleted endpoint '' @ ep_name e @ '' in region '' @ r))) es s)) =
      (providers s)(r := (providers s r)\<lparr>sm_endpoints :=
         filter (\<lambda>x. ep_name x \<notin> ep_name ` set es) (sm_endpoints (providers s r))\<rparr>)"
  using assms
proof (induction es arbitrary: s)
  case Nil
  then show ?case by (simp add: returnS_def)
next
  case (Cons e es)
  define s1 where "s1 = snd (say (''Deleted endpoint '' @ ep_name e @ '' in region '' @ r)
     (upd_provider r (\<lambda>rs. rs\<lparr>sm_endpoints := filter (\<lambda>x. ep_name x \<noteq> ep_name e) (sm_endpoints rs)\<rparr>) s))"
  have run: "forS (\<lambda>e. bindS (delete_endpoint r (ep_name e)) (\<lambda>_.
                 say (''Deleted endpoint '' @ ep_name e @ '' in region '' @ r))) (e # es) s =
             forS (\<lambda>e. bindS (delete_endpoint r (ep_name e)) (\<lambda>_.
                 say (''Deleted endpoint '' @ ep_name e @ '' in region '' @ r))) es s1"
    using Cons.prems by (simp add: delete_endpoint_def delete_call_def bindS_def s1_def say_def)
  have p1: "providers s1 = (providers s)(r := (providers s r)\<lparr>sm_endpoints :=
      filter (\<lambda>x. ep_name x \<noteq> ep_name e) (sm_endpoints (providers s r))\<rparr>)"
    by (simp add: s1_def say_def upd_provider_def)
  have "ep_name ` set es \<subseteq> ep_name ` set (sm_endpoints (providers s1 r))"
  proof
    fix n assume n: "n \<in> ep_name ` set es"
    then have "n \<noteq> ep_name e" using Cons.prems(2) by (auto simp: image_iff)
    moreover obtain x where "x \<in> set (sm_endpoints (providers s r))" "ep_name x = n"
      using Cons.prems(3) n by auto
    ultimately show "n \<in> ep_name ` set (sm_endpoints (providers s1 r))" by (auto simp: p1)
  qed
  then have pre: "''DeleteEndpoint'' \<notin> failing (providers s1 r)" "distinct (map ep_name es)"
    "ep_name ` set es \<subseteq> ep_name ` set (sm_endpoints (providers s1 r))"
    using Cons.prems by (auto simp: p1)
  show ?case unfolding run using Cons.IH [OF pre] by (auto simp: p1 filter_filter intro: filter_cong)
qed

text \<open>One region of \<open>clean_buckets_by_prefixes\<close>: the loop over the prefixes.\<close>

lemma clean_buckets_region_run:
  assumes "distinct (map fst (buckets s))" and "s3_ok r s"
  shows "fst (forS (\<lambda>p. delete_buckets_by_prefix p r) pfxs s) = Inr () \<and>
    buckets (snd (forS (\<lambda>p. delete_buckets_by_prefix p r) pfxs s)) =
      filter (\<lambda>y. \<not> (\<exists>p\<in>set pfxs. bucket_doomed p r y)) (buckets s) \<and>
    distinct (map fst (buckets (snd (forS (\<lambda>p. delete_buckets_by_prefix p r) pfxs s)))) \<and>
    providers (snd (forS (\<lambda>p. delete_buckets_by_prefix p r) pfxs s)) = providers s"
proof -
  let ?Inv = "\<lambda>s'. distinct (map fst (buckets s')) \<and> providers s' = providers s"
  have "?Inv s' \<Longrightarrow> fst (forS (\<lambda>p. delete_buckets_by_prefix p r) pfxs s') = Inr () \<and>
      buckets (snd (forS (\<lambda>p. delete_buckets_by_prefix p r) pfxs s')) =
        filter (\<lambda>y. \<not> (\<exists>p\<in>set pfxs. bucket_doomed p r y)) (buckets s') \<and>
      ?Inv (snd (forS (\<lambda>p. delete_buckets_by_prefix p r) pfxs s'))" for s'
  proof (rule forS_filter_field)
    fix p and s'' :: account assume "?Inv s''"
    moreover have "s3_ok r s''" using assms(2) \<open>?Inv s''\<close> by (simp add: s3_ok_def)
    ultimately show "fst (delete_buckets_by_prefix p r s'') = Inr () \<and>
        buckets (snd (delete_buckets_by_prefix p r s'')) = filter (\<lambda>y. \<not> bucket_doomed p r y) (buckets s'') \<and>
        ?Inv (snd (delete_buckets_by_prefix p r s''))"
      by (simp add: delete_buckets_by_prefix_run distinct_map_filter)
  qed
  then show ?thesis using assms(1) by (simp add: distinct_map_filter)
qed

lemma clean_buckets_regions_run:
  assumes "distinct (map fst (buckets s))" and "\<forall>r\<in>set rs. s3_ok r s"
  shows "fst (forS (\<lambda>r. bindS (say (nl @ ''Region '' @ r @ '':'')) (\<lambda>_.
        forS (\<lambda>p. delete_buckets_by_prefix p r) pfxs)) rs s) = Inr () \<and>
    buckets (snd (forS (\<lambda>r. bindS (say (nl @ ''Region '' @ r @ '':'')) (\<lambda>_.
        forS (\<lambda>p. delete_buckets_by_prefix p r) pfxs)) rs s)) =
      filter (\<lambda>y. \<not> (\<exists>r\<in>set rs. \<exists>p\<in>set pfxs. bucket_doomed p r y)) (buckets s)"
  using assms
proof (induction rs arbitrary: s)
  case Nil
  then show ?case by (simp add: returnS_def)
next
  case (Cons r rs)
  define s0 where "s0 = snd (say (nl @ ''Region '' @ r @ '':'') s)"
  have i0: "distinct (map fst (buckets s0))" "s3_ok r s0"
    using Cons.prems by (simp_all add: s0_def s3_ok_def)
  note one = clean_buckets_region_run [OF i0, of pfxs]
  obtain s1 where run1: "forS (\<lambda>p. delete_buckets_by_prefix p r) pfxs s0 = (Inr (), s1)"
    using one by (cases "forS (\<lambda>p. delete_buckets_by_prefix p r) pfxs s0") simp
  have b0: "buckets s0 = buckets s" "providers s0 = providers s" by (simp_all add: s0_def)
  have one': "buckets s1 = filter (\<lambda>y. \<not> (\<exists>p\<in>set pfxs. bucket_doomed p r y)) (buckets s0)"
    "distinct (map fst (buckets s1))" "providers s1 = providers s0"
    using one by (auto simp: run1 distinct_map_filter)
  have s1: "buckets s1 = filter (\<lambda>y. \<not> (\<exists>p\<in>set pfxs. bucket_doomed p r y)) (buckets s)"
    "distinct (map fst (buckets s1))" "\<forall>r\<in>set rs. s3_ok r s1"
    using one' b0 Cons.prems(2) by (simp_all add: s3_ok_def)
  have step: "bindS (say (nl @ ''Region '' @ r @ '':'')) (\<lambda>_. forS (\<lambda>p. delete_buckets_by_prefix p r) pfxs) s =
      (Inr (), s1)"
    by (simp only: bindS_say s0_def [symmetric] run1)
  show ?case
    using Cons.IH [OF s1(2,3)]
    by (simp only: forS.simps bindS_Inr [where m = "bindS (say (nl @ ''Region '' @ r @ '':'')) (\<lambda>_. forS (\<lambda>p. delete_buckets_by_prefix p r) pfxs)", OF step])
       (simp add: s1(1) filter_filter conj_commute)
qed

lemma clean_buckets_run:
  assumes "distinct (map fst (buckets s))" and "\<forall>r\<in>set regions. s3_ok r s"
  shows "fst (clean_buckets_by_prefixes pfxs regions s) = Inr () \<and>
    buckets (snd (clean_buckets_by_prefixes pfxs regions s)) =
      filter (\<lambda>x. \<not> (\<exists>r\<in>set regions. \<exists>p\<in>set pfxs. bucket_doomed p r x)) (buckets s)"
proof -
  define hdr where "hdr = nl @ ''---------- BUCKETS --------------------------------------------------''"
  have eq: "clean_buckets_by_prefixes pfxs regions s = forS (\<lambda>r. bindS (say (nl @ ''Region '' @ r @ '':'')) (\<lambda>_.
        forS (\<lambda>p. delete_buckets_by_prefix p r) pfxs)) regions (snd (say hdr s))"
    unfolding clean_buckets_by_prefixes_def hdr_def [symmetric] by (simp add: bindS_def say_def)
  show ?thesis
    unfolding eq using clean_buckets_regions_run [of "snd (say hdr s)" regions pfxs] assms
    by (simp add: s3_ok_def)
qed

lemma matches_count_pos: "0 < matches_count pfxs g \<longleftrightarrow> (\<exists>p\<in>set pfxs. log_group_matches p g)"
  by (simp add: matches_count_def filter_empty_conv)

lemma delete_log_groups_run:
  assumes "''DescribeLogGroups'' \<notin> failing (providers s r)" "''DeleteLogGroup'' \<notin> failing (providers s r)"
    and "distinct (log_groups (regional s r))"
  shows "fst (delete_log_groups_by_prefixes r pfxs s) =
           (if \<forall>g\<in>set (take 50 (log_groups (regional s r))). matches_count pfxs g \<le> 1 then Inr ()
            else Inl (ClientError ''ResourceNotFoundException''))
    \<and> ((\<forall>g\<in>set (take 50 (log_groups (regional s r))). matches_count pfxs g \<le> 1) \<longrightarrow>
         log_groups (regional (snd (delete_log_groups_by_prefixes r pfxs s)) r) =
           filter (\<lambda>g. \<not> (g \<in> set (take 50 (log_groups (regional s r))) \<and> (\<exists>p\<in>set pfxs. log_group_matches p g)))
             (log_groups (regional s r)))"
proof -
  have d: "distinct (take 50 (log_groups (regional s r)))" "set (take 50 (log_groups (regional s r))) \<subseteq> set (log_groups (regional s r))"
    using assms(3) by (simp_all add: set_take_subset)
  have "delete_log_groups_by_prefixes r pfxs s = forS (log_group_body r pfxs) (take 50 (log_groups (regional s r))) s"
    using assms(1) by (simp add: delete_log_groups_by_prefixes_def describe_log_groups_def bindS_def)
  then show ?thesis
    using log_groups_loop [OF assms(2) d, of pfxs] by (simp add: matches_count_pos)
qed

lemma distinct_map_rev_sort_key:
  "distinct (map f xs) \<Longrightarrow> distinct (map f (rev (sort_key g xs)))"
  by (simp add: distinct_map)

lemma preserves_say [preserves_intros]: "preserves (keeps_bucket x) (say l)"
  by (simp add: preserves_def say_def keeps_bucket_def)

lemma preserves_delete_call [preserves_intros]:
  "(\<And>s. buckets (del s) = buckets s) \<Longrightarrow> preserves (keeps_bucket x) (delete_call r op code present del)"
  unfolding preserves_def delete_call_def keeps_bucket_def by (auto split: sum.splits if_splits)

lemma buckets_upd [simp]:
  "buckets (upd_regional r f s) = buckets s" "buckets (upd_provider r g s) = buckets s"
  by (simp_all add: upd_regional_def upd_provider_def)

lemma mem_map_entry_other: "x \<in> set xs \<Longrightarrow> fst x \<noteq> k \<Longrightarrow> x \<in> set (AList.map_entry k f xs)"
  by (induction xs) auto

lemma mem_delete_other: "x \<in> set xs \<Longrightarrow> fst x \<noteq> k \<Longrightarrow> x \<in> set (AList.delete k xs)"
  by (cases x) (simp add: AList.delete_eq)

lemma preserves_delete_objects:
  "c \<noteq> fst x \<Longrightarrow> preserves (keeps_bucket x) (delete_objects r c)"
  unfolding preserves_def delete_objects_def keeps_bucket_def
  by (auto intro: mem_map_entry_other split: sum.splits)

lemma preserves_delete_bucket:
  "c \<noteq> fst x \<Longrightarrow> preserves (keeps_bucket x) (delete_bucket r c)"
  unfolding preserves_def delete_bucket_def keeps_bucket_def
  by (auto intro: mem_delete_other split: sum.splits option.splits if_splits)

lemma preserves_get_bucket_location [preserves_intros]: "preserves P (get_bucket_location r c)"
  unfolding preserves_def get_bucket_location_def by (auto split: sum.splits option.splits)

lemma preserves_list_buckets [preserves_intros]: "preserves P (list_buckets r)"
  by (simp add: preserves_def list_buckets_def)

lemma preserves_delete_buckets_loop:
  assumes "pfx \<noteq> []" and "\<not> prefix pfx (fst x)"
  shows "preserves (keeps_bucket x) (delete_buckets_loop pfx region bs acc)"
proof (induction bs arbitrary: acc)
  case Nil
  then show ?case by (simp add: preserves_returnS)
next
  case (Cons c cs)
  have ne: "take (length pfx) c = pfx \<Longrightarrow> c \<noteq> fst x"
    using assms(2) by (auto simp: take_length_eq_prefix)
  show ?case
    unfolding delete_buckets_loop.simps
    by (intro preserves_bindS preserves_get_bucket_location preserves_if_cond Cons.IH preserves_say
        preserves_delete_objects preserves_delete_bucket) (use ne assms(1) in auto)
qed

lemma preserves_delete_buckets_by_prefix:
  "pfx \<noteq> [] \<Longrightarrow> \<not> prefix pfx (fst x) \<Longrightarrow> preserves (keeps_bucket x) (delete_buckets_by_prefix pfx region)"
  unfolding delete_buckets_by_prefix_def
  by (intro preserves_bindS preserves_list_buckets preserves_delete_buckets_loop preserves_if_cond preserves_say)

text \<open>A bucket the cleaner of \<open>region\<close> and \<open>pfx\<close> does not doom survives every run, also one
  cut short by a refused call: the loop deletes a bucket only after reading its location
  from the account, and names are unique.\<close>

lemma distinct_map_entry_keys: "map fst (AList.map_entry k f xs) = map fst xs"
  by (induction xs) auto

lemma preserves_bucket_steps_safe:
  "c \<noteq> fst x \<Longrightarrow> preserves (\<lambda>s. keeps_bucket x s \<and> distinct (map fst (buckets s))) (delete_objects r c)"
  "c \<noteq> fst x \<Longrightarrow> preserves (\<lambda>s. keeps_bucket x s \<and> distinct (map fst (buckets s))) (delete_bucket r c)"
  "preserves (\<lambda>s. keeps_bucket x s \<and> distinct (map fst (buckets s))) (say l)"
  unfolding preserves_def delete_objects_def delete_bucket_def keeps_bucket_def say_def
  by (auto intro: mem_map_entry_other mem_delete_other simp: distinct_map_entry_keys distinct_delete
      split: sum.splits option.splits if_splits)

lemma preserves_delete_buckets_loop_safe:
  assumes "\<not> bucket_doomed pfx region x"
  shows "preserves (\<lambda>s. keeps_bucket x s \<and> distinct (map fst (buckets s))) (delete_buckets_loop pfx region bs acc)"
proof (induction bs arbitrary: acc)
  case Nil
  then show ?case by (simp add: preserves_returnS)
next
  case (Cons c cs)
  let ?I = "\<lambda>s. keeps_bucket x s \<and> distinct (map fst (buckets s))"
  let ?del = "bindS (delete_objects region c) (\<lambda>_. bindS (say (''Deleted all objects in bucket bucket '' @ c)) (\<lambda>_.
                bindS (delete_bucket region c) (\<lambda>_. delete_buckets_loop pfx region cs (acc @ [c]))))"
  have del: "preserves ?I ?del" if "c \<noteq> fst x"
    using that by (intro preserves_bindS preserves_bucket_steps_safe Cons.IH)
  show ?case
  proof (rule preserves_stateI)
    fix s assume I: "?I s"
    show "?I (snd (delete_buckets_loop pfx region (c # cs) acc s))"
    proof (cases "provider_call (providers s region) ''GetBucketLocation'' (map_of (buckets s) c)")
      case (Inl e)
      with I show ?thesis by (simp add: bindS_def get_bucket_location_def)
    next
      case (Inr m)
      show ?thesis
      proof (cases m)
        case None
        with Inr I show ?thesis by (simp add: bindS_def get_bucket_location_def)
      next
        case (Some bk)
        have m: "map_of (buckets s) c = Some bk" using Inr Some by (auto simp: provider_call_def split: if_splits)
        have g: "get_bucket_location region c s = (Inr (b_location bk), s)"
          using Inr Some by (simp add: get_bucket_location_def)
        have run: "delete_buckets_loop pfx region (c # cs) acc s =
            (if b_location bk \<noteq> Some region then delete_buckets_loop pfx region cs acc
             else if pfx \<noteq> [] \<and> take (length pfx) c \<noteq> pfx then delete_buckets_loop pfx region cs acc
             else ?del) s"
          by (simp only: delete_buckets_loop.simps bindS_Inr [where m = "get_bucket_location region c", OF g])
        have "c \<noteq> fst x" if "b_location bk = Some region" "\<not> (pfx \<noteq> [] \<and> take (length pfx) c \<noteq> pfx)"
        proof
          assume "c = fst x"
          have "map_of (buckets s) (fst x) = Some (snd x)"
            using I map_of_is_SomeI [of "buckets s" "fst x" "snd x"] by (simp add: keeps_bucket_def)
          with m \<open>c = fst x\<close> have "bk = snd x" by simp
          with that \<open>c = fst x\<close> assms show False by (auto simp: bucket_doomed_def take_length_eq_prefix)
        qed
        then show ?thesis unfolding run
          using preservesD [OF Cons.IH I] preservesD [OF del I] by auto
      qed
    qed
  qed
qed

lemma preserves_clean_buckets_safe:
  assumes "\<And>r p. \<not> bucket_doomed p r x"
  shows "preserves (\<lambda>s. keeps_bucket x s \<and> distinct (map fst (buckets s))) (clean_buckets_by_prefixes pfxs regions)"
  unfolding clean_buckets_by_prefixes_def delete_buckets_by_prefix_def
  by (intro preserves_intros preserves_bucket_steps_safe(3) preserves_delete_buckets_loop_safe assms)

lemma preserves_listings [preserves_intros]:
  "preserves P (describe_log_groups r)" "preserves P (list_endpoint_configs r p)"
  "preserves P (list_models r p)" "preserves P (describe_nat_gateways r)"
  by (simp_all add: preserves_def describe_log_groups_def list_endpoint_configs_def list_models_def
      describe_nat_gateways_def)

lemma preserves_teardown_deletes [preserves_intros]:
  "preserves (keeps_bucket x) (delete_log_group r n)" "preserves (keeps_bucket x) (delete_table r n)"
  "preserves (keeps_bucket x) (delete_user_pool r n)" "preserves (keeps_bucket x) (delete_repository r n)"
  "preserves (keeps_bucket x) (delete_endpoint r n)" "preserves (keeps_bucket x) (delete_endpoint_config r n)"
  "preserves (keeps_bucket x) (delete_model r n)"
  unfolding delete_log_group_def delete_table_def delete_user_pool_def delete_repository_def
    delete_endpoint_def delete_endpoint_config_def delete_model_def
  by (rule preserves_delete_call; simp)+

lemma preserves_pool_step: "preserves (keeps_bucket x) (pool_step r n)"
proof (rule preserves_stateI)
  fix s assume "keeps_bucket x s"
  moreover have "preserves (keeps_bucket x)
      (bindS (liftS (get_user_pool_id (providers s) (proc s) ''MysfitsUserPool'' r)) (\<lambda>user_pool_id.
       case user_pool_id of
         None \<Rightarrow> returnS []
       | Some pid \<Rightarrow> bindS (catch_code ''ResourceNotFoundException'' (delete_user_pool r pid)) (\<lambda>res.
                      returnS (if res = None then [] else [n]))))"
    by (intro preserves_intros)
  ultimately show "keeps_bucket x (snd (pool_step r n s))"
    unfolding pool_step_def by (rule preservesD [rotated])
qed

lemma preserves_clean_main:
  assumes "\<not> prefix ''mythicalmysfits'' (fst x)" and "\<not> prefix ''sagemaker'' (fst x)"
  shows "preserves (keeps_bucket x) clean_main"
  unfolding clean_main_def deployment_region_list_def clean_buckets_by_prefixes_def clean_logs_by_prefixes_def
    delete_log_groups_by_prefixes_def log_group_body_def clean_tables_by_names_def clean_pools_by_names_def
    clean_repositories_by_names_def clean_by_names_def table_step_def repository_step_def report_deleted_def
    clean_sagemaker_endpoints_by_prefix_def sagemaker_region_def list_nat_gateways_def forS.simps
  by (intro preserves_intros preserves_delete_buckets_by_prefix preserves_pool_step preserves_query)
     (simp_all add: assms)

text \<open>The first page of \<open>list_endpoints\<close>: the ten newest \<open>InService\<close> endpoints whose name
  contains \<open>p\<close>.\<close>

lemma clean_sagemaker_endpoints_run:
  assumes ok: "''ListEndpoints'' \<notin> failing (providers s r)" "''DeleteEndpoint'' \<notin> failing (providers s r)"
    and d: "distinct (map ep_name (sm_endpoints (providers s r)))" and p: "p \<noteq> []"
  shows "fst (clean_sagemaker_endpoints_by_prefix [r] (Some p) None None s) = Inr ()
    \<and> providers (snd (clean_sagemaker_endpoints_by_prefix [r] (Some p) None None s)) =
        (providers s)(r := (providers s r)\<lparr>sm_endpoints :=
          filter (\<lambda>e. ep_name e \<notin> ep_name ` set (take 10 (rev (sort_key ep_created
            (filter (\<lambda>e. ep_status e = InService \<and> sublist p (ep_name e)) (sm_endpoints (providers s r)))))))
            (sm_endpoints (providers s r))\<rparr>)"
proof -
  define s1 where "s1 = snd (say (nl @ ''---------- Sagemaker --------------------------------------------------'') s)"
  define L where "L = sm_endpoints (providers s r)"
  define es where "es = take 10 (rev (sort_key ep_created (filter (\<lambda>e. ep_status e = InService \<and> sublist p (ep_name e)) L)))"
  define body :: "endpoint \<Rightarrow> (account, unit) script" where "body = (\<lambda>e. bindS (delete_endpoint r (ep_name e)) (\<lambda>_.
                 say (''Deleted endpoint '' @ ep_name e @ '' in region '' @ r)))"
  have p1: "providers s1 = providers s" by (simp add: s1_def)
  have sayrun: "say (nl @ ''---------- Sagemaker --------------------------------------------------'') s = (Inr (), s1)"
    by (simp add: s1_def say_def)
  have dn: "distinct (map ep_name es)"
    unfolding es_def take_map [symmetric] using d
    by (intro distinct_take distinct_map_rev_sort_key) (simp add: L_def distinct_map_filter)
  have sub: "ep_name ` set es \<subseteq> ep_name ` set (sm_endpoints (providers s1 r))"
    using set_take_subset by (fastforce simp: es_def L_def p1)
  have ok2: "''DeleteEndpoint'' \<notin> failing (providers s1 r)" using ok(2) p1 by simp
  define s2 where "s2 = snd (forS body es s1)"
  have h: "fst (forS body es s1) = Inr ()"
    "providers s2 = (providers s1)(r := (providers s1 r)\<lparr>sm_endpoints :=
         filter (\<lambda>x. ep_name x \<notin> ep_name ` set es) (sm_endpoints (providers s1 r))\<rparr>)"
    using endpoint_loop_run [OF ok2 dn sub] unfolding body_def s2_def by simp_all
  have run: "forS body es s1 = (Inr (), s2)"
    using h(1) unfolding s2_def by (cases "forS body es s1") simp
  have lst: "list_endpoints (providers s1 r) p = Inr es"
    using ok(1) by (simp add: list_endpoints_def p1 es_def L_def)
  have sr: "sagemaker_region r (Some p) None None s1 = (Inr (), s2)"
    unfolding sagemaker_region_def body_def [symmetric] using p
    by (simp add: bindS_def lst run returnS_def)
  have unf: "clean_sagemaker_endpoints_by_prefix [r] (Some p) None None s = (Inr (), s2)"
    unfolding clean_sagemaker_endpoints_by_prefix_def
    using sayrun by (simp add: bindS_def sr returnS_def)
  then show ?thesis using h(2) p1 by (simp add: L_def es_def)
qed

text \<open>When at most ten endpoints match, the first page holds them all, and deleting the
  names it lists deletes exactly the matching endpoints.\<close>

lemma first_page_covers:
  assumes d: "distinct (map ep_name L)" and n: "length (filter P L) \<le> 10"
  shows "filter (\<lambda>x. ep_name x \<notin> ep_name ` set (take 10 (rev (sort_key ep_created (filter P L))))) L =
         filter (\<lambda>e. \<not> P e) L"
proof (rule filter_cong [OF refl])
  have tk: "take 10 (rev (sort_key ep_created (filter P L))) = rev (sort_key ep_created (filter P L))"
    using n by simp
  have inj: "inj_on ep_name (set L)" using d by (simp add: distinct_map)
  fix x assume x: "x \<in> set L"
  show "(ep_name x \<notin> ep_name ` set (take 10 (rev (sort_key ep_created (filter P L))))) = (\<not> P x)"
  proof
    assume "ep_name x \<notin> ep_name ` set (take 10 (rev (sort_key ep_created (filter P L))))"
    then show "\<not> P x" using x by (auto simp: tk)
  next
    assume nq: "\<not> P x"
    show "ep_name x \<notin> ep_name ` set (take 10 (rev (sort_key ep_created (filter P L))))"
    proof
      assume "ep_name x \<in> ep_name ` set (take 10 (rev (sort_key ep_created (filter P L))))"
      then obtain y where y: "y \<in> set L" "P y" "ep_name y = ep_name x" by (auto simp: tk)
      with x inj have "y = x" by (auto dest: inj_onD)
      with nq y(2) show False by simp
    qed
  qed
qed

subsection \<open>Properties of the teardown\<close>

text \<open>C23. When S3 accepts the cleaner's calls in every deployment region,
  \<open>clean_buckets_by_prefixes\<close> returns normally and deletes exactly the buckets whose
  \<open>LocationConstraint\<close> is one of the regions and whose name starts with one of the
  prefixes (every bucket of the region when a prefix is empty).\<close>

theorem clean_buckets_by_prefixes_effect:
  assumes "distinct (map fst (buckets s))" and "\<forall>r\<in>set regions. s3_ok r s"
  shows "fst (clean_buckets_by_prefixes pfxs regions s) = Inr () \<and>
    buckets (snd (clean_buckets_by_prefixes pfxs regions s)) =
      filter (\<lambda>(b, bk). \<not> (\<exists>r\<in>set regions. b_location bk = Some r \<and> (\<exists>p\<in>set pfxs. p = [] \<or> prefix p b)))
        (buckets s)"
  using clean_buckets_run [OF assms] by (simp add: bucket_doomed_def split_def)

text \<open>C24. A bucket in us-east-1, whose \<open>LocationConstraint\<close> is \<open>None\<close>, is never deleted by
  \<open>clean_buckets_by_prefixes\<close>, whatever the regions and prefixes, \<open>us-east-1\<close> included.\<close>

theorem us_east_1_buckets_survive:
  assumes "distinct (map fst (buckets s))" and "(b, bk) \<in> set (buckets s)" and "b_location bk = None"
  shows "(b, bk) \<in> set (buckets (snd (clean_buckets_by_prefixes pfxs regions s)))"
proof -
  have "\<And>r p. \<not> bucket_doomed p r (b, bk)" using assms(3) by (simp add: bucket_doomed_def)
  then show ?thesis
    using preservesD [OF preserves_clean_buckets_safe [of "(b, bk)" pfxs regions], of s] assms(1,2)
    by (simp add: keeps_bucket_def)
qed

text \<open>C25. A log group (among the first 50 listed) that matches two of the prefixes is
  deleted for the first and the second \<open>delete_log_group\<close> raises
  \<open>ResourceNotFoundException\<close>, which nothing catches.\<close>

theorem log_group_double_match_raises:
  assumes "''DescribeLogGroups'' \<notin> failing (providers s r)" "''DeleteLogGroup'' \<notin> failing (providers s r)"
    and "distinct (log_groups (regional s r))"
    and "g \<in> set (take 50 (log_groups (regional s r)))" and "2 \<le> matches_count pfxs g"
  shows "fst (delete_log_groups_by_prefixes r pfxs s) = Inl (ClientError ''ResourceNotFoundException'')"
proof -
  have "\<not> (\<forall>g\<in>set (take 50 (log_groups (regional s r))). matches_count pfxs g \<le> 1)"
    using assms(4,5) by force
  then show ?thesis using delete_log_groups_run [OF assms(1-3), of pfxs] by simp
qed

text \<open>C26. When no listed group matches two prefixes, \<open>delete_log_groups_by_prefixes\<close> deletes
  exactly the groups among the first 50 listed whose lower-cased name contains a
  lower-cased prefix anywhere, not only at the start; the groups past the first page stay.\<close>

theorem delete_log_groups_effect:
  assumes "''DescribeLogGroups'' \<notin> failing (providers s r)" "''DeleteLogGroup'' \<notin> failing (providers s r)"
    and "distinct (log_groups (regional s r))"
    and "\<forall>g\<in>set (take 50 (log_groups (regional s r))). matches_count pfxs g \<le> 1"
  shows "fst (delete_log_groups_by_prefixes r pfxs s) = Inr () \<and>
    log_groups (regional (snd (delete_log_groups_by_prefixes r pfxs s)) r) =
      filter (\<lambda>g. \<not> (g \<in> set (take 50 (log_groups (regional s r))) \<and>
                      (\<exists>p\<in>set pfxs. sublist (str_lower p) (str_lower g))))
        (log_groups (regional s r))"
  using delete_log_groups_run [OF assms(1-3), of pfxs] assms(4) by (simp add: log_group_matches_def)

text \<open>C27. \<open>clean_tables_by_names\<close> does not raise when a table is missing: afterwards no table
  of the list is left in any of the regions, and nothing else is deleted.\<close>

theorem clean_tables_by_names_effect:
  assumes "\<forall>r\<in>set regions. ''DeleteTable'' \<notin> failing (providers s r)"
  shows "fst (clean_tables_by_names names regions s) = Inr ()
    \<and> (\<forall>r. tables (regional (snd (clean_tables_by_names names regions s)) r) =
            (if r \<in> set regions then filter (\<lambda>t. t \<notin> set names) (tables (regional s r))
             else tables (regional s r)))
    \<and> providers (snd (clean_tables_by_names names regions s)) = providers s
    \<and> buckets (snd (clean_tables_by_names names regions s)) = buckets s"
proof -
  define R where "R = (\<lambda>r s'. fold (drop_table r) names (snd (say (nl @ ''Region '' @ r @ '':'') s')))"
  define s1 where "s1 = snd (say (nl @ ''---------- DynamoDB Tables --------------------------------------------------'') s)"
  obtain d where run:
    "clean_by_names ''---------- DynamoDB Tables --------------------------------------------------'' table_step names regions s =
       (Inr d, fold R regions s1)"
  proof -
    have "\<exists>d. table_step r n s' = (Inr d, drop_table r n s') \<and> set d \<subseteq> UNIV \<and>
              providers (drop_table r n s') = providers s"
      if "r \<in> set regions" "providers s' = providers s" for r n s'
      using table_step_run [of s' r n] fold_drop_table [of r "[n]" s'] that assms by auto
    from clean_by_names_run [where Inv = "\<lambda>s'. providers s' = providers s" and step = table_step
        and U = drop_table and A = UNIV and regions = regions, OF this] that
    show thesis unfolding R_def s1_def by auto
  qed
  have eff: "tables (regional (fold R regs s') r) =
       (if r \<in> set regs then filter (\<lambda>t. t \<notin> set names) (tables (regional s' r)) else tables (regional s' r))
     \<and> providers (fold R regs s') = providers s' \<and> buckets (fold R regs s') = buckets s'" for regs s' r
  proof (induction regs arbitrary: s')
    case Nil
    then show ?case by simp
  next
    case (Cons r' regs)
    have "tables (regional (R r' s') r) = (if r = r' then filter (\<lambda>t. t \<notin> set names) (tables (regional s' r)) else tables (regional s' r))"
      "providers (R r' s') = providers s'" "buckets (R r' s') = buckets s'"
      using fold_drop_table [of r' names "snd (say (nl @ ''Region '' @ r' @ '':'') s')" r] by (simp_all add: R_def)
    with Cons.IH [of "R r' s'"] show ?case by (auto simp: filter_filter intro: filter_cong)
  qed
  show ?thesis
    unfolding clean_tables_by_names_def using eff [of regions s1]
    by (simp add: bindS_def run report_deleted_def say_def s1_def)
qed

text \<open>C28. \<open>clean_pools_by_names\<close> looks the pool up in the process's default region, not in
  the region it deletes in: when the pool ids of the two regions differ, it deletes nothing
  anywhere and reports that there was no pool, even if the region holds \<open>MysfitsUserPool\<close>.\<close>

theorem clean_pools_by_names_default_region:
  assumes env: "environ (proc s) ''AWS_DEFAULT_REGION'' = Some e"
    and ok: "''ListUserPools'' \<notin> failing (providers s e)"
    "\<forall>r\<in>set regions. ''DeleteUserPool'' \<notin> failing (providers s r)"
    and disj: "\<forall>r\<in>set regions. snd ` set (user_pools (providers s e)) \<inter> snd ` set (user_pools (providers s r)) = {}"
  shows "fst (clean_pools_by_names names regions s) = Inr ()
    \<and> providers (snd (clean_pools_by_names names regions s)) = providers s
    \<and> last (stdout (proc (snd (clean_pools_by_names names regions s)))) = ''No pools with names:'' @ nl @ py_list_repr names"
proof -
  define Inv :: "account \<Rightarrow> bool" where "Inv = (\<lambda>s'. providers s' = providers s \<and> environ (proc s') = environ (proc s))"
  define s1 where "s1 = snd (say (nl @ ''---------- Cognito User Pools --------------------------------------------------'') s)"
  define R where "R = (\<lambda>r s'. fold (\<lambda>n s. s) names (snd (say (nl @ ''Region '' @ r @ '':'') s')))"
  have "\<exists>d. pool_step r n s' = (Inr d, s') \<and> set d \<subseteq> {} \<and> Inv s'" if "r \<in> set regions" "Inv s'" for r n s'
    using pool_step_foreign_id [of s' e r n] that env ok disj by (auto simp: Inv_def)
  from clean_by_names_run [where Inv = Inv and step = pool_step and U = "\<lambda>r n s. s" and A = "{}"
      and regions = regions, OF this]
  obtain d where run: "clean_by_names ''---------- Cognito User Pools --------------------------------------------------'' pool_step
      names regions s = (Inr d, fold R regions s1)" and "set d \<subseteq> {}"
    unfolding R_def s1_def by (fastforce simp: Inv_def)
  then have d: "d = []" by simp
  have fid: "fold (\<lambda>n s. s) ns x = x" for ns and x :: account
    by (induction ns) simp_all
  have i: "Inv (fold R regs s')" if "Inv s'" for regs s'
    using that by (induction regs arbitrary: s') (simp_all add: R_def Inv_def fid)
  show ?thesis
    unfolding clean_pools_by_names_def using i [of s1]
    by (simp add: bindS_def run d report_deleted_def say_def Inv_def s1_def)
qed

text \<open>C29. \<open>clean_sagemaker_endpoints_by_prefix\<close> with an endpoint prefix deletes the
  endpoints of the first page of its listing, the ten newest \<open>InService\<close> endpoints whose
  name contains the prefix, and keeps every other endpoint: those in any other status
  (\<open>Failed\<close>, \<open>Creating\<close>, ...) and, when more than ten match, the older matches, since
  the code follows no \<open>NextToken\<close>.\<close>

theorem clean_sagemaker_endpoints_effect:
  assumes ok: "''ListEndpoints'' \<notin> failing (providers s r)" "''DeleteEndpoint'' \<notin> failing (providers s r)"
    and d: "distinct (map ep_name (sm_endpoints (providers s r)))" and p: "p \<noteq> []"
  shows "fst (clean_sagemaker_endpoints_by_prefix [r] (Some p) None None s) = Inr ()
    \<and> sm_endpoints (providers (snd (clean_sagemaker_endpoints_by_prefix [r] (Some p) None None s)) r) =
        filter (\<lambda>e. ep_name e \<notin> ep_name ` set (take 10 (rev (sort_key ep_created
            (filter (\<lambda>e. ep_status e = InService \<and> sublist p (ep_name e)) (sm_endpoints (providers s r)))))))
          (sm_endpoints (providers s r))"
  using clean_sagemaker_endpoints_run [OF assms] by simp

text \<open>C30. The main section deletes no bucket whose name starts with neither
  \<open>mythicalmysfits\<close> nor \<open>sagemaker\<close>, however its steps end, an uncaught exception included.\<close>

theorem clean_main_keeps_foreign_buckets:
  assumes "(b, bk) \<in> set (buckets s)"
    and "\<not> prefix ''mythicalmysfits'' b" and "\<not> prefix ''sagemaker'' b"
  shows "(b, bk) \<in> set (buckets (snd (clean_main s)))"
  using preservesD [OF preserves_clean_main [of "(b, bk)"]] assms by (simp add: keeps_bucket_def)

subsection \<open>The properties on the example account\<close>

lemmas demo_account_simps = demo_account_def demo_region_res_def empty_region_def

theorem clean_buckets_by_prefixes_effect_witness:
  "distinct (map fst (buckets demo_account)) \<and> s3_ok ''eu-west-1'' demo_account \<and>
   fst (clean_buckets_by_prefixes [''mythicalmysfits''] [''eu-west-1''] demo_account) = Inr () \<and>
   map fst (buckets (snd (clean_buckets_by_prefixes [''mythicalmysfits''] [''eu-west-1''] demo_account))) =
     [''mythicalmysfits-site'', ''logs-archive'']"
proof -
  have d: "distinct (map fst (buckets demo_account))" by (simp add: demo_account_def)
  have h: "\<forall>r\<in>set [''eu-west-1'']. s3_ok r demo_account" by (simp add: s3_ok_def demo_account_simps)
  show ?thesis
    using clean_buckets_by_prefixes_effect [OF d h, of "[''mythicalmysfits'']"] d h
    by (simp add: demo_account_def sublist_eval)
qed

theorem us_east_1_buckets_survive_witness:
  "distinct (map fst (buckets demo_account)) \<and>
   (''mythicalmysfits-site'', \<lparr>b_location = None, b_objects = [''index.html'']\<rparr>) \<in> set (buckets demo_account) \<and>
   (''mythicalmysfits-site'', \<lparr>b_location = None, b_objects = [''index.html'']\<rparr>) \<in>
     set (buckets (snd (clean_buckets_by_prefixes [''mythicalmysfits''] [''us-east-1''] demo_account)))"
proof -
  have d: "distinct (map fst (buckets demo_account))"
    and m: "(''mythicalmysfits-site'', \<lparr>b_location = None, b_objects = [''index.html'']\<rparr>) \<in> set (buckets demo_account)"
    by (simp_all add: demo_account_def)
  show ?thesis using us_east_1_buckets_survive [OF d m, of "[''mythicalmysfits'']" "[''us-east-1'']"] d m by simp
qed

theorem log_group_double_match_raises_witness:
  "matches_count [''mysfits'', ''welcome''] ''/aws/lambda/mysfits-welcome'' = 2 \<and>
   fst (delete_log_groups_by_prefixes ''eu-west-1'' [''mysfits'', ''welcome''] demo_account) =
     Inl (ClientError ''ResourceNotFoundException'')"
proof -
  have c: "matches_count [''mysfits'', ''welcome''] ''/aws/lambda/mysfits-welcome'' = 2"
    by (simp add: matches_count_def log_group_matches_def str_lower_def lower_char_def upper_chars_def
        lower_chars_def sublist_eval)
  have "''DescribeLogGroups'' \<notin> failing (providers demo_account ''eu-west-1'')"
    "''DeleteLogGroup'' \<notin> failing (providers demo_account ''eu-west-1'')"
    "distinct (log_groups (regional demo_account ''eu-west-1''))"
    "''/aws/lambda/mysfits-welcome'' \<in> set (take 50 (log_groups (regional demo_account ''eu-west-1'')))"
    by (simp_all add: demo_account_simps)
  then show ?thesis using log_group_double_match_raises [of demo_account "''eu-west-1''"] c by simp
qed

theorem delete_log_groups_effect_witness:
  "fst (delete_log_groups_by_prefixes ''eu-west-1'' [''mysfits''] demo_account) = Inr () \<and>
   log_groups (regional (snd (delete_log_groups_by_prefixes ''eu-west-1'' [''mysfits''] demo_account)) ''eu-west-1'') =
     [''/other'']"
proof -
  have h: "''DescribeLogGroups'' \<notin> failing (providers demo_account ''eu-west-1'')"
    "''DeleteLogGroup'' \<notin> failing (providers demo_account ''eu-west-1'')"
    "distinct (log_groups (regional demo_account ''eu-west-1''))"
    "\<forall>g\<in>set (take 50 (log_groups (regional demo_account ''eu-west-1''))). matches_count [''mysfits''] g \<le> 1"
    by (simp_all add: demo_account_simps matches_count_def)
  show ?thesis
    using delete_log_groups_effect [OF h]
    by (simp add: demo_account_simps str_lower_def lower_char_def upper_chars_def lower_chars_def sublist_eval)
qed

theorem clean_tables_by_names_effect_witness:
  "fst (clean_tables_by_names [''MysfitsTable'', ''MysfitsQuestionsTable''] [''eu-west-1''] demo_account) = Inr () \<and>
   tables (regional (snd (clean_tables_by_names [''MysfitsTable'', ''MysfitsQuestionsTable''] [''eu-west-1''] demo_account))
     ''eu-west-1'') = []"
proof -
  have h: "\<forall>r\<in>set [''eu-west-1'']. ''DeleteTable'' \<notin> failing (providers demo_account r)"
    by (simp add: demo_account_simps)
  show ?thesis using clean_tables_by_names_effect [OF h] by (simp add: demo_account_simps)
qed

theorem clean_pools_by_names_default_region_witness:
  "fst (clean_pools_by_names [''MysfitsUserPool''] [''eu-west-1''] demo_account) = Inr () \<and>
   user_pools (providers (snd (clean_pools_by_names [''MysfitsUserPool''] [''eu-west-1''] demo_account)) ''eu-west-1'') =
     [(''MysfitsUserPool'', ''eu-west-1_abc'')]"
proof -
  have h: "environ (proc demo_account) ''AWS_DEFAULT_REGION'' = Some ''us-east-1''"
    "''ListUserPools'' \<notin> failing (providers demo_account ''us-east-1'')"
    "\<forall>r\<in>set [''eu-west-1'']. ''DeleteUserPool'' \<notin> failing (providers demo_account r)"
    "\<forall>r\<in>set [''eu-west-1'']. snd ` set (user_pools (providers demo_account ''us-east-1'')) \<inter>
        snd ` set (user_pools (providers demo_account r)) = {}"
    by (simp_all add: demo_account_simps)
  show ?thesis using clean_pools_by_names_default_region [OF h, of "[''MysfitsUserPool'']"]
    by (simp add: demo_account_simps)
qed

theorem clean_sagemaker_endpoints_effect_witness:
  "fst (clean_sagemaker_endpoints_by_prefix [''eu-west-1''] (Some ''mysfits'') None None crowded_account) = Inr () \<and>
   map ep_name (sm_endpoints (providers (snd (clean_sagemaker_endpoints_by_prefix [''eu-west-1''] (Some ''mysfits'')
     None None crowded_account)) ''eu-west-1'')) = [''mysfits-a'']"
proof -
  have h: "''ListEndpoints'' \<notin> failing (providers crowded_account ''eu-west-1'')"
    "''DeleteEndpoint'' \<notin> failing (providers crowded_account ''eu-west-1'')"
    "distinct (map ep_name (sm_endpoints (providers crowded_account ''eu-west-1'')))" "''mysfits'' \<noteq> []"
    by (simp_all add: crowded_account_def empty_region_def)
  show ?thesis using clean_sagemaker_endpoints_effect [OF h]
    by (simp add: crowded_account_def empty_region_def sublist_eval)
qed

theorem clean_main_keeps_foreign_buckets_witness:
  "(''logs-archive'', \<lparr>b_location = Some ''eu-west-1'', b_objects = [''a.log'']\<rparr>) \<in> set (buckets (snd (clean_main demo_account)))"
proof -
  have "(''logs-archive'', \<lparr>b_location = Some ''eu-west-1'', b_objects = [''a.log'']\<rparr>) \<in> set (buckets demo_account)"
    "\<not> prefix ''mythicalmysfits'' ''logs-archive''" "\<not> prefix ''sagemaker'' ''logs-archive''"
    by (simp_all add: demo_account_def)
  then show ?thesis by (rule clean_main_keeps_foreign_buckets)
qed

end
