(* ===== verification/Probes.thy ===== *)
theory Probes
  imports Teardown
begin

text \<open>
  The probe scripts of \<open>src/webgen/utils\<close>, run as separate processes against the same
  account as the teardown, with clients of the process's default region:
  \<open>test_ecr_empty.py\<close> prints \<open>true\<close> when the service repository holds no image (or does
  not exist), \<open>test_no_inference_endpoint.py\<close> prints \<open>true\<close> when no \<open>InService\<close>
  endpoint has \<open>knn\<close> in its name, and \<open>deploy_ecs_service.py\<close> forces a new deployment
  of the Fargate service.  The endpoint name the SageMaker notebook deploys under
  (\<open>src/webgen/sagemaker/mysfit_recommendations_knn.py\<close>, line 255) is modelled as a
  function of the time stamp, to relate the notebook, \<open>prepare_files.py\<close>, the teardown
  and the probe.
\<close>

subsection \<open>ECR (test_ecr_empty.py)\<close>

text \<open>\<open>list_images\<close> of a repository: \<open>RepositoryNotFoundException\<close> when there is none.\<close>

definition list_images :: "string \<Rightarrow> string \<Rightarrow> (account, string list) script" where
  "list_images r repo s =
     (case provider_call (providers s r) ''ListImages'' () of
        Inl e \<Rightarrow> (Inl e, s)
      | Inr _ \<Rightarrow> (case map_of (repositories (regional s r)) repo of
                   None \<Rightarrow> (Inl (ClientError ''RepositoryNotFoundException''), s)
                 | Some ids \<Rightarrow> (Inr ids, s)))"

definition test_ecr_empty :: "(account, unit) script" where
  "test_ecr_empty s =
     bindS (liftS (client_region (proc s))) (\<lambda>r.
     bindS (catch_code ''RepositoryNotFoundException'' (list_images r ''mythicalmysfits/service'')) (\<lambda>res.
       case res of
         None \<Rightarrow> say ''true''
       | Some ids \<Rightarrow> if ids \<noteq> [] then say ''false'' else say ''true'')) s"

subsection \<open>SageMaker (test_no_inference_endpoint.py)\<close>

definition test_no_inference_endpoint :: "(account, unit) script" where
  "test_no_inference_endpoint s =
     bindS (liftS (client_region (proc s))) (\<lambda>r.
     bindS (\<lambda>s. (list_endpoints (providers s r) ''knn'', s)) (\<lambda>endpoints.
       if endpoints \<noteq> [] then say ''false'' else say ''true'')) s"

text \<open>The name of the endpoint the notebook deploys, from the time stamp
  \<open>str(time.time()).replace('.','-')\<close>.\<close>

definition knn_endpoint_name :: "string \<Rightarrow> string" where
  "knn_endpoint_name stamp = ''mysfits-knn-ml-m4-xlarge-'' @ stamp"

subsection \<open>ECS (deploy_ecs_service.py)\<close>

text \<open>\<open>update_service(..., forceNewDeployment=True)\<close>: a new deployment of an existing service;
  an unknown cluster or service is a \<open>ClientError\<close>.\<close>

definition update_service :: "string \<Rightarrow> string \<Rightarrow> string \<Rightarrow> (account, unit) script" where
  "update_service r cluster service s =
     (case provider_call (providers s r) ''UpdateService'' () of
        Inl e \<Rightarrow> (Inl e, s)
      | Inr _ \<Rightarrow>
          if cluster \<notin> fst ` fst ` set (ecs_services (regional s r))
          then (Inl (ClientError ''ClusterNotFoundException''), s)
          else if (cluster, service) \<notin> fst ` set (ecs_services (regional s r))
          then (Inl (ClientError ''ServiceNotFoundException''), s)
          else (Inr (), upd_regional r (\<lambda>rr. rr\<lparr>ecs_services :=
                  AList.map_entry (cluster, service) Suc (ecs_services rr)\<rparr>) s))"

definition deploy_ecs_service :: "(account, unit) script" where
  "deploy_ecs_service s =
     bindS (liftS (client_region (proc s))) (\<lambda>r.
       update_service r ''MythicalMysfits-Cluster'' ''MythicalMysfits-FargateService'') s"

subsection \<open>Specification helpers and example data\<close>

definition keeps_env :: "(string \<rightharpoonup> string) \<Rightarrow> account \<Rightarrow> bool" where
  "keeps_env e s \<longleftrightarrow> environ (proc s) = e"

text \<open>The example account with the default region eu-west-1, where the notebook has deployed its endpoint.\<close>

definition probe_account :: account where
  "probe_account = demo_account\<lparr>
     proc := (proc demo_account)\<lparr>environ := [''AWS_DEFAULT_REGION'' \<mapsto> ''eu-west-1'']\<rparr>,
     providers := (providers demo_account)(''eu-west-1'' := (providers demo_account ''eu-west-1'')\<lparr>
       sm_endpoints := [\<lparr>ep_name = knn_endpoint_name ''1700000000-5'', ep_status = InService, ep_created = 2\<rparr>,
                        \<lparr>ep_name = ''mysfits-old'', ep_status = Failed, ep_created = 0\<rparr>]\<rparr>)\<rparr>"

subsection \<open>Runs of the probes\<close>

lemma preserves_env_say [preserves_intros]: "preserves (keeps_env e) (say l)"
  by (simp add: preserves_def say_def keeps_env_def)

lemma preserves_env_delete_call [preserves_intros]:
  "(\<And>s. proc (del s) = proc s) \<Longrightarrow> preserves (keeps_env e) (delete_call r op code present del)"
  unfolding preserves_def delete_call_def keeps_env_def by (auto split: sum.splits if_splits)

lemma proc_upd [simp]:
  "proc (upd_regional r f s) = proc s" "proc (upd_provider r g s) = proc s"
  by (simp_all add: upd_regional_def upd_provider_def)

lemma preserves_env_sagemaker:
  "preserves (keeps_env e) (clean_sagemaker_endpoints_by_prefix regions ep cfg mdl)"
  unfolding clean_sagemaker_endpoints_by_prefix_def sagemaker_region_def delete_endpoint_def
    delete_endpoint_config_def delete_model_def
  by (intro preserves_intros preserves_query preserves_env_delete_call; simp)

lemma client_region_Some: "environ st ''AWS_DEFAULT_REGION'' = Some r \<Longrightarrow> client_region st = Inr r"
  by (simp add: client_region_def)

lemma test_no_inference_endpoint_run:
  assumes "environ (proc s) ''AWS_DEFAULT_REGION'' = Some r" and "''ListEndpoints'' \<notin> failing (providers s r)"
  shows "test_no_inference_endpoint s =
    say (if \<exists>e\<in>set (sm_endpoints (providers s r)). ep_status e = InService \<and> sublist ''knn'' (ep_name e)
         then ''false'' else ''true'') s"
proof -
  have "(list_endpoints (providers s r) ''knn'' \<noteq> Inr []) =
        (\<exists>e\<in>set (sm_endpoints (providers s r)). ep_status e = InService \<and> sublist ''knn'' (ep_name e))"
    using assms(2) by (auto simp: list_endpoints_def filter_empty_conv)
  with assms show ?thesis
    by (simp add: test_no_inference_endpoint_def client_region_Some bindS_liftS bindS_def list_endpoints_def) blast
qed

lemma knn_endpoint_name_parts:
  "sublist ''knn'' (knn_endpoint_name t)" "sublist ''mysfits'' (knn_endpoint_name t)"
  "sublist ''knn-'' (knn_endpoint_name t)"
proof -
  have eq: "knn_endpoint_name t = ''mysfits-'' @ ''knn-'' @ ''ml-m4-xlarge-'' @ t"
    "knn_endpoint_name t = [] @ ''mysfits'' @ ''-knn-ml-m4-xlarge-'' @ t"
    by (simp_all add: knn_endpoint_name_def)
  show "sublist ''knn-'' (knn_endpoint_name t)" by (subst eq(1)) (rule sublist_appendI)
  show "sublist ''mysfits'' (knn_endpoint_name t)" by (subst eq(2)) (rule sublist_appendI)
  show "sublist ''knn'' (knn_endpoint_name t)"
    using \<open>sublist ''knn-'' (knn_endpoint_name t)\<close> by (rule sublist_order.order_trans [rotated]) (simp add: sublist_eval)
qed

subsection \<open>Properties of the probes\<close>

text \<open>C31. With the default region set, \<open>test_ecr_empty.py\<close> prints one line: \<open>false\<close> when the repository \<open>mythicalmysfits/service\<close> holds an image, \<open>true\<close> when it is empty or does not exist.\<close>

theorem test_ecr_empty_output:
  assumes "environ (proc s) ''AWS_DEFAULT_REGION'' = Some r" and "''ListImages'' \<notin> failing (providers s r)"
  shows "test_ecr_empty s =
    say (case map_of (repositories (regional s r)) ''mythicalmysfits/service'' of
           Some ids \<Rightarrow> if ids \<noteq> [] then ''false'' else ''true''
         | None \<Rightarrow> ''true'') s"
  using assms
  by (auto simp: test_ecr_empty_def client_region_Some bindS_liftS bindS_def catch_code_def list_images_def
      split: option.splits)

text \<open>C32. The notebook names its endpoint \<open>mysfits-knn-ml-m4-xlarge-...\<close>: when every \<open>InService\<close> endpoint with \<open>knn\<close> in its name is one of the notebook's, and at most ten \<open>InService\<close> endpoints contain \<open>mysfits\<close> (one page of \<open>list_endpoints\<close>), the teardown's SageMaker cleanup with prefix \<open>mysfits\<close> removes them all and \<open>test_no_inference_endpoint.py\<close> then prints \<open>true\<close>.\<close>

theorem notebook_endpoint_cleared:
  assumes env: "environ (proc s) ''AWS_DEFAULT_REGION'' = Some r"
    and ok: "''ListEndpoints'' \<notin> failing (providers s r)" "''DeleteEndpoint'' \<notin> failing (providers s r)"
    and d: "distinct (map ep_name (sm_endpoints (providers s r)))"
    and nb: "\<forall>e\<in>set (sm_endpoints (providers s r)). ep_status e = InService \<and> sublist ''knn'' (ep_name e)
               \<longrightarrow> (\<exists>t. ep_name e = knn_endpoint_name t)"
    and page: "length (filter (\<lambda>e. ep_status e = InService \<and> sublist ''mysfits'' (ep_name e))
                 (sm_endpoints (providers s r))) \<le> 10"
  shows "test_no_inference_endpoint (snd (clean_sagemaker_endpoints_by_prefix [r] (Some ''mysfits'') None None s)) =
         say ''true'' (snd (clean_sagemaker_endpoints_by_prefix [r] (Some ''mysfits'') None None s))"
proof -
  define s' where "s' = snd (clean_sagemaker_endpoints_by_prefix [r] (Some ''mysfits'') None None s)"
  have p': "providers s' = (providers s)(r := (providers s r)\<lparr>sm_endpoints :=
      filter (\<lambda>e. \<not> (ep_status e = InService \<and> sublist ''mysfits'' (ep_name e))) (sm_endpoints (providers s r))\<rparr>)"
    using clean_sagemaker_endpoints_run [OF ok d, of "''mysfits''"] first_page_covers [OF d page]
    by (simp add: s'_def)
  have env': "environ (proc s') ''AWS_DEFAULT_REGION'' = Some r"
    using preservesD [OF preserves_env_sagemaker, of "environ (proc s)" s] env
    by (simp add: s'_def keeps_env_def)
  have ok': "''ListEndpoints'' \<notin> failing (providers s' r)" using ok by (simp add: p')
  have none: "\<not> (\<exists>e\<in>set (sm_endpoints (providers s' r)). ep_status e = InService \<and> sublist ''knn'' (ep_name e))"
    using nb knn_endpoint_name_parts(2) by (auto simp: p')
  show ?thesis
    unfolding s'_def [symmetric] using test_no_inference_endpoint_run [OF env' ok'] none by simp
qed

text \<open>C33. \<open>deploy_ecs_service.py\<close> starts one new deployment of the service \<open>MythicalMysfits-FargateService\<close> of the cluster \<open>MythicalMysfits-Cluster\<close>, the names \<open>EcsStack\<close> gives them.\<close>

theorem deploy_ecs_service_effect:
  assumes env: "environ (proc s) ''AWS_DEFAULT_REGION'' = Some r"
    and ok: "''UpdateService'' \<notin> failing (providers s r)"
    and n: "map_of (ecs_services (regional s r)) (''MythicalMysfits-Cluster'', ''MythicalMysfits-FargateService'') = Some n"
  shows "fst (deploy_ecs_service s) = Inr () \<and>
    map_of (ecs_services (regional (snd (deploy_ecs_service s)) r))
      (''MythicalMysfits-Cluster'', ''MythicalMysfits-FargateService'') = Some (Suc n)"
proof -
  have mem: "(''MythicalMysfits-Cluster'', ''MythicalMysfits-FargateService'') \<in> fst ` set (ecs_services (regional s r))"
    using n by (force dest: map_of_SomeD)
  then have "''MythicalMysfits-Cluster'' \<in> fst ` fst ` set (ecs_services (regional s r))" by force
  with mem env ok n show ?thesis
    by (simp add: deploy_ecs_service_def client_region_Some bindS_liftS update_service_def upd_regional_def
        map_of_map_entry)
qed

text \<open>When the stack's service does not exist, \<open>deploy_ecs_service.py\<close> fails with \<open>ServiceNotFoundException\<close> or \<open>ClusterNotFoundException\<close> and changes nothing.\<close>

theorem deploy_ecs_service_missing:
  assumes env: "environ (proc s) ''AWS_DEFAULT_REGION'' = Some r"
    and ok: "''UpdateService'' \<notin> failing (providers s r)"
    and none: "map_of (ecs_services (regional s r)) (''MythicalMysfits-Cluster'', ''MythicalMysfits-FargateService'') = None"
  shows "snd (deploy_ecs_service s) = s \<and>
    (fst (deploy_ecs_service s) = Inl (ClientError ''ServiceNotFoundException'') \<or>
     fst (deploy_ecs_service s) = Inl (ClientError ''ClusterNotFoundException''))"
proof -
  have "(''MythicalMysfits-Cluster'', ''MythicalMysfits-FargateService'') \<notin> fst ` set (ecs_services (regional s r))"
    using none by (simp add: map_of_eq_None_iff)
  with env ok show ?thesis
    by (simp add: deploy_ecs_service_def client_region_Some bindS_liftS update_service_def)
qed

subsection \<open>The properties on the example account\<close>

lemmas probe_account_simps = probe_account_def demo_account_def demo_region_res_def empty_region_def

theorem test_ecr_empty_output_witness: "test_ecr_empty probe_account = say ''false'' probe_account"
proof -
  have "environ (proc probe_account) ''AWS_DEFAULT_REGION'' = Some ''eu-west-1''"
    "''ListImages'' \<notin> failing (providers probe_account ''eu-west-1'')"
    by (simp_all add: probe_account_simps)
  from test_ecr_empty_output [OF this] show ?thesis by (simp add: probe_account_simps)
qed

theorem notebook_endpoint_cleared_witness:
  "test_no_inference_endpoint (snd (clean_sagemaker_endpoints_by_prefix [''eu-west-1''] (Some ''mysfits'') None None probe_account)) =
   say ''true'' (snd (clean_sagemaker_endpoints_by_prefix [''eu-west-1''] (Some ''mysfits'') None None probe_account))"
proof (rule notebook_endpoint_cleared)
  show "environ (proc probe_account) ''AWS_DEFAULT_REGION'' = Some ''eu-west-1''"
    "''ListEndpoints'' \<notin> failing (providers probe_account ''eu-west-1'')"
    "''DeleteEndpoint'' \<notin> failing (providers probe_account ''eu-west-1'')"
    "distinct (map ep_name (sm_endpoints (providers probe_account ''eu-west-1'')))"
    by (simp_all add: probe_account_simps knn_endpoint_name_def)
  show "\<forall>e\<in>set (sm_endpoints (providers probe_account ''eu-west-1'')). ep_status e = InService \<and> sublist ''knn'' (ep_name e)
          \<longrightarrow> (\<exists>t. ep_name e = knn_endpoint_name t)"
    by (simp add: probe_account_simps) blast
  show "length (filter (\<lambda>e. ep_status e = InService \<and> sublist ''mysfits'' (ep_name e))
      (sm_endpoints (providers probe_account ''eu-west-1''))) \<le> 10"
    by (simp add: probe_account_simps)
qed

theorem deploy_ecs_service_effect_witness:
  "fst (deploy_ecs_service probe_account) = Inr () \<and>
   map_of (ecs_services (regional (snd (deploy_ecs_service probe_account)) ''eu-west-1''))
     (''MythicalMysfits-Cluster'', ''MythicalMysfits-FargateService'') = Some 2"
proof -
  have "environ (proc probe_account) ''AWS_DEFAULT_REGION'' = Some ''eu-west-1''"
    "''UpdateService'' \<notin> failing (providers probe_account ''eu-west-1'')"
    "map_of (ecs_services (regional probe_account ''eu-west-1''))
       (''MythicalMysfits-Cluster'', ''MythicalMysfits-FargateService'') = Some 1"
    by (simp_all add: probe_account_simps)
  from deploy_ecs_service_effect [OF this] show ?thesis by simp
qed

theorem deploy_ecs_service_missing_witness:
  "snd (deploy_ecs_service (probe_account\<lparr>regional := \<lambda>r. demo_region_res\<lparr>ecs_services := []\<rparr>\<rparr>)) =
     probe_account\<lparr>regional := \<lambda>r. demo_region_res\<lparr>ecs_services := []\<rparr>\<rparr>"
proof -
  have "environ (proc (probe_account\<lparr>regional := \<lambda>r. demo_region_res\<lparr>ecs_services := []\<rparr>\<rparr>)) ''AWS_DEFAULT_REGION'' = Some ''eu-west-1''"
    "''UpdateService'' \<notin> failing (providers (probe_account\<lparr>regional := \<lambda>r. demo_region_res\<lparr>ecs_services := []\<rparr>\<rparr>) ''eu-west-1'')"
    "map_of (ecs_services (regional (probe_account\<lparr>regional := \<lambda>r. demo_region_res\<lparr>ecs_services := []\<rparr>\<rparr>) ''eu-west-1''))
       (''MythicalMysfits-Cluster'', ''MythicalMysfits-FargateService'') = None"
    by (simp_all add: probe_account_simps)
  from deploy_ecs_service_missing [OF this] show ?thesis by simp
qed

end
