(* ===== verification/Iam.thy ===== *)
theory Iam
  imports PyStr
begin

text \<open>
  IAM policy statements as the stacks of \<open>src/webgen/webgen\<close> build them with
  \<open>aws_iam.PolicyStatement()\<close>, \<open>add_actions\<close>, \<open>add_resources\<close>, \<open>add_all_resources\<close>
  and the \<open>effect\<close> attribute, and the evaluation of a statement on a request,
  modelled from the IAM documentation: an action pattern matches an action with the
  wildcards \<open>*\<close> (any sequence) and \<open>?\<close> (one character), ignoring case; a resource
  pattern is \<open>*\<close>, an ARN, or an object pattern of a bucket.  Resources are symbolic: the
  attribute of a construct (\<open>table.table_arn\<close>, \<open>function.function_arn\<close>, ...) the code
  passes.  The matcher \<open>glob\<close> is proved equal to the language of its pattern
  (\<open>glob_correct\<close>), so that the IAM facts of the stacks can be read as set membership.
\<close>

datatype effect = Allow | Deny

text \<open>A resource as the code names it: an attribute of a construct
  (\<open>RAttr stack construct_id attribute\<close>, e.g. \<open>table.table_arn\<close>), the objects of a
  bucket matching a key pattern (\<open>bucket.arn_for_objects('*')\<close>), or all resources
  (\<open>add_all_resources()\<close>).  A construct is named by its stack and its id, the path
  CloudFormation resolves the attribute token to.\<close>

datatype res_ref = RAttr string string string | RObjects string string string | RAll

record stmt =
  s_actions :: "string list"
  s_resources :: "res_ref list"
  s_effect :: effect

text \<open>\<open>PolicyStatement()\<close> starts empty with effect \<open>ALLOW\<close>.\<close>

definition new_stmt :: stmt where
  "new_stmt = \<lparr>s_actions = [], s_resources = [], s_effect = Allow\<rparr>"

definition add_actions :: "string list \<Rightarrow> stmt \<Rightarrow> stmt" where
  "add_actions xs st = st\<lparr>s_actions := s_actions st @ xs\<rparr>"

definition add_resources :: "res_ref list \<Rightarrow> stmt \<Rightarrow> stmt" where
  "add_resources rs st = st\<lparr>s_resources := s_resources st @ rs\<rparr>"

definition add_all_resources :: "stmt \<Rightarrow> stmt" where
  "add_all_resources st = st\<lparr>s_resources := s_resources st @ [RAll]\<rparr>"

subsection \<open>Wildcard matching\<close>

text \<open>The matcher: one pass over pattern and text, a \<open>*\<close> either ending here or eating
  one more character.\<close>

fun glob :: "string \<Rightarrow> string \<Rightarrow> bool" where
  "glob [] [] = True"
| "glob [] (x # s) = False"
| "glob (c # p) [] = (c = CHR ''*'' \<and> glob p [])"
| "glob (c # p) (x # s) =
     (if c = CHR ''*'' then glob p (x # s) \<or> glob (c # p) s
      else (c = CHR ''?'' \<or> c = x) \<and> glob p s)"

text \<open>The reference meaning of a pattern: the set of texts it denotes.\<close>

fun glob_lang :: "string \<Rightarrow> string set" where
  "glob_lang [] = {[]}"
| "glob_lang (c # p) =
     (if c = CHR ''*'' then {u @ v | u v. v \<in> glob_lang p}
      else if c = CHR ''?'' then {x # v | x v. v \<in> glob_lang p}
      else {c # v | v. v \<in> glob_lang p})"

definition action_matches :: "string \<Rightarrow> string \<Rightarrow> bool" where
  "action_matches pat action \<longleftrightarrow> glob (str_lower pat) (str_lower action)"

text \<open>A resource pattern: \<open>*\<close> matches everything, an object pattern of a bucket matches
  the objects of that bucket whose key it matches, any other ARN only itself.\<close>

fun resource_matches :: "res_ref \<Rightarrow> res_ref \<Rightarrow> bool" where
  "resource_matches RAll r = True"
| "resource_matches (RObjects st c k) (RObjects st' c' k') = (st = st' \<and> c = c' \<and> glob k k')"
| "resource_matches p r = (p = r)"

text \<open>Whether a statement allows an action on a resource.\<close>

definition stmt_allows :: "stmt \<Rightarrow> string \<Rightarrow> res_ref \<Rightarrow> bool" where
  "stmt_allows st action r \<longleftrightarrow>
     s_effect st = Allow \<and> (\<exists>a\<in>set (s_actions st). action_matches a action) \<and>
     (\<exists>p\<in>set (s_resources st). resource_matches p r)"

definition policy_allows :: "stmt list \<Rightarrow> string \<Rightarrow> res_ref \<Rightarrow> bool" where
  "policy_allows sts action r \<longleftrightarrow>
     (\<exists>st\<in>set sts. stmt_allows st action r) \<and>
     \<not> (\<exists>st\<in>set sts. s_effect st = Deny \<and> (\<exists>a\<in>set (s_actions st). action_matches a action) \<and>
          (\<exists>p\<in>set (s_resources st). resource_matches p r))"

subsection \<open>Correctness of the matcher\<close>

lemma star_lang_Cons:
  "x # s \<in> glob_lang (CHR ''*'' # p) \<longleftrightarrow> x # s \<in> glob_lang p \<or> s \<in> glob_lang (CHR ''*'' # p)"
proof
  assume "x # s \<in> glob_lang (CHR ''*'' # p)"
  then obtain u v where uv: "x # s = u @ v" "v \<in> glob_lang p" by auto
  show "x # s \<in> glob_lang p \<or> s \<in> glob_lang (CHR ''*'' # p)"
  proof (cases u)
    case Nil with uv show ?thesis by simp
  next
    case (Cons y u') with uv show ?thesis by auto
  qed
next
  assume "x # s \<in> glob_lang p \<or> s \<in> glob_lang (CHR ''*'' # p)"
  then show "x # s \<in> glob_lang (CHR ''*'' # p)"
  proof
    assume "x # s \<in> glob_lang p"
    then show ?thesis by (auto intro: exI [of _ "[]"])
  next
    assume "s \<in> glob_lang (CHR ''*'' # p)"
    then obtain u v where "s = u @ v" "v \<in> glob_lang p" by auto
    then have "x # s = (x # u) @ v" "v \<in> glob_lang p" by simp_all
    then have "x # s \<in> {u @ v |u v. v \<in> glob_lang p}" by blast
    then show ?thesis by simp
  qed
qed

lemma star_lang_Nil: "[] \<in> glob_lang (CHR ''*'' # p) \<longleftrightarrow> [] \<in> glob_lang p"
  by auto

text \<open>The one-pass matcher is exact: a text matches a pattern iff it belongs to the
  language the pattern denotes.\<close>

theorem glob_correct: "glob p s \<longleftrightarrow> s \<in> glob_lang p"
proof (induction p s rule: glob.induct)
  case 1 then show ?case by simp
next
  case (2 x s) then show ?case by simp
next
  case (3 c p)
  then show ?case by (cases "c = CHR ''*''") auto
next
  case (4 c p x s)
  show ?case
  proof (cases "c = CHR ''*''")
    case True
    with "4.IH"(1,2) show ?thesis by (simp add: star_lang_Cons del: glob_lang.simps)
  next
    case False
    with "4.IH"(3) show ?thesis by auto
  qed
qed

subsection \<open>Matching actions\<close>

text \<open>Evaluating \<open>str_lower\<close> on a literal.\<close>

lemmas str_lower_eval = str_lower_def lower_char_def upper_chars_def lower_chars_def

lemma glob_star_any: "glob [CHR ''*''] s"
  by (induction s) simp_all

lemma glob_literal:
  assumes "CHR ''*'' \<notin> set p" "CHR ''?'' \<notin> set p"
  shows "glob p s \<longleftrightarrow> s = p"
  using assms
proof (induction p arbitrary: s)
  case Nil then show ?case by (cases s) simp_all
next
  case (Cons c p) then show ?case by (cases s) auto
qed

lemma glob_prefix_star:
  assumes "CHR ''*'' \<notin> set p" "CHR ''?'' \<notin> set p"
  shows "glob (p @ [CHR ''*'']) s \<longleftrightarrow> prefix p s"
  using assms
proof (induction p arbitrary: s)
  case Nil then show ?case by (simp add: glob_star_any)
next
  case (Cons c p) then show ?case by (cases s) auto
qed

lemma str_lower_append [simp]: "str_lower (a @ b) = str_lower a @ str_lower b"
  by (simp add: str_lower_def)

lemma policy_allows_single_allow:
  "s_effect st = Allow \<Longrightarrow> policy_allows [st] a r \<longleftrightarrow> stmt_allows st a r"
  by (simp add: policy_allows_def)

lemma lower_char_wild:
  "lower_char c = CHR ''*'' \<longleftrightarrow> c = CHR ''*''" "lower_char c = CHR ''?'' \<longleftrightarrow> c = CHR ''?''"
  by (auto simp: lower_char_def upper_chars_def lower_chars_def split: if_splits)

lemma str_lower_wild:
  "CHR ''*'' \<in> set (str_lower p) \<longleftrightarrow> CHR ''*'' \<in> set p"
  "CHR ''?'' \<in> set (str_lower p) \<longleftrightarrow> CHR ''?'' \<in> set p"
proof -
  have "CHR ''*'' \<in> set (str_lower p) \<longleftrightarrow> (\<exists>x\<in>set p. lower_char x = CHR ''*'')"
       "CHR ''?'' \<in> set (str_lower p) \<longleftrightarrow> (\<exists>x\<in>set p. lower_char x = CHR ''?'')"
    by (auto simp: str_lower_def image_iff dest: sym)
  then show "CHR ''*'' \<in> set (str_lower p) \<longleftrightarrow> CHR ''*'' \<in> set p"
            "CHR ''?'' \<in> set (str_lower p) \<longleftrightarrow> CHR ''?'' \<in> set p"
    by (simp_all add: lower_char_wild)
qed

lemma action_matches_star:
  assumes "CHR ''*'' \<notin> set p" "CHR ''?'' \<notin> set p"
  shows "action_matches (p @ [CHR ''*'']) a \<longleftrightarrow> prefix (str_lower p) (str_lower a)"
proof -
  have "CHR ''*'' \<notin> set (str_lower p)" "CHR ''?'' \<notin> set (str_lower p)"
    using assms by (simp_all add: str_lower_wild)
  moreover have "str_lower [CHR ''*''] = [CHR ''*'']"
    by (simp add: str_lower_def lower_char_def upper_chars_def lower_chars_def)
  ultimately show ?thesis by (simp add: action_matches_def glob_prefix_star)
qed

lemma action_matches_literal:
  assumes "CHR ''*'' \<notin> set p" "CHR ''?'' \<notin> set p"
  shows "action_matches p a \<longleftrightarrow> str_lower a = str_lower p"
proof -
  have "CHR ''*'' \<notin> set (str_lower p)" "CHR ''?'' \<notin> set (str_lower p)"
    using assms by (simp_all add: str_lower_wild)
  then show ?thesis by (simp add: action_matches_def glob_literal)
qed

end
