(* ===== verification/Stacks.thy ===== *)
theory Stacks
  imports Iam
begin

text \<open>
  The CDK application \<open>src/webgen/app.py\<close> and the stacks of \<open>src/webgen/webgen\<close>.
  A stack's constructor is modelled as the list of its declarations, in code order:
  each construct it creates (\<open>Construct kind id kwargs\<close>), each method it calls on a
  construct of the stack (\<open>Call id method kwargs\<close>) or of another stack (\<open>XCall\<close>), and
  each \<open>CfnOutput\<close>.  Keyword arguments keep the source's names; nested constructor
  calls (\<open>dynamo_db.Attribute(...)\<close>) are \<open>PObj\<close>, enumeration members \<open>PEnum\<close>, string
  concatenations \<open>PCat\<close>, policy statements the IAM statements of \<open>Iam\<close>, and a
  construct object is \<open>PRef (stack, construct_id)\<close> and an attribute of it
  (\<open>table.table_arn\<close>) is \<open>PRes\<close>.  A stack parameter that is a construct (\<open>vpc\<close>,
  \<open>table\<close>, \<open>ecr_repository\<close>) is the \<open>oref\<close> the application passes, one that is an
  attribute (\<open>user_pool_id\<close>, \<open>load_balancer_arn\<close>) a \<open>res_ref\<close>.
  What CloudFormation and the CDK library then synthesise from these declarations
  (the resources an L2 construct expands to, generated names) is not modelled.
\<close>

datatype pval =
    PStr string | PInt int | PBool bool | PEnum string
  | PList "pval list" | PDict "(string \<times> pval) list"
  | PObj string "(string \<times> pval) list"
  | PRes res_ref | PStmt stmt
  | PRef "string \<times> string"
  | PCat "pval list"

datatype decl =
    Construct string string "(string \<times> pval) list"
  | Call string string "(string \<times> pval) list"
  | XCall "string \<times> string" string "(string \<times> pval) list"
  | Output string "(string \<times> pval) list"

type_synonym oref = "string \<times> string"

text \<open>An attribute of a construct object, \<open>obj.attribute\<close>.\<close>

definition obj_attr :: "oref \<Rightarrow> string \<Rightarrow> res_ref" where
  "obj_attr obj a = RAttr (fst obj) (snd obj) a"

record stack =
  st_class :: string
  st_name :: string
  st_region :: string
  st_decls :: "decl list"

text \<open>\<open>dynamo_db.Attribute(name=..., type=AttributeType.STRING)\<close>.\<close>

definition str_attribute :: "string \<Rightarrow> pval" where
  "str_attribute n = PObj ''dynamo_db.Attribute'' [(''name'', PStr n), (''type'', PEnum ''dynamo_db.AttributeType.STRING'')]"

text \<open>A Python string literal holding single quotes, \<open>"'Content-Type'"\<close>.\<close>

definition sq :: "string \<Rightarrow> string" where
  "sq t = [CHR 0x27] @ t @ [CHR 0x27]"

subsection \<open>DynamoDBStack (dynamodb_stack.py)\<close>

definition dynamodb_stack :: "string \<Rightarrow> string \<Rightarrow> stack" where
  "dynamodb_stack construct_id region = \<lparr>st_class = ''DynamoDBStack'', st_name = construct_id, st_region = region,
     st_decls =
       [Construct ''dynamo_db.Table'' ''MysfitsTable''
          [(''table_name'', PStr ''MysfitsTable''), (''partition_key'', str_attribute ''MysfitId''),
           (''billing_mode'', PEnum ''dynamo_db.BillingMode.PROVISIONED''),
           (''read_capacity'', PInt 5), (''write_capacity'', PInt 5)],
        Call ''MysfitsTable'' ''add_global_secondary_index''
          [(''index_name'', PStr ''LawChaosIndex''), (''read_capacity'', PInt 5), (''write_capacity'', PInt 5),
           (''partition_key'', str_attribute ''LawChaos''), (''sort_key'', str_attribute ''MysfitId''),
           (''projection_type'', PEnum ''dynamo_db.ProjectionType.ALL'')],
        Call ''MysfitsTable'' ''add_global_secondary_index''
          [(''index_name'', PStr ''GoodEvilIndex''), (''read_capacity'', PInt 5), (''write_capacity'', PInt 5),
           (''partition_key'', str_attribute ''GoodEvil''), (''sort_key'', str_attribute ''MysfitId''),
           (''projection_type'', PEnum ''dynamo_db.ProjectionType.ALL'')],
        Output ''DynamodbTableName'' [(''value'', PRes (obj_attr (construct_id, ''MysfitsTable'') ''table_name''))]]\<rparr>"

subsection \<open>NetworkStack and EcrStack (network_stack.py, ecr_stack.py)\<close>

definition network_stack :: "string \<Rightarrow> string \<Rightarrow> stack" where
  "network_stack construct_id region = \<lparr>st_class = ''NetworkStack'', st_name = construct_id, st_region = region,
     st_decls = [Construct ''ec2.Vpc'' ''WebVpc'' [(''max_azs'', PInt 2), (''nat_gateways'', PInt 1)]]\<rparr>"

definition ecr_stack :: "string \<Rightarrow> string \<Rightarrow> stack" where
  "ecr_stack construct_id region = \<lparr>st_class = ''EcrStack'', st_name = construct_id, st_region = region,
     st_decls = [Construct ''ecr.Repository'' ''Repository'' [(''repository_name'', PStr ''mythicalmysfits/service'')]]\<rparr>"

subsection \<open>EcsStack (ecs_stack.py)\<close>

definition ecs_execution_stmt :: stmt where
  "ecs_execution_stmt = add_all_resources (add_actions
     [''ec2:AttachNetworkInterface'', ''ec2:CreateNetworkInterface'', ''ec2:CreateNetworkInterfacePermission'',
      ''ec2:DeleteNetworkInterface'', ''ec2:DeleteNetworkInterfacePermission'', ''ec2:Describe*'',
      ''ec2:DetachNetworkInterface'',
      ''elasticloadbalancing:DeregisterInstancesFromLoadBalancer'', ''elasticloadbalancing:DeregisterTargets'',
      ''elasticloadbalancing:Describe*'', ''elasticloadbalancing:RegisterInstancesWithLoadBalancer'',
      ''elasticloadbalancing:RegisterTargets'', ''iam:PassRole'', ''logs:DescribeLogStreams'', ''logs:CreateLogGroup'']
     new_stmt)"

definition ecs_task_stmt :: stmt where
  "ecs_task_stmt = add_all_resources (add_actions
     [''ecr:GetAuthorizationToken'', ''ecr:BatchCheckLayerAvailability'', ''ecr:GetDownloadUrlForLayer'',
      ''ecr:BatchGetImage'', ''logs:CreateLogStream'', ''logs:CreateLogGroup'', ''logs:PutLogEvents'', ''dynamodb:*'']
     new_stmt)"

definition ecs_stack :: "string \<Rightarrow> string \<Rightarrow> oref \<Rightarrow> oref \<Rightarrow> stack" where
  "ecs_stack construct_id region vpc ecr_repository = \<lparr>st_class = ''EcsStack'', st_name = construct_id, st_region = region,
     st_decls =
       [Construct ''ecs.Cluster'' ''WebEc2Cluster'' [(''cluster_name'', PStr ''MythicalMysfits-Cluster''), (''vpc'', PRef vpc)],
        Call ''WebEc2Cluster'' ''connections.allow_from_any_ipv4'' [(''port'', PObj ''ec2.Port.tcp'' [(''port'', PInt 8080)])],
        Construct ''ecs_patterns.NetworkLoadBalancedFargateService'' ''MythicalMysfits-FargateService''
          [(''service_name'', PStr ''MythicalMysfits-FargateService''),
           (''cluster'', PRef (construct_id, ''WebEc2Cluster'')), (''desired_count'', PInt 1),
           (''public_load_balancer'', PBool True), (''min_healthy_percent'', PInt 1),
           (''task_image_options'', PObj ''ecs_patterns.NetworkLoadBalancedTaskImageOptions''
              [(''enable_logging'', PBool True), (''container_name'', PStr ''MythicalMysfits-Service''),
               (''container_port'', PInt 8080),
               (''image'', PObj ''ecs.ContainerImage.from_ecr_repository'' [(''repository'', PRef ecr_repository)])])],
        Call ''MythicalMysfits-FargateService'' ''service.connections.allow_from''
          [(''other'', PObj ''ec2.Peer.ipv4'' [(''cidr_ip'', PRes (obj_attr vpc ''vpc_cidr_block''))]),
           (''port'', PObj ''ec2.Port.tcp'' [(''port'', PInt 8080)])],
        Call ''MythicalMysfits-FargateService'' ''service.task_definition.add_to_execution_role_policy''
          [(''statement'', PStmt ecs_execution_stmt)],
        Call ''MythicalMysfits-FargateService'' ''service.task_definition.add_to_task_role_policy''
          [(''statement'', PStmt ecs_task_stmt)],
        Output ''WebLoadBalancerDNS'' [(''value'', PRes (obj_attr (construct_id, ''MythicalMysfits-FargateService'') ''load_balancer.load_balancer_dns_name''))],
        Output ''WebLoadBalancerARN'' [(''value'', PRes (obj_attr (construct_id, ''MythicalMysfits-FargateService'') ''load_balancer.load_balancer_arn''))]]\<rparr>"

subsection \<open>CognitoStack (cognito_stack.py)\<close>

definition cognito_stack :: "string \<Rightarrow> string \<Rightarrow> stack" where
  "cognito_stack construct_id region = \<lparr>st_class = ''CognitoStack'', st_name = construct_id, st_region = region,
     st_decls =
       [Construct ''cognito.UserPool'' ''UserPool''
          [(''auto_verify'', PObj ''cognito.AutoVerifiedAttrs'' [(''email'', PBool True)]),
           (''self_sign_up_enabled'', PBool True), (''user_pool_name'', PStr ''MysfitsUserPool'')],
        Construct ''cognito.UserPoolClient'' ''UserPoolClient''
          [(''user_pool'', PRef (construct_id, ''UserPool'')),
           (''user_pool_client_name'', PStr ''MysfitsUserPoolClient'')],
        Output ''CognitoUserPool'' [(''description'', PStr ''The Cognito User Pool''),
           (''value'', PRes (obj_attr (construct_id, ''UserPool'') ''user_pool_id''))],
        Output ''CognitoUserPoolClient'' [(''description'', PStr ''The Cognito User Pool Client''),
           (''value'', PRes (obj_attr (construct_id, ''UserPoolClient'') ''user_pool_client_id''))]]\<rparr>"

subsection \<open>KinesisFirehoseStack (kinesis_firehose_stack.py)\<close>

definition mysfits_api_url :: string where
  "mysfits_api_url = ''REPLACE_ME_API_URL''"

text \<open>The policy statements, each built as the code builds it.\<close>

definition lambda_function_policy_stm :: "oref \<Rightarrow> stmt" where
  "lambda_function_policy_stm table =
     add_resources [obj_attr table ''table_arn''] (add_actions [''dynamodb:GetItem''] new_stmt)"

definition firehose_delivery_policy_s3_stm :: "string \<Rightarrow> stmt" where
  "firehose_delivery_policy_s3_stm construct_id =
     (add_resources [RObjects construct_id ''Bucket'' ''*'']
       (add_resources [obj_attr (construct_id, ''Bucket'') ''bucket_arn'']
         (add_actions [''s3:AbortMultipartUpload'', ''s3:GetBucketLocation'', ''s3:GetObject'',
                       ''s3:ListBucket'', ''s3:ListBucketMultipartUploads'', ''s3:PutObject''] new_stmt)))
     \<lparr>s_effect := Allow\<rparr>"

definition firehose_delivery_policy_lambda_stm :: "string \<Rightarrow> stmt" where
  "firehose_delivery_policy_lambda_stm construct_id =
     (add_resources [obj_attr (construct_id, ''Function'') ''function_arn'']
       (add_actions [''lambda:GetFunctionConfiguration''] (add_actions [''lambda:InvokeFunction''] new_stmt)))
     \<lparr>s_effect := Allow\<rparr>"

definition api_policy :: "string \<Rightarrow> stmt" where
  "api_policy construct_id =
     (add_resources [obj_attr (construct_id, ''DeliveryStream'') ''attr_arn''] (add_actions [''firehose:PutRecord''] new_stmt))
     \<lparr>s_effect := Allow\<rparr>"

text \<open>The bucket, the processor function, the delivery role and the delivery stream
  (lines 19--104).\<close>

definition firehose_delivery_decls :: "string \<Rightarrow> oref \<Rightarrow> decl list" where
  "firehose_delivery_decls construct_id table =
     [Construct ''s3.Bucket'' ''Bucket'' [(''versioned'', PBool False)],
      Construct ''lambda.Function'' ''Function''
        [(''handler'', PStr ''streamProcessor.processRecord''), (''runtime'', PEnum ''lambda.Runtime.PYTHON_3_6''),
         (''description'', PStr (''An Amazon Kinesis Firehose stream processor that enriches click records to not just '' @
            ''include a mysfitId, but also other attributes that can be analyzed later.'')),
         (''memory_size'', PInt 128), (''code'', PObj ''lambda.Code.asset'' [(''path'', PStr ''./lambda_streaming_processor'')]),
         (''timeout'', PObj ''cdk.Duration.seconds'' [(''amount'', PInt 60)]),
         (''initial_policy'', PList [PStmt (lambda_function_policy_stm table)]),
         (''environment'', PDict [(''MYSFITS_API_URL'', PStr mysfits_api_url)])],
      Construct ''iam.Role'' ''FirehoseDeliveryRole''
        [(''role_name'', PStr ''FirehoseDeliveryRole''),
         (''assumed_by'', PObj ''iam.ServicePrincipal'' [(''service'', PStr ''firehose.amazonaws.com'')])],
      Call ''FirehoseDeliveryRole'' ''add_to_policy'' [(''statement'', PStmt (firehose_delivery_policy_s3_stm construct_id))],
      Call ''FirehoseDeliveryRole'' ''add_to_policy'' [(''statement'', PStmt (firehose_delivery_policy_lambda_stm construct_id))],
      Construct ''kinfire.CfnDeliveryStream'' ''DeliveryStream''
        [(''delivery_stream_name'', PStr ''DeliveryStream''), (''delivery_stream_type'', PStr ''DirectPut''),
         (''extended_s3_destination_configuration'', PObj ''kinfire.CfnDeliveryStream.ExtendedS3DestinationConfigurationProperty''
           [(''bucket_arn'', PRes (obj_attr (construct_id, ''Bucket'') ''bucket_arn'')),
            (''buffering_hints'', PObj ''kinfire.CfnDeliveryStream.BufferingHintsProperty''
               [(''interval_in_seconds'', PInt 60), (''size_in_m_bs'', PInt 1)]),
            (''compression_format'', PStr ''UNCOMPRESSED''), (''error_output_prefix'', PStr ''errors/''),
            (''prefix'', PStr ''firehose/''),
            (''processing_configuration'', PObj ''kinfire.CfnDeliveryStream.ProcessingConfigurationProperty''
               [(''enabled'', PBool True),
                (''processors'', PList [PObj ''kinfire.CfnDeliveryStream.ProcessorProperty''
                   [(''type'', PStr ''Lambda''),
                    (''parameters'', PList [PObj ''kinfire.CfnDeliveryStream.ProcessorParameterProperty''
                       [(''parameter_name'', PStr ''LambdaArn''),
                        (''parameter_value'', PRes (obj_attr (construct_id, ''Function'') ''function_arn''))]])]])]),
            (''role_arn'', PRes (obj_attr (construct_id, ''FirehoseDeliveryRole'') ''role_arn''))])]]"

text \<open>A CORS response header of the click API, \<open>method.response.header.Access-Control-Allow-k\<close>.\<close>

definition cors_header :: "string \<Rightarrow> string" where
  "cors_header k = ''method.response.header.Access-Control-Allow-'' @ k"

text \<open>The keyword arguments of the \<open>OPTIONS\<close> method both the click API and the questions
  API add to their resource: a mock integration answering the CORS preflight.\<close>

definition cors_options_method :: "(string \<times> pval) list" where
  "cors_options_method =
    [(''integration'', PObj ''apigw.MockIntegration''
       [(''integration_responses'', PList [PObj ''apigw.IntegrationResponse''
          [(''status_code'', PStr ''200''),
           (''response_parameters'', PDict
              [(cors_header ''Headers'',
                  PStr (sq ''Content-Type,X-Amz-Date,Authorization,X-Api-Key,X-Amz-Security-Token,X-Amz-User-Agent'')),
               (cors_header ''Origin'', PStr (sq ''*'')),
               (cors_header ''Credentials'', PStr (sq ''false'')),
               (cors_header ''Methods'', PStr (sq ''OPTIONS,GET,PUT,POST,DELETE''))])]]),
        (''passthrough_behavior'', PEnum ''apigw.PassthroughBehavior.NEVER''),
        (''request_templates'', PDict [(''application/json'', PStr ''{\"statusCode\": 200}'')])]),
     (''method_responses'', PList [PObj ''apigw.MethodResponse''
        [(''status_code'', PStr ''200''),
         (''response_parameters'', PDict
            [(cors_header ''Headers'', PBool True), (cors_header ''Methods'', PBool True),
             (cors_header ''Credentials'', PBool True), (cors_header ''Origin'', PBool True)])]])]"

text \<open>The API Gateway proxy to the stream (lines 106--204): its role and policy, the REST
  API, the \<open>clicks\<close> resource (\<open>api.root.add_resource\<close> creates it as a child construct)
  and its \<open>PUT\<close> and \<open>OPTIONS\<close> methods.\<close>

definition click_api_decls :: "string \<Rightarrow> decl list" where
  "click_api_decls construct_id =
     [Construct ''iam.Role'' ''ClickProcessingApiRole''
        [(''role_name'', PStr ''ClickProcessingApiRole''),
         (''assumed_by'', PObj ''iam.ServicePrincipal'' [(''service'', PStr ''apigateway.amazonaws.com'')])],
      Construct ''iam.Policy'' ''ClickProcessingApiPolicy''
        [(''policy_name'', PStr ''api_gateway_firehose_proxy_role''),
         (''statements'', PList [PStmt (api_policy construct_id)]),
         (''roles'', PList [PRef (construct_id, ''ClickProcessingApiRole'')])],
      Construct ''apigw.RestApi'' ''APIEndpoint''
        [(''rest_api_name'', PStr ''ClickProcessingApi''), (''endpoint_types'', PList [PEnum ''apigw.EndpointType.REGIONAL''])],
      Construct ''apigw.Resource'' ''clicks''
        [(''parent'', PRes (obj_attr (construct_id, ''APIEndpoint'') ''root'')), (''path_part'', PStr ''clicks'')],
      Call ''clicks'' ''add_method''
        [(''http_method'', PStr ''PUT''),
         (''integration'', PObj ''apigw.AwsIntegration''
           [(''service'', PStr ''firehose''), (''integration_http_method'', PStr ''POST''), (''action'', PStr ''PutRecord''),
            (''options'', PObj ''apigw.IntegrationOptions''
              [(''connection_type'', PEnum ''apigw.ConnectionType.INTERNET''),
               (''credentials_role'', PRef (construct_id, ''ClickProcessingApiRole'')),
               (''integration_responses'', PList [PObj ''apigw.IntegrationResponse''
                  [(''status_code'', PStr ''200''),
                   (''response_templates'', PDict [(''application/json'', PStr ''{\"status\":\"OK\"}'')]),
                   (''response_parameters'', PDict
                      [(cors_header ''Headers'', PStr (sq ''Content-Type'')),
                       (cors_header ''Methods'', PStr (sq ''OPTIONS,PUT'')),
                       (cors_header ''Origin'', PStr (sq ''*''))])]]),
               (''request_parameters'', PDict
                  [(''integration.request.header.Content-Type'', PStr (sq ''application/x-amz-json-1.1''))]),
               (''request_templates'', PDict [(''application/json'', PCat
                  [PStr ''{ \"DeliveryStreamName\": \"'', PRes (obj_attr (construct_id, ''DeliveryStream'') ''ref''),
                   PStr (''\", \"Record\": {   \"Data\": \"$util.base64Encode($input.json('' @ sq ''$'' @ ''))\" } }'')])])])]),
         (''method_responses'', PList [PObj ''apigw.MethodResponse''
            [(''status_code'', PStr ''200''),
             (''response_parameters'', PDict
                [(cors_header ''Headers'', PBool True), (cors_header ''Methods'', PBool True),
                 (cors_header ''Origin'', PBool True)])]])],
      Call ''clicks'' ''add_method'' ((''http_method'', PStr ''OPTIONS'') # cors_options_method)]"

definition kinesis_firehose_stack :: "string \<Rightarrow> string \<Rightarrow> oref \<Rightarrow> stack" where
  "kinesis_firehose_stack construct_id region table = \<lparr>st_class = ''KinesisFirehoseStack'', st_name = construct_id,
     st_region = region, st_decls = firehose_delivery_decls construct_id table @ click_api_decls construct_id\<rparr>"

subsection \<open>XRayStack (xray_stack.py)\<close>

definition receiver_email :: string where
  "receiver_email = ''REPLACE_ME_RECEIVER_EMAIL''"

definition post_question_lambda_function_policy_stm_ddb :: "string \<Rightarrow> stmt" where
  "post_question_lambda_function_policy_stm_ddb construct_id =
     add_resources [obj_attr (construct_id, ''MysfitsQuestionsTable'') ''table_arn''] (add_actions [''dynamodb:PutItem''] new_stmt)"

definition lambda_function_policy_stm_xray :: stmt where
  "lambda_function_policy_stm_xray = add_all_resources (add_actions
     [''xray:PutTraceSegments'', ''xray:PutTelemetryRecords'', ''xray:GetSamplingRules'',
      ''xray:GetSamplingTargets'', ''xray:GetSamplingStatisticSummaries''] new_stmt)"

definition post_question_lambda_function_policy_stm_sns :: "string \<Rightarrow> stmt" where
  "post_question_lambda_function_policy_stm_sns construct_id =
     add_resources [obj_attr (construct_id, ''Topic'') ''topic_arn''] (add_actions [''sns:Publish''] new_stmt)"

definition questions_api_policy :: "string \<Rightarrow> stmt" where
  "questions_api_policy construct_id =
     (add_resources [obj_attr (construct_id, ''PostQuestionFunction'') ''function_arn''] (add_actions [''lambda:InvokeFunction''] new_stmt))
     \<lparr>s_effect := Allow\<rparr>"

text \<open>The questions table, the two functions and the SNS topic (lines 19--86).\<close>

definition questions_backend_decls :: "string \<Rightarrow> decl list" where
  "questions_backend_decls construct_id =
     [Construct ''dynamo_db.Table'' ''MysfitsQuestionsTable''
        [(''table_name'', PStr ''MysfitsQuestionsTable''), (''partition_key'', str_attribute ''QuestionId''),
         (''stream'', PEnum ''dynamo_db.StreamViewType.NEW_IMAGE'')],
      Construct ''lambda.Function'' ''PostQuestionFunction''
        [(''handler'', PStr ''mysfitsPostQuestion.postQuestion''), (''runtime'', PEnum ''lambda.Runtime.PYTHON_3_6''),
         (''description'', PStr (''A microservice Lambda function that receives a new question submitted to the MythicalMysfits'' @
            '' website from a user and inserts it into a DynamoDB database table.'')),
         (''memory_size'', PInt 128),
         (''code'', PObj ''lambda.Code.asset'' [(''path'', PStr ''./lambda_questions/PostQuestionsService'')]),
         (''timeout'', PObj ''cdk.Duration.seconds'' [(''amount'', PInt 30)]),
         (''initial_policy'', PList [PStmt (post_question_lambda_function_policy_stm_ddb construct_id),
                                    PStmt lambda_function_policy_stm_xray]),
         (''tracing'', PEnum ''lambda.Tracing.ACTIVE'')],
      Construct ''sns.Topic'' ''Topic''
        [(''display_name'', PStr ''MythicalMysfitsQuestionsTopic''), (''topic_name'', PStr ''MythicalMysfitsQuestionsTopic'')],
      Call ''Topic'' ''add_subscription'' [(''subscription'', PObj ''subs.EmailSubscription'' [(''email_address'', PStr receiver_email)])],
      Construct ''lambda.Function'' ''ProcessQuestionStreamFunction''
        [(''handler'', PStr ''mysfitsProcessStream.processStream''), (''runtime'', PEnum ''lambda.Runtime.PYTHON_3_6''),
         (''description'', PStr (''An AWS Lambda function that will process all new questions posted to mythical mysfits'' @
            '' and notify the site administrator of the question that was asked.'')),
         (''memory_size'', PInt 128),
         (''code'', PObj ''lambda.Code.asset'' [(''path'', PStr ''./lambda_questions/ProcessQuestionsStream'')]),
         (''timeout'', PObj ''cdk.Duration.seconds'' [(''amount'', PInt 30)]),
         (''initial_policy'', PList [PStmt (post_question_lambda_function_policy_stm_sns construct_id),
                                    PStmt lambda_function_policy_stm_xray]),
         (''environment'', PDict [(''SNS_TOPIC_ARN'', PRes (obj_attr (construct_id, ''Topic'') ''topic_arn''))]),
         (''tracing'', PEnum ''lambda.Tracing.ACTIVE''),
         (''events'', PList [PObj ''event.DynamoEventSource''
            [(''table'', PRef (construct_id, ''MysfitsQuestionsTable'')),
             (''starting_position'', PEnum ''lambda.StartingPosition.TRIM_HORIZON''), (''batch_size'', PInt 1)]])]]"

text \<open>A Lambda REST API without proxy and with tracing, as the questions and the
  recommendations stacks create it (\<open>apigw.LambdaRestApi(self, 'APIEndpoint', ...)\<close>), and
  the Lambda integration both pass to \<open>add_method\<close>, which calls the function with the
  API's role and answers \<open>{"status":"OK"}\<close>.\<close>

definition lambda_rest_api :: "oref \<Rightarrow> string \<Rightarrow> (string \<times> pval) list" where
  "lambda_rest_api handler name =
     [(''handler'', PRef handler),
      (''options'', PObj ''apigw.LambdaRestApiProps''
         [(''rest_api_name'', PStr name),
          (''deploy_options'', PObj ''apigw.StageOptions'' [(''tracing_enabled'', PBool True)]),
          (''handler'', PRef handler)]),
      (''proxy'', PBool False)]"

definition lambda_integration :: "oref \<Rightarrow> oref \<Rightarrow> pval" where
  "lambda_integration handler role = PObj ''apigw.LambdaIntegration''
     [(''handler'', PRef handler), (''credentials_role'', PRef role),
      (''integration_responses'', PList [PObj ''apigw.IntegrationResponse''
         [(''status_code'', PStr ''200''),
          (''response_templates'', PDict [(''application/json'', PStr ''{\"status\":\"OK\"}'')])]])]"

text \<open>The questions API (lines 88--168): its role and policy, the Lambda REST API, the
  \<open>questions\<close> resource and its \<open>POST\<close> and \<open>OPTIONS\<close> methods.  The integration object
  \<open>questions_integration\<close> is not a construct; it is the value passed to \<open>add_method\<close>.\<close>

definition questions_api_decls :: "string \<Rightarrow> decl list" where
  "questions_api_decls construct_id =
     (let questions_integration = lambda_integration (construct_id, ''PostQuestionFunction'') (construct_id, ''QuestionsApiRole'')
      in [Construct ''iam.Role'' ''QuestionsApiRole''
            [(''assumed_by'', PObj ''iam.ServicePrincipal'' [(''service'', PStr ''apigateway.amazonaws.com'')])],
          Construct ''iam.Policy'' ''QuestionsApiPolicy''
            [(''policy_name'', PStr ''questions_api_policy''),
             (''statements'', PList [PStmt (questions_api_policy construct_id)]),
             (''roles'', PList [PRef (construct_id, ''QuestionsApiRole'')])],
          Construct ''apigw.LambdaRestApi'' ''APIEndpoint'' (lambda_rest_api (construct_id, ''PostQuestionFunction'') ''QuestionsAPI''),
          Construct ''apigw.Resource'' ''questions''
            [(''parent'', PRes (obj_attr (construct_id, ''APIEndpoint'') ''root'')), (''path_part'', PStr ''questions'')],
          Call ''questions'' ''add_method''
            [(''http_method'', PStr ''POST''), (''integration'', questions_integration),
             (''method_responses'', PList [PObj ''apigw.MethodResponse'' [(''status_code'', PStr ''200'')]]),
             (''authorization_type'', PEnum ''apigw.AuthorizationType.NONE'')],
          Call ''questions'' ''add_method'' ((''http_method'', PStr ''OPTIONS'') # cors_options_method)])"

definition xray_stack :: "string \<Rightarrow> string \<Rightarrow> stack" where
  "xray_stack construct_id region = \<lparr>st_class = ''XRayStack'', st_name = construct_id, st_region = region,
     st_decls = questions_backend_decls construct_id @ questions_api_decls construct_id\<rparr>"

subsection \<open>SageMakerStack (sagemaker_stack.py)\<close>

text \<open>The notebook role, policy and instance of lines 14--64 are commented out in the
  source and not part of the stack.\<close>

definition recommendations_lambda_function_policy_stm :: stmt where
  "recommendations_lambda_function_policy_stm =
     add_all_resources (add_actions [''sagemaker:InvokeEndpoint''] new_stmt)"

definition recommendations_api_policy :: "string \<Rightarrow> stmt" where
  "recommendations_api_policy construct_id =
     (add_resources [obj_attr (construct_id, ''RecommendationsFunction'') ''function_arn''] (add_actions [''lambda:InvokeFunction''] new_stmt))
     \<lparr>s_effect := Allow\<rparr>"

definition sagemaker_stack :: "string \<Rightarrow> string \<Rightarrow> stack" where
  "sagemaker_stack construct_id region = \<lparr>st_class = ''SageMakerStack'', st_name = construct_id, st_region = region,
     st_decls =
     (let recommendations_integration =
            lambda_integration (construct_id, ''RecommendationsFunction'') (construct_id, ''RecommendationsApiRole'')
      in [Construct ''lambda.Function'' ''RecommendationsFunction''
            [(''handler'', PStr ''recommendations.recommend''), (''runtime'', PEnum ''lambda.Runtime.PYTHON_3_6''),
             (''description'', PStr ''A microservice backend to invoke a SageMaker endpoint.''),
             (''memory_size'', PInt 128),
             (''code'', PObj ''lambda.Code.asset'' [(''path'', PStr ''./lambda_recommendations/service'')]),
             (''timeout'', PObj ''cdk.Duration.seconds'' [(''amount'', PInt 30)]),
             (''initial_policy'', PList [PStmt recommendations_lambda_function_policy_stm])],
          Construct ''iam.Role'' ''RecommendationsApiRole''
            [(''assumed_by'', PObj ''iam.ServicePrincipal'' [(''service'', PStr ''apigateway.amazonaws.com'')])],
          Construct ''iam.Policy'' ''RecommendationsApiPolicy''
            [(''policy_name'', PStr ''recommendations_api_policy''),
             (''statements'', PList [PStmt (recommendations_api_policy construct_id)]),
             (''roles'', PList [PRef (construct_id, ''RecommendationsApiRole'')])],
          Construct ''apigw.LambdaRestApi'' ''APIEndpoint''
            (lambda_rest_api (construct_id, ''RecommendationsFunction'') ''RecommendationsAPI''),
          Construct ''apigw.Resource'' ''recommendations''
            [(''parent'', PRes (obj_attr (construct_id, ''APIEndpoint'') ''root'')), (''path_part'', PStr ''recommendations'')],
          Call ''recommendations'' ''add_method''
            [(''http_method'', PStr ''POST''), (''integration'', recommendations_integration),
             (''method_responses'', PList [PObj ''apigw.MethodResponse''
                [(''status_code'', PStr ''200''),
                 (''response_parameters'', PDict
                    [(cors_header ''Headers'', PBool True), (cors_header ''Methods'', PBool True),
                     (cors_header ''Origin'', PBool True)])]]),
             (''authorization_type'', PEnum ''apigw.AuthorizationType.NONE'')],
          Call ''recommendations'' ''add_method'' ((''http_method'', PStr ''OPTIONS'') # cors_options_method)])\<rparr>"

subsection \<open>APIGatewayStack (apigateway_stack.py)\<close>

text \<open>\<open>generate_swagger_spec_json\<close> (lines 9--19) reads the API definition template from
  the files of the process, raising \<open>FileNotFoundError\<close> when it is missing, and replaces
  its five placeholders in code order, each on the text the previous replacement left.
  The arguments are the strings CDK passes, unresolved tokens for the attributes.  The
  \<open>json.loads\<close> of the result is not modelled; the text it parses is returned.\<close>

definition swagger_template :: string where
  "swagger_template = ''utils/templates/api-swagger.json''"

definition generate_swagger_spec_json ::
  "(string \<rightharpoonup> string) \<Rightarrow> string \<Rightarrow> string \<Rightarrow> string \<Rightarrow> string \<Rightarrow> string \<Rightarrow> exn + string" where
  "generate_swagger_spec_json fs account region dns_name user_pool_id vpc_link_id =
     (case fs swagger_template of
        None \<Rightarrow> Inl (FileNotFoundError swagger_template)
      | Some file_source \<Rightarrow>
          (let replace_string = str_replace file_source ''REPLACE_ME_REGION'' region;
               replace_string = str_replace replace_string ''REPLACE_ME_ACCOUNT_ID'' account;
               replace_string = str_replace replace_string ''REPLACE_ME_COGNITO_USER_POOL_ID'' user_pool_id;
               replace_string = str_replace replace_string ''REPLACE_ME_VPC_LINK_ID'' vpc_link_id;
               replace_string = str_replace replace_string ''REPLACE_ME_NLB_DNS'' dns_name
           in Inr replace_string))"

text \<open>The stack (lines 22--60).  The swagger body is the call of
  \<open>generate_swagger_spec_json\<close> with the stack's account and region, the attributes
  passed in and the VPC link's id.\<close>

definition apigateway_stack :: "string \<Rightarrow> string \<Rightarrow> res_ref \<Rightarrow> res_ref \<Rightarrow> res_ref \<Rightarrow> stack" where
  "apigateway_stack construct_id region load_balancer_dns_name load_balancer_arn user_pool_id =
     \<lparr>st_class = ''APIGatewayStack'', st_name = construct_id, st_region = region,
      st_decls =
       [Construct ''elbv2.NetworkLoadBalancer.from_network_load_balancer_attributes'' ''NLB''
          [(''load_balancer_arn'', PRes load_balancer_arn)],
        Construct ''apigw.VpcLink'' ''VPCLink''
          [(''description'', PStr ''VPCLink for our  REST API''), (''vpc_link_name'', PStr ''MysfitsApiVpcLink''),
           (''targets'', PList [PRef (construct_id, ''NLB'')])],
        Construct ''apigw.CfnRestApi'' ''Schema''
          [(''name'', PStr ''MysfitsApi''),
           (''body'', PObj ''generate_swagger_spec_json''
              [(''account'', PRes (RAttr construct_id [] ''account'')), (''region'', PRes (RAttr construct_id [] ''region'')),
               (''dns_name'', PRes load_balancer_dns_name), (''user_pool_id'', PRes user_pool_id),
               (''vpc_link'', PRef (construct_id, ''VPCLink''))]),
           (''endpoint_configuration'', PObj ''apigw.CfnRestApi.EndpointConfigurationProperty''
              [(''types'', PList [PStr ''REGIONAL''])]),
           (''fail_on_warnings'', PBool True)],
        Construct ''apigw.CfnDeployment'' ''Prod''
          [(''rest_api_id'', PRes (obj_attr (construct_id, ''Schema'') ''ref'')), (''stage_name'', PStr ''prod'')],
        Output ''APIID'' [(''description'', PStr ''API Gateway ID''), (''value'', PRes (obj_attr (construct_id, ''Schema'') ''ref''))]]\<rparr>"

subsection \<open>WebApplicationStack (web_application_stack.py)\<close>

definition web_application_stack :: "string \<Rightarrow> string \<Rightarrow> stack" where
  "web_application_stack construct_id region = \<lparr>st_class = ''WebApplicationStack'', st_name = construct_id,
     st_region = region,
     st_decls =
     (let web_app_root = PObj ''os.path.abspath'' [(''path'', PStr ''./web'')]
      in [Construct ''s3.Bucket'' ''Bucket'' [(''website_index_document'', PStr ''index.html'')],
          Construct ''cloudfront.OriginAccessIdentity'' ''BucketOrigin'' [(''comment'', PStr ''mythical-mysfits'')],
          Call ''Bucket'' ''grant_read''
            [(''identity'', PObj ''iam.CanonicalUserPrincipal''
               [(''canonical_user_id'',
                 PRes (obj_attr (construct_id, ''BucketOrigin'') ''cloud_front_origin_access_identity_s3_canonical_user_id''))])],
          Construct ''cloudfront.CloudFrontWebDistribution'' ''CloudFront''
            [(''viewer_protocol_policy'', PEnum ''cloudfront.ViewerProtocolPolicy.ALLOW_ALL''),
             (''price_class'', PEnum ''cloudfront.PriceClass.PRICE_CLASS_ALL''),
             (''origin_configs'', PList [PObj ''cloudfront.SourceConfiguration''
                [(''behaviors'', PList [PObj ''cloudfront.Behavior''
                   [(''is_default_behavior'', PBool True),
                    (''max_ttl'', PObj ''cdk.Duration.seconds'' [(''amount'', PInt 31536000)]),
                    (''allowed_methods'', PEnum ''cloudfront.CloudFrontAllowedMethods.GET_HEAD_OPTIONS'')]]),
                 (''origin_path'', PStr ''/web''),
                 (''s3_origin_source'', PObj ''cloudfront.S3OriginConfig''
                    [(''s3_bucket_source'', PRef (construct_id, ''Bucket'')),
                     (''origin_access_identity'', PRef (construct_id, ''BucketOrigin''))])]])],
          Construct ''s3deploy.BucketDeployment'' ''DeployWebsite''
            [(''sources'', PList [PObj ''s3deploy.Source.asset'' [(''path'', web_app_root)]]),
             (''destination_key_prefix'', PStr ''web/''), (''destination_bucket'', PRef (construct_id, ''Bucket'')),
             (''distribution'', PRef (construct_id, ''CloudFront'')), (''retain_on_delete'', PBool False)],
          Output ''CloudFrontURL''
            [(''description'', PStr ''The CloudFront distribution URL''),
             (''value'', PCat [PStr ''https://'', PRes (obj_attr (construct_id, ''CloudFront'') ''domain_name'')])]])\<rparr>"

subsection \<open>The application (app.py)\<close>

text \<open>\<open>app.py\<close> (lines 27--88) reads the deployment region, raising \<open>KeyError\<close> when
  \<open>AWS_DEFAULT_REGION\<close> is unset, and instantiates the stacks in code order, passing each
  the constructs and attributes of the stacks created before it.  The CI/CD stack and
  \<open>WebgenStack\<close> are commented out there and not part of the application.\<close>

definition app :: "(string \<rightharpoonup> string) \<Rightarrow> exn + stack list" where
  "app env =
     (case env ''AWS_DEFAULT_REGION'' of
        None \<Rightarrow> Inl (KeyError ''AWS_DEFAULT_REGION'')
      | Some deploy_region \<Rightarrow>
          (let table_stack = dynamodb_stack ''MythicalMysfits-DynamoDB-stack'' deploy_region;
               network_stack = network_stack ''MythicalMysfits-Network-stack'' deploy_region;
               ecr_stack = ecr_stack ''MythicalMysfits-ECR-stack'' deploy_region;
               ecs_stack = ecs_stack ''MythicalMysfits-ECS-stack'' deploy_region
                 (st_name network_stack, ''WebVpc'') (st_name ecr_stack, ''Repository'');
               cognito_stack = cognito_stack ''MythicalMysfits-Cognito-stack'' deploy_region;
               apigateway_stack = apigateway_stack ''MythicalMysfits-APIGateway-stack'' deploy_region
                 (obj_attr (st_name ecs_stack, ''MythicalMysfits-FargateService'') ''load_balancer.load_balancer_dns_name'')
                 (obj_attr (st_name ecs_stack, ''MythicalMysfits-FargateService'') ''load_balancer.load_balancer_arn'')
                 (obj_attr (st_name cognito_stack, ''UserPool'') ''user_pool_id'');
               firehose_stack = kinesis_firehose_stack ''MythicalMysfits-KinesisFirehose-stack'' deploy_region
                 (st_name table_stack, ''MysfitsTable'');
               xray_stack = xray_stack ''MythicalMysfits-XRay-stack'' deploy_region;
               sagemaker_stack = sagemaker_stack ''MythicalMysfits-SageMaker-stack'' deploy_region;
               web_s3_stack = web_application_stack ''MythicalMysfits-Website-stack'' deploy_region
           in Inr [table_stack, network_stack, ecr_stack, ecs_stack, cognito_stack, apigateway_stack,
                   firehose_stack, xray_stack, sagemaker_stack, web_s3_stack]))"

subsection \<open>Stacks app.py does not instantiate\<close>

text \<open>\<open>NetworkECRStack\<close> (network_ecr_stack.py, lines 11--114), an earlier variant of the
  network and ECS stacks: its task role is an existing role imported by ARN, given an
  inline policy built from a JSON document, and its image is pulled by registry URL.
  The account and region of the stack are its attributes \<open>account\<close> and \<open>region\<close>.\<close>

definition network_ecr_stack :: "string \<Rightarrow> string \<Rightarrow> stack" where
  "network_ecr_stack construct_id region = \<lparr>st_class = ''NetworkECRStack'', st_name = construct_id, st_region = region,
     st_decls =
     (let self_region = PRes (RAttr construct_id [] ''region''); self_account = PRes (RAttr construct_id [] ''account'');
          ecs_task_inline_policy = PDict
            [(''Version'', PStr ''2012-10-17''),
             (''Statement'', PList [PDict
                [(''Sid'', PStr ''AllActionsOnTable''), (''Action'', PList [PStr ''dynamodb:*'']),
                 (''Effect'', PStr ''Allow''),
                 (''Resource'', PList
                    [PCat [PStr ''arn:aws:dynamodb:'', self_region, PStr '':'', self_account, PStr '':table/MysfitsTable''],
                     PCat [PStr ''arn:aws:dynamodb:'', self_region, PStr '':'', self_account,
                           PStr '':table/MysfitsTable/index/*'']])]])];
          task_image_options = PObj ''ecs_patterns.NetworkLoadBalancedTaskImageOptions''
            [(''image'', PObj ''ecs.ContainerImage.from_registry''
               [(''name'', PCat [self_account, PStr ''.dkr.ecr.'', self_region,
                                PStr ''.amazonaws.com/mythicalmysfits/webservice''])]),
             (''container_port'', PInt 8080), (''execution_role'', PRef (construct_id, ''ECSAccessRole'')),
             (''enable_logging'', PBool True), (''task_role'', PRef (construct_id, ''ECSTaskRole''))]
      in [Construct ''ec2.Vpc'' ''WebVpc'' [(''max_azs'', PInt 2), (''nat_gateways'', PInt 1)],
          Construct ''ecs.Cluster'' ''WebEc2Cluster'' [(''vpc'', PRef (construct_id, ''WebVpc''))],
          Construct ''iam.Role.from_role_arn'' ''ECSAccessRole''
            [(''role_arn'', PCat [PStr ''arn:aws:iam::'', self_account, PStr '':role/ecsTaskExecutionRole'']),
             (''mutable'', PBool False)],
          Construct ''iam.Role.from_role_arn'' ''ECSTaskRole''
            [(''role_arn'', PCat [PStr ''arn:aws:iam::'', self_account, PStr '':role/ecsTaskExecutionRole'']),
             (''mutable'', PBool True)],
          Construct ''iam.Policy'' ''ECSTaskPolicy''
            [(''document'', PObj ''iam.PolicyDocument.from_json'' [(''obj'', ecs_task_inline_policy)])],
          Call ''ECSTaskRole'' ''attach_inline_policy'' [(''policy'', PRef (construct_id, ''ECSTaskPolicy''))],
          Construct ''ecs_patterns.NetworkLoadBalancedFargateService'' ''MythicalMysfits-Service''
            [(''cluster'', PRef (construct_id, ''WebEc2Cluster'')), (''cpu'', PInt 256), (''memory_limit_mib'', PInt 512),
             (''public_load_balancer'', PBool True), (''task_image_options'', task_image_options)],
          Call ''MythicalMysfits-Service'' ''service.connections.security_groups[0].add_ingress_rule''
            [(''peer'', PObj ''ec2.Peer.ipv4'' [(''cidr_ip'', PRes (obj_attr (construct_id, ''WebVpc'') ''vpc_cidr_block''))]),
             (''connection'', PObj ''ec2.Port.tcp'' [(''port'', PInt 8080)]),
             (''description'', PStr ''Allow http inbound from VPC'')],
          Output ''WebLoadBalancerDNS''
            [(''value'', PRes (obj_attr (construct_id, ''MythicalMysfits-Service'') ''load_balancer.load_balancer_dns_name''))],
          Output ''WebLoadBalancerARN''
            [(''value'', PRes (obj_attr (construct_id, ''MythicalMysfits-Service'') ''load_balancer.load_balancer_arn''))]])\<rparr>"

text \<open>\<open>CiCdStack\<close> (cicd_stack.py, lines 13--96): a CodeCommit repository, a CodeBuild
  project allowed to pull from it and to push to the ECR repository, and a two-stage
  pipeline.  The actions are values passed to \<open>add_stage\<close>; the deploy action is created
  but never added to a stage (the code comments that adding it does not work).\<close>

definition codebuild_policy_stm :: "string \<Rightarrow> stmt" where
  "codebuild_policy_stm construct_id =
     add_actions [''codecommit:ListBranches'', ''codecommit:ListRepositories'', ''codecommit:BatchGetRepositories'',
                  ''codecommit:GitPull'']
       (add_resources [obj_attr (construct_id, ''BackendRepository'') ''repository_arn''] new_stmt)"

definition cicd_stack :: "string \<Rightarrow> string \<Rightarrow> oref \<Rightarrow> oref \<Rightarrow> stack" where
  "cicd_stack construct_id region ecr_repository ecs_service = \<lparr>st_class = ''CiCdStack'', st_name = construct_id,
     st_region = region,
     st_decls =
     (let source_action = PObj ''actions.CodeCommitSourceAction''
            [(''action_name'', PStr ''CodeCommit-Source''), (''branch'', PStr ''main''),
             (''trigger'', PEnum ''actions.CodeCommitTrigger.EVENTS''),
             (''repository'', PRef (construct_id, ''BackendRepository'')), (''output'', PStr ''source_output'')];
          build_action = PObj ''actions.CodeBuildAction''
            [(''action_name'', PStr ''Build''), (''input'', PStr ''source_output''),
             (''outputs'', PList [PStr ''build_output'']), (''project'', PRef (construct_id, ''BuildProject''))]
      in [Construct ''codecommit.Repository'' ''BackendRepository''
            [(''repository_name'', PStr ''MythicalMysfits-BackendRepository'')],
          Construct ''codebuild.PipelineProject'' ''BuildProject''
            [(''project_name'', PStr ''MythicalMysfitsServiceCodeBuildProject''),
             (''environment'', PObj ''codebuild.BuildEnvironment''
                [(''build_image'', PEnum ''codebuild.LinuxBuildImage.UBUNTU_14_04_PYTHON_3_5_2''),
                 (''compute_type'', PEnum ''codebuild.ComputeType.SMALL''),
                 (''environment_variables'', PDict
                    [(''AWS_ACCOUNT_ID'', PObj ''codebuild.BuildEnvironmentVariable''
                        [(''type'', PEnum ''codebuild.BuildEnvironmentVariableType.PLAINTEXT''),
                         (''value'', PRes (RAttr construct_id [] ''account''))]),
                     (''AWS_DEFAULT_REGION'', PObj ''codebuild.BuildEnvironmentVariable''
                        [(''type'', PEnum ''codebuild.BuildEnvironmentVariableType.PLAINTEXT''),
                         (''value'', PRes (RAttr construct_id [] ''region''))])]),
                 (''privileged'', PBool True)])],
          Call ''BuildProject'' ''add_to_role_policy'' [(''statement'', PStmt (codebuild_policy_stm construct_id))],
          XCall ecr_repository ''grant_pull_push''
            [(''grantee'', PRes (obj_attr (construct_id, ''BuildProject'') ''grant_principal''))],
          Construct ''codepipeline.Pipeline'' ''Pipeline'' [(''pipeline_name'', PStr ''MythicalMysfitsPipeline'')],
          Call ''Pipeline'' ''add_stage'' [(''stage_name'', PStr ''Source''), (''actions'', PList [source_action])],
          Call ''Pipeline'' ''add_stage'' [(''stage_name'', PStr ''Build''), (''actions'', PList [build_action])],
          Output ''BackendRepositoryCloneUrlHttp''
            [(''description'', PStr ''Backend Repository CloneUrl HTTP''),
             (''value'', PRes (obj_attr (construct_id, ''BackendRepository'') ''repository_clone_url_http''))],
          Output ''BackendRepositoryCloneUrlSsh''
            [(''description'', PStr ''Backend Repository CloneUrl SSH''),
             (''value'', PRes (obj_attr (construct_id, ''BackendRepository'') ''repository_clone_url_ssh''))]])\<rparr>"

text \<open>\<open>WebgenStack\<close> (webgen_stack.py, lines 5--15): one \<open>SPADeploy\<close> construct of the
  \<open>cdk-spa-deploy\<close> library and its \<open>create_basic_site\<close> call.\<close>

definition webgen_stack :: "string \<Rightarrow> string \<Rightarrow> stack" where
  "webgen_stack construct_id region = \<lparr>st_class = ''WebgenStack'', st_name = construct_id, st_region = region,
     st_decls =
       [Construct ''SPADeploy'' ''spaDeploy'' [],
        Call ''spaDeploy'' ''create_basic_site'' [(''index_doc'', PStr ''index.html''), (''website_folder'', PStr ''./web'')]]\<rparr>"

subsection \<open>Reading the declarations\<close>

text \<open>What the declarations grant and name, read the way CloudFormation reads the
  synthesised template: the statements a principal receives, the tables and REST APIs
  declared, the indexes of a table, and the constructs a declaration refers to.\<close>

fun stmts_of :: "pval \<Rightarrow> stmt list" where
  "stmts_of (PStmt st) = [st]"
| "stmts_of (PList vs) = concat (map stmts_of vs)"
| "stmts_of _ = []"

definition kw_stmts :: "(string \<times> pval) list \<Rightarrow> string \<Rightarrow> stmt list" where
  "kw_stmts ps k = (case map_of ps k of Some v \<Rightarrow> stmts_of v | None \<Rightarrow> [])"

definition kw_lists :: "(string \<times> pval) list \<Rightarrow> string \<Rightarrow> pval \<Rightarrow> bool" where
  "kw_lists ps k v = (case map_of ps k of Some (PList vs) \<Rightarrow> v \<in> set vs | _ \<Rightarrow> False)"

text \<open>The principals that receive statements in the stacks: a role (\<open>add_to_policy\<close>, or
  an \<open>iam.Policy\<close> listing it), the role of a function (\<open>initial_policy\<close>), and the task
  and execution roles of a Fargate service.\<close>

datatype principal = RoleP string | FunctionP string | TaskRoleP string | ExecutionRoleP string

fun granted :: "string \<Rightarrow> principal \<Rightarrow> decl \<Rightarrow> stmt list" where
  "granted sn (FunctionP f) (Construct k c ps) =
     (if k = ''lambda.Function'' \<and> c = f then kw_stmts ps ''initial_policy'' else [])"
| "granted sn (RoleP r) (Construct k c ps) =
     (if k = ''iam.Policy'' \<and> kw_lists ps ''roles'' (PRef (sn, r)) then kw_stmts ps ''statements'' else [])"
| "granted sn (RoleP r) (Call c m args) =
     (if c = r \<and> m = ''add_to_policy'' then kw_stmts args ''statement'' else [])"
| "granted sn (TaskRoleP svc) (Call c m args) =
     (if c = svc \<and> m = ''service.task_definition.add_to_task_role_policy'' then kw_stmts args ''statement'' else [])"
| "granted sn (ExecutionRoleP svc) (Call c m args) =
     (if c = svc \<and> m = ''service.task_definition.add_to_execution_role_policy'' then kw_stmts args ''statement'' else [])"
| "granted sn p d = []"

definition policy_of :: "stack \<Rightarrow> principal \<Rightarrow> stmt list" where
  "policy_of stk p = concat (map (granted (st_name stk) p) (st_decls stk))"

definition kw_str :: "(string \<times> pval) list \<Rightarrow> string \<Rightarrow> string list" where
  "kw_str ps k = (case map_of ps k of Some (PStr n) \<Rightarrow> [n] | _ \<Rightarrow> [])"

fun decl_table_names :: "decl \<Rightarrow> string list" where
  "decl_table_names (Construct k c ps) = (if k = ''dynamo_db.Table'' then kw_str ps ''table_name'' else [])"
| "decl_table_names _ = []"

text \<open>The name of a REST API: \<open>name\<close> of a \<open>CfnRestApi\<close>, \<open>rest_api_name\<close> of a \<open>RestApi\<close>,
  and of a \<open>LambdaRestApi\<close> the \<open>rest_api_name\<close> of its \<open>options\<close>, which the construct
  merges into its properties.\<close>

fun decl_api_names :: "decl \<Rightarrow> string list" where
  "decl_api_names (Construct k c ps) =
     (if k = ''apigw.CfnRestApi'' then kw_str ps ''name''
      else if k = ''apigw.RestApi'' then kw_str ps ''rest_api_name''
      else if k = ''apigw.LambdaRestApi'' then
        (case map_of ps ''options'' of Some (PObj _ os) \<Rightarrow> kw_str os ''rest_api_name'' | _ \<Rightarrow> [])
      else [])"
| "decl_api_names _ = []"

definition kw_attribute :: "(string \<times> pval) list \<Rightarrow> string \<Rightarrow> string list" where
  "kw_attribute ps k = (case map_of ps k of Some (PObj ''dynamo_db.Attribute'' a) \<Rightarrow> kw_str a ''name'' | _ \<Rightarrow> [])"

text \<open>The global secondary indexes of table \<open>t\<close>: index name and partition key.\<close>

fun decl_gsis :: "string \<Rightarrow> decl \<Rightarrow> (string \<times> string) list" where
  "decl_gsis t (Call c m args) =
     (if c = t \<and> m = ''add_global_secondary_index''
      then [(i, k). i \<leftarrow> kw_str args ''index_name'', k \<leftarrow> kw_attribute args ''partition_key''] else [])"
| "decl_gsis t _ = []"

definition app_tables :: "stack list \<Rightarrow> string list" where
  "app_tables stks = concat (map (\<lambda>stk. concat (map decl_table_names (st_decls stk))) stks)"

definition app_rest_apis :: "stack list \<Rightarrow> string list" where
  "app_rest_apis stks = concat (map (\<lambda>stk. concat (map decl_api_names (st_decls stk))) stks)"

definition stack_gsis :: "stack \<Rightarrow> string \<Rightarrow> (string \<times> string) list" where
  "stack_gsis stk t = concat (map (decl_gsis t) (st_decls stk))"

text \<open>The arguments of the \<open>add_method(http_method, ...)\<close> calls on resource \<open>res\<close>, and
  the header names of the \<open>response_parameters\<close> dictionaries under keyword \<open>k\<close> of those
  calls: under \<open>integration\<close> the headers the integration response sets, under
  \<open>method_responses\<close> the headers the method response declares.\<close>

fun dict_keys :: "string \<Rightarrow> pval \<Rightarrow> string list" where
  "dict_keys k (PObj n kvs) =
     concat (map (\<lambda>kv. (if fst kv = k then (case snd kv of PDict d \<Rightarrow> map fst d | _ \<Rightarrow> []) else []) @
                        dict_keys k (snd kv)) kvs)"
| "dict_keys k (PList vs) = concat (map (dict_keys k) vs)"
| "dict_keys k (PDict kvs) = concat (map (dict_keys k \<circ> snd) kvs)"
| "dict_keys k _ = []"

fun decl_method :: "string \<Rightarrow> string \<Rightarrow> decl \<Rightarrow> (string \<times> pval) list list" where
  "decl_method res http (Call c m args) =
     (if c = res \<and> m = ''add_method'' \<and> map_of args ''http_method'' = Some (PStr http) then [args] else [])"
| "decl_method res http _ = []"

definition method_headers :: "stack \<Rightarrow> string \<Rightarrow> string \<Rightarrow> string \<Rightarrow> string list" where
  "method_headers stk res http k =
     concat (map (\<lambda>args. case map_of args k of Some v \<Rightarrow> dict_keys ''response_parameters'' v | None \<Rightarrow> [])
       (concat (map (decl_method res http) (st_decls stk))))"

subsection \<open>References between constructs\<close>

fun res_obj :: "res_ref \<Rightarrow> oref list" where
  "res_obj (RAttr st c a) = [(st, c)]"
| "res_obj (RObjects st c k) = [(st, c)]"
| "res_obj RAll = []"

fun refs_of :: "pval \<Rightarrow> oref list" where
  "refs_of (PRef r) = [r]"
| "refs_of (PRes r) = res_obj r"
| "refs_of (PStmt st) = concat (map res_obj (s_resources st))"
| "refs_of (PList vs) = concat (map refs_of vs)"
| "refs_of (PCat vs) = concat (map refs_of vs)"
| "refs_of (PDict kvs) = concat (map (refs_of \<circ> snd) kvs)"
| "refs_of (PObj n kvs) = concat (map (refs_of \<circ> snd) kvs)"
| "refs_of _ = []"

definition kw_refs :: "(string \<times> pval) list \<Rightarrow> oref list" where
  "kw_refs ps = concat (map (refs_of \<circ> snd) ps)"

fun decl_refs :: "string \<Rightarrow> decl \<Rightarrow> oref list" where
  "decl_refs sn (Construct k c ps) = kw_refs ps"
| "decl_refs sn (Call c m args) = (sn, c) # kw_refs args"
| "decl_refs sn (XCall obj m args) = obj # kw_refs args"
| "decl_refs sn (Output n ps) = kw_refs ps"

fun decl_defs :: "string \<Rightarrow> decl \<Rightarrow> oref list" where
  "decl_defs sn (Construct k c ps) = [(sn, c)]"
| "decl_defs sn _ = []"

text \<open>Every construct a declaration uses exists when it runs: declared before it in its
  stack, the stack itself (its account and region), or a construct of a stack created
  before (a Python object can only be passed once it exists, and CDK rejects cyclic
  references between stacks).  Construct ids are unique in a stack and stack names in
  the application.\<close>

fun decls_wf :: "oref list \<Rightarrow> string \<Rightarrow> decl list \<Rightarrow> bool" where
  "decls_wf known sn [] = True"
| "decls_wf known sn (d # ds) =
     (list_all (\<lambda>r. r \<in> set known) (decl_refs sn d) \<and> decls_wf (known @ decl_defs sn d) sn ds)"

definition stack_defs :: "stack \<Rightarrow> oref list" where
  "stack_defs stk = concat (map (decl_defs (st_name stk)) (st_decls stk))"

fun app_wf :: "oref list \<Rightarrow> string list \<Rightarrow> stack list \<Rightarrow> bool" where
  "app_wf known names [] = True"
| "app_wf known names (stk # stks) =
     (st_name stk \<notin> set names \<and> distinct (stack_defs stk) \<and>
      decls_wf (known @ [(st_name stk, [])]) (st_name stk) (st_decls stk) \<and>
      app_wf (known @ stack_defs stk) (st_name stk # names) stks)"

subsection \<open>The application\<close>

lemma st_name_stacks [simp]:
  "st_name (dynamodb_stack n r) = n" "st_name (network_stack n r) = n" "st_name (ecr_stack n r) = n"
  "st_name (ecs_stack n r v e) = n" "st_name (cognito_stack n r) = n" "st_name (apigateway_stack n r d a u) = n"
  "st_name (kinesis_firehose_stack n r t) = n" "st_name (xray_stack n r) = n" "st_name (sagemaker_stack n r) = n"
  "st_name (web_application_stack n r) = n"
  by (simp_all add: dynamodb_stack_def network_stack_def ecr_stack_def ecs_stack_def cognito_stack_def
    apigateway_stack_def kinesis_firehose_stack_def xray_stack_def sagemaker_stack_def web_application_stack_def)

lemma app_Some: "env ''AWS_DEFAULT_REGION'' = Some r \<Longrightarrow> app env = Inr
   [dynamodb_stack ''MythicalMysfits-DynamoDB-stack'' r, network_stack ''MythicalMysfits-Network-stack'' r,
    ecr_stack ''MythicalMysfits-ECR-stack'' r,
    ecs_stack ''MythicalMysfits-ECS-stack'' r (''MythicalMysfits-Network-stack'', ''WebVpc'') (''MythicalMysfits-ECR-stack'', ''Repository''),
    cognito_stack ''MythicalMysfits-Cognito-stack'' r,
    apigateway_stack ''MythicalMysfits-APIGateway-stack'' r
      (obj_attr (''MythicalMysfits-ECS-stack'', ''MythicalMysfits-FargateService'') ''load_balancer.load_balancer_dns_name'')
      (obj_attr (''MythicalMysfits-ECS-stack'', ''MythicalMysfits-FargateService'') ''load_balancer.load_balancer_arn'')
      (obj_attr (''MythicalMysfits-Cognito-stack'', ''UserPool'') ''user_pool_id''),
    kinesis_firehose_stack ''MythicalMysfits-KinesisFirehose-stack'' r (''MythicalMysfits-DynamoDB-stack'', ''MysfitsTable''),
    xray_stack ''MythicalMysfits-XRay-stack'' r, sagemaker_stack ''MythicalMysfits-SageMaker-stack'' r,
    web_application_stack ''MythicalMysfits-Website-stack'' r]"
  by (simp add: app_def Let_def)

lemma app_None: "env ''AWS_DEFAULT_REGION'' = None \<Longrightarrow> app env = Inl (KeyError ''AWS_DEFAULT_REGION'')"
  by (simp add: app_def)

lemmas stack_defs_all = dynamodb_stack_def network_stack_def ecr_stack_def ecs_stack_def cognito_stack_def
  apigateway_stack_def kinesis_firehose_stack_def xray_stack_def sagemaker_stack_def web_application_stack_def
  firehose_delivery_decls_def click_api_decls_def questions_backend_decls_def questions_api_decls_def

subsection \<open>Facts about the stacks\<close>

lemma click_api_role_policy:
  "policy_of (kinesis_firehose_stack n r t) (RoleP ''ClickProcessingApiRole'') = [api_policy n]"
  by (simp add: policy_of_def kinesis_firehose_stack_def firehose_delivery_decls_def click_api_decls_def
      kw_lists_def kw_stmts_def)

text \<open>C35. The role the click API uses to call Firehose is allowed exactly one action,
  \<open>firehose:PutRecord\<close> (in any letter case), on exactly one resource, the delivery
  stream of its stack.\<close>

theorem click_api_role_exact:
  "policy_allows (policy_of (kinesis_firehose_stack n r t) (RoleP ''ClickProcessingApiRole'')) a res \<longleftrightarrow>
     str_lower a = ''firehose:putrecord'' \<and> res = RAttr n ''DeliveryStream'' ''attr_arn''"
proof -
  have "action_matches ''firehose:PutRecord'' a \<longleftrightarrow> str_lower a = ''firehose:putrecord''"
    using action_matches_literal [of "''firehose:PutRecord''" a] by (simp add: str_lower_eval)
  then show ?thesis
    by (auto simp: click_api_role_policy policy_allows_single_allow stmt_allows_def api_policy_def
        add_resources_def add_actions_def new_stmt_def obj_attr_def)
qed

theorem click_api_role_exact_witness:
  "policy_allows (policy_of (kinesis_firehose_stack ''K'' ''eu-west-1'' (''D'', ''T'')) (RoleP ''ClickProcessingApiRole''))
     ''firehose:PutRecord'' (RAttr ''K'' ''DeliveryStream'' ''attr_arn'') \<and>
   \<not> policy_allows (policy_of (kinesis_firehose_stack ''K'' ''eu-west-1'' (''D'', ''T'')) (RoleP ''ClickProcessingApiRole''))
     ''firehose:DeleteDeliveryStream'' (RAttr ''K'' ''DeliveryStream'' ''attr_arn'')"
  using click_api_role_exact [of "''K''" "''eu-west-1''" "(''D'', ''T'')"] by (simp add: str_lower_eval)

lemma recommendations_post_cors:
  "cors_header ''Origin'' \<in> set (method_headers (sagemaker_stack n r) ''recommendations'' ''POST'' ''method_responses'') \<and>
   method_headers (sagemaker_stack n r) ''recommendations'' ''POST'' ''integration'' = [] \<and>
   cors_header ''Origin'' \<in> set (method_headers (kinesis_firehose_stack n r t) ''clicks'' ''PUT'' ''integration'')"
  by (simp add: method_headers_def sagemaker_stack_def kinesis_firehose_stack_def firehose_delivery_decls_def
      click_api_decls_def lambda_integration_def cors_options_method_def Let_def)

text \<open>The task role of the Fargate service may call every DynamoDB action on every
  resource (\<open>dynamodb:*\<close> with \<open>add_all_resources()\<close>).\<close>

lemma ecs_task_role_policy:
  "policy_of (ecs_stack n r v e) (TaskRoleP ''MythicalMysfits-FargateService'') = [ecs_task_stmt]"
  by (simp add: policy_of_def ecs_stack_def kw_stmts_def)

lemma ecs_task_role_allows_dynamodb:
  "policy_allows (policy_of (ecs_stack n r v e) (TaskRoleP ''MythicalMysfits-FargateService'')) (''dynamodb:'' @ op) res"
proof -
  have "action_matches ''dynamodb:*'' (''dynamodb:'' @ op)"
    using action_matches_star [of "''dynamodb:''" "''dynamodb:'' @ op"] by (simp add: str_lower_eval)
  then show ?thesis
    by (simp add: ecs_task_role_policy policy_allows_def stmt_allows_def ecs_task_stmt_def add_all_resources_def
        add_actions_def new_stmt_def)
qed

lemma app_tables_ok: "app env = Inr stks \<Longrightarrow> app_tables stks = [''MysfitsTable'', ''MysfitsQuestionsTable'']"
  by (cases "env ''AWS_DEFAULT_REGION''") (auto simp: app_Some app_None app_tables_def stack_defs_all kw_str_def Let_def)

lemma app_apis_ok: "app env = Inr stks \<Longrightarrow> app_rest_apis stks = [''MysfitsApi'', ''ClickProcessingApi'', ''QuestionsAPI'', ''RecommendationsAPI'']"
  by (cases "env ''AWS_DEFAULT_REGION''") (auto simp: app_Some app_None app_rest_apis_def stack_defs_all kw_str_def lambda_rest_api_def Let_def)

text \<open>The stacks \<open>app.py\<close> leaves out are well formed too, given the constructs they
  are passed.\<close>

lemma unused_stacks_wf:
  "decls_wf [(n, [])] n (st_decls (network_ecr_stack n r))"
  "decls_wf [(n, []), e] n (st_decls (cicd_stack n r e s))"
  "decls_wf [(n, [])] n (st_decls (webgen_stack n r))"
  by (simp_all add: network_ecr_stack_def cicd_stack_def webgen_stack_def codebuild_policy_stm_def kw_refs_def
      obj_attr_def add_actions_def add_resources_def new_stmt_def Let_def)

text \<open>Every stack the application creates refers only to constructs that exist when
  the reference is made: declared earlier in its own stack, or in a stack created
  before it; construct ids are unique in each stack and stack names are unique.\<close>

theorem app_wf_ok: "app env = Inr stks \<Longrightarrow> app_wf [] [] stks"
  by (cases "env ''AWS_DEFAULT_REGION''") (auto simp: app_Some app_None stack_defs_all stack_defs_def kw_refs_def Let_def
     lambda_rest_api_def lambda_integration_def cors_options_method_def obj_attr_def str_attribute_def
     lambda_function_policy_stm_def firehose_delivery_policy_s3_stm_def firehose_delivery_policy_lambda_stm_def api_policy_def
     post_question_lambda_function_policy_stm_ddb_def lambda_function_policy_stm_xray_def
     post_question_lambda_function_policy_stm_sns_def questions_api_policy_def recommendations_lambda_function_policy_stm_def
     recommendations_api_policy_def ecs_execution_stmt_def ecs_task_stmt_def add_actions_def add_resources_def add_all_resources_def new_stmt_def)

theorem app_wf_ok_witness:
  "\<exists>stks. app [''AWS_DEFAULT_REGION'' \<mapsto> ''eu-west-1''] = Inr stks \<and> app_wf [] [] stks"
proof -
  obtain stks where "app [''AWS_DEFAULT_REGION'' \<mapsto> ''eu-west-1''] = Inr stks"
    using app_Some [of "[''AWS_DEFAULT_REGION'' \<mapsto> ''eu-west-1'']"] by auto
  then show ?thesis using app_wf_ok by blast
qed

end
