(* ===== verification/Notebook.thy ===== *)
theory Notebook
  imports Teardown TableClient
begin

text \<open>
  The SageMaker notebook exported as \<open>src/webgen/sagemaker/mysfit_recommendations_knn.py\<close>:
  the cell that creates the execution role (lines 45--80), the data paths and the
  train/test split (lines 96--115), the upload of the two data sets to the session's
  default bucket (lines 142--165), and the inputs of the estimator (lines 188--224).
  \<^item> The role cell is a script over the IAM service (roles and their attached policies),
    with the boto3 semantics of \<open>get_role\<close>, \<open>create_role\<close> and \<open>attach_role_policy\<close>.
  \<^item> \<open>int(0.9 * raw.shape[0])\<close> is computed in binary64 as Python does: the row count is
    converted to a double, multiplied by the double nearest to 0.9, rounded to nearest
    with ties to even, and truncated.  A double is represented by the integer
    \<open>v * 2 ^ 53\<close> (exact for the values involved); \<open>dbl_round\<close> keeps 53 significant bits.
  \<^item> \<open>np.random.shuffle\<close> permutes the rows with a seeded generator; the split is
    modelled on the permuted rows, which the model takes as its argument.
  \<^item> The upload writes into the account of \<open>Teardown\<close>, where the teardown deletes
    buckets; \<open>sagemaker.Session().default_bucket()\<close> is, per the SageMaker SDK, the bucket
    \<open>sagemaker-<region>-<account>\<close>, created in the session's region when missing.
  Loading the CSV, the RecordIO serialisation and the training itself are not modelled.
\<close>

subsection \<open>JSON text\<close>

text \<open>\<open>json.dumps\<close> with its default separators, for strings without characters to escape.\<close>

fun json_dumps :: "json \<Rightarrow> string" where
  "json_dumps (JStr s) = ''\"'' @ s @ ''\"''"
| "json_dumps (JInt i) = dec_str i"
| "json_dumps (JBool b) = (if b then ''true'' else ''false'')"
| "json_dumps (JArr vs) = ''['' @ str_join '', '' (map json_dumps vs) @ '']''"
| "json_dumps (JObj kvs) =
     ''{'' @ str_join '', '' (map (\<lambda>kv. ''\"'' @ fst kv @ ''\": '' @ json_dumps (snd kv)) kvs) @ ''}''"

subsection \<open>The execution role (lines 45--80)\<close>

record iam_role =
  assume_role_policy :: string
  attached_policies :: "string list"

record iam =
  roles :: "string \<rightharpoonup> iam_role"
  iam_errors :: "string \<rightharpoonup> string"   \<comment> \<open>operations that fail, with their error code\<close>

definition iam_call :: "string \<Rightarrow> iam \<Rightarrow> exn + unit" where
  "iam_call op st = (case iam_errors st op of Some c \<Rightarrow> Inl (ClientError c) | None \<Rightarrow> Inr ())"

definition get_role :: "string \<Rightarrow> (iam, unit) script" where
  "get_role name st =
     (case iam_call ''GetRole'' st of
        Inl e \<Rightarrow> (Inl e, st)
      | Inr _ \<Rightarrow> if roles st name = None then (Inl (ClientError ''NoSuchEntity''), st) else (Inr (), st))"

definition create_role :: "string \<Rightarrow> string \<Rightarrow> (iam, unit) script" where
  "create_role name doc st =
     (case iam_call ''CreateRole'' st of
        Inl e \<Rightarrow> (Inl e, st)
      | Inr _ \<Rightarrow> if roles st name \<noteq> None then (Inl (ClientError ''EntityAlreadyExists''), st)
                else (Inr (), st\<lparr>roles := (roles st)(name \<mapsto>
                        \<lparr>assume_role_policy = doc, attached_policies = []\<rparr>)\<rparr>))"

text \<open>Attaching a policy that is attached already changes nothing.\<close>

definition attach_role_policy :: "string \<Rightarrow> string \<Rightarrow> (iam, unit) script" where
  "attach_role_policy name arn st =
     (case iam_call ''AttachRolePolicy'' st of
        Inl e \<Rightarrow> (Inl e, st)
      | Inr _ \<Rightarrow> (case roles st name of
                  None \<Rightarrow> (Inl (ClientError ''NoSuchEntity''), st)
                | Some r \<Rightarrow> (Inr (), st\<lparr>roles := (roles st)(name \<mapsto>
                     r\<lparr>attached_policies := List.insert arn (attached_policies r)\<rparr>)\<rparr>)))"

definition notebook_role :: string where
  "notebook_role = ''MysfitsSageMakerRole''"

definition assume_role_policy_document :: string where
  "assume_role_policy_document = json_dumps (JObj
     [(''Version'', JStr ''2012-10-17''),
      (''Statement'', JArr [JObj
         [(''Effect'', JStr ''Allow''),
          (''Principal'', JObj [(''Service'', JArr [JStr ''sagemaker.amazonaws.com''])]),
          (''Action'', JStr ''sts:AssumeRole'')]])])"

definition sagemaker_full_access :: string where
  "sagemaker_full_access = ''arn:aws:iam::aws:policy/AmazonSageMakerFullAccess''"

text \<open>\<open>try: get_role ... except ClientError as e: if code == 'NoSuchEntity': create_role;
  attach_role_policy else: raise e\<close>.\<close>

definition setup_role :: "(iam, unit) script" where
  "setup_role st =
     (case get_role notebook_role st of
        (Inr _, st') \<Rightarrow> (Inr (), st')
      | (Inl (ClientError ''NoSuchEntity''), st') \<Rightarrow>
          bindS (create_role notebook_role assume_role_policy_document)
                (\<lambda>_. attach_role_policy notebook_role sagemaker_full_access) st'
      | (Inl e, st') \<Rightarrow> (Inl e, st'))"

subsection \<open>Paths and the train/test split (lines 96--115)\<close>

text \<open>\<open>os.path.join(a, b)\<close> (\<open>posixpath\<close>): an absolute \<open>b\<close> replaces \<open>a\<close>; otherwise a
  separator is inserted unless \<open>a\<close> is empty or ends with one.\<close>

definition path_join :: "string \<Rightarrow> string \<Rightarrow> string" where
  "path_join a b =
     (if take 1 b = ''/'' then b else if a = [] \<or> last a = CHR ''/'' then a @ b else a @ ''/'' @ b)"

definition data_dir :: string where "data_dir = ''tmp/mysfit/''"
definition processed_subdir :: string where "processed_subdir = ''standardized''"

definition raw_data_file :: string where
  "raw_data_file = path_join (path_join data_dir ''raw'') ''mysfit-preferences.csv.gz''"

definition processed_file :: "string \<Rightarrow> string" where
  "processed_file rest = path_join (path_join data_dir processed_subdir) rest"

text \<open>Doubles as integers scaled by \<open>2 ^ 53\<close>: the number of bits of a natural number,
  rounding \<open>a / 2 ^ s\<close> to the nearest integer with ties to even, and rounding an
  integer to 53 significant bits.\<close>

fun bitlen :: "nat \<Rightarrow> nat" where
  "bitlen n = (if n = 0 then 0 else Suc (bitlen (n div 2)))"

declare bitlen.simps [simp del]

definition rne_shift :: "nat \<Rightarrow> nat \<Rightarrow> nat" where
  "rne_shift a s =
     (let q = a div 2 ^ s; r = a mod 2 ^ s; h = 2 ^ s div 2
      in if 0 < s \<and> (h < r \<or> (r = h \<and> odd q)) then q + 1 else q)"

definition dbl_round :: "nat \<Rightarrow> nat" where
  "dbl_round a = (let s = bitlen a - 53 in rne_shift a s * 2 ^ s)"

text \<open>The double nearest to \<open>0.9\<close> is \<open>8106479329266893 / 2 ^ 53\<close>.\<close>

definition dbl_0_9 :: nat where
  "dbl_0_9 = 8106479329266893"

text \<open>\<open>train_size = int(0.9 * raw.shape[0])\<close> (line 111): \<open>float(n)\<close> is \<open>dbl_round n\<close>
  (as an integer), the product \<open>dbl_0_9 * float(n) / 2 ^ 53\<close> is rounded to a double, and
  \<open>int\<close> truncates the positive result.\<close>

definition train_size :: "nat \<Rightarrow> nat" where
  "train_size n = dbl_round (dbl_0_9 * dbl_round n) div 2 ^ 53"

text \<open>Lines 111--115 on the shuffled rows: \<open>raw[:train_size, :-1]\<close>, \<open>raw[:train_size, -1]\<close>,
  \<open>raw[train_size:, :-1]\<close>, \<open>raw[train_size:, -1]\<close>.\<close>

record 'a split =
  train_features :: "'a list list"
  train_labels :: "'a list"
  test_features :: "'a list list"
  test_labels :: "'a list"

definition split_data :: "'a list list \<Rightarrow> 'a split" where
  "split_data raw =
     (let ts = train_size (length raw)
      in \<lparr>train_features = map butlast (take ts raw), train_labels = map last (take ts raw),
          test_features = map butlast (drop ts raw), test_labels = map last (drop ts raw)\<rparr>)"

subsection \<open>Uploading the data sets (lines 142--165)\<close>

text \<open>\<open>sagemaker.Session().default_bucket()\<close>: \<open>sagemaker-<region>-<account>\<close>, created in the
  session's region when it does not exist (with no location constraint in us-east-1,
  which \<open>get_bucket_location\<close> reports as \<open>None\<close>).\<close>

definition default_bucket_name :: "string \<Rightarrow> string \<Rightarrow> string" where
  "default_bucket_name region account_id = ''sagemaker-'' @ region @ ''-'' @ account_id"

definition default_bucket :: "string \<Rightarrow> string \<Rightarrow> (account, string) script" where
  "default_bucket region account_id s =
     (let b = default_bucket_name region account_id
      in if b \<in> fst ` set (buckets s) then (Inr b, s)
         else (Inr b, s\<lparr>buckets := buckets s @
                 [(b, \<lparr>b_location = (if region = ''us-east-1'' then None else Some region), b_objects = []\<rparr>)]\<rparr>))"

text \<open>\<open>Object(key).upload_fileobj(buf)\<close>: the object is written (replaced if present).\<close>

definition upload_object :: "string \<Rightarrow> string \<Rightarrow> (account, unit) script" where
  "upload_object b key s =
     (case map_of (buckets s) b of
        None \<Rightarrow> (Inl (ClientError ''NoSuchBucket''), s)
      | Some bk \<Rightarrow> (Inr (), s\<lparr>buckets := AList.update b (bk\<lparr>b_objects := List.insert key (b_objects bk)\<rparr>) (buckets s)\<rparr>))"

definition dataset_prefix :: string where "dataset_prefix = ''mysfit-recommendation-dataset''"
definition dataset_key :: string where "dataset_key = ''recordio-pb-data''"

definition s3_data :: "string \<Rightarrow> string \<Rightarrow> string" where
  "s3_data b part = ''s3://'' @ b @ ''/'' @ dataset_prefix @ ''/'' @ part @ ''/'' @ dataset_key"

text \<open>The two upload cells, with the prints that report the locations; they return
  \<open>(s3_train_data, s3_test_data)\<close>.\<close>

definition upload_datasets :: "string \<Rightarrow> string \<Rightarrow> (account, string \<times> string) script" where
  "upload_datasets region account_id =
     bindS (default_bucket region account_id) (\<lambda>b.
     bindS (upload_object b (path_join (path_join dataset_prefix ''train'') dataset_key)) (\<lambda>_.
     bindS (say (''uploaded training data location: '' @ s3_data b ''train'')) (\<lambda>_.
     bindS (upload_object b (path_join (path_join dataset_prefix ''test'') dataset_key)) (\<lambda>_.
     bindS (say (''uploaded test data location: '' @ s3_data b ''test'')) (\<lambda>_.
     returnS (s3_data b ''train'', s3_data b ''test''))))))"

subsection \<open>The estimator (lines 188--224)\<close>

record estimator =
  est_image :: "string \<times> string"   \<comment> \<open>the arguments of \<open>get_image_uri\<close>\<close>
  est_role :: string
  est_instance_count :: nat
  est_instance_type :: string
  est_output_path :: string
  est_hyperparams :: "(string \<times> json) list"
  est_fit_input :: "(string \<times> string) list"

text \<open>\<open>trained_estimator_from_hyperparams\<close>: the estimator's configuration and the
  channels passed to \<open>fit\<close>; \<open>test\<close> only when a test location is given.\<close>

definition trained_estimator_from_hyperparams ::
  "string \<Rightarrow> string \<Rightarrow> (string \<times> json) list \<Rightarrow> string \<Rightarrow> string option \<Rightarrow> estimator" where
  "trained_estimator_from_hyperparams region s3_train_data hyperparams output_path s3_test_data =
     \<lparr>est_image = (region, ''knn''), est_role = notebook_role, est_instance_count = 1,
      est_instance_type = ''ml.m5.2xlarge'', est_output_path = output_path, est_hyperparams = hyperparams,
      est_fit_input = [(''train'', s3_train_data)] @
        (case s3_test_data of Some t \<Rightarrow> [(''test'', t)] | None \<Rightarrow> [])\<rparr>"

definition knn_hyperparams :: "(string \<times> json) list" where
  "knn_hyperparams = [(''feature_dim'', JInt 5), (''k'', JInt 10), (''sample_size'', JInt 100000),
                      (''predictor_type'', JStr ''classifier'')]"

definition knn_output_path :: "string \<Rightarrow> string" where
  "knn_output_path b = ''s3://'' @ b @ ''/'' @ dataset_prefix @ ''/default_example/output''"

definition knn_estimator :: "string \<Rightarrow> string \<Rightarrow> estimator" where
  "knn_estimator region b =
     trained_estimator_from_hyperparams region (s3_data b ''train'') knn_hyperparams (knn_output_path b)
       (Some (s3_data b ''test''))"

subsection \<open>Doubles: the training-set size\<close>

lemma bitlen_0 [simp]: "bitlen 0 = 0"
  by (subst bitlen.simps) simp

lemma bitlen_less: "n < 2 ^ bitlen n"
proof (induction n rule: bitlen.induct)
  case (1 n)
  then show ?case by (subst bitlen.simps) (cases "n = 0"; simp; linarith)
qed

lemma bitlen_ge: "0 < n \<Longrightarrow> 2 ^ (bitlen n - 1) \<le> n"
proof (induction n rule: bitlen.induct)
  case (1 n)
  show ?case
  proof (cases "n div 2 = 0")
    case True
    with "1.prems" show ?thesis by (subst bitlen.simps) simp
  next
    case False
    with "1.IH" "1.prems" have "2 ^ (bitlen (n div 2) - 1) \<le> n div 2" by simp
    moreover have "bitlen (n div 2) \<noteq> 0" using False by (subst bitlen.simps) simp
    ultimately show ?thesis using "1.prems"
      by (subst bitlen.simps) (cases "bitlen (n div 2)"; simp; linarith)
  qed
qed

lemma bitlen_le: "n < 2 ^ k \<Longrightarrow> bitlen n \<le> k"
proof (induction n arbitrary: k rule: bitlen.induct)
  case (1 n)
  show ?case
  proof (cases "n = 0")
    case True then show ?thesis by simp
  next
    case False
    then obtain k' where k: "k = Suc k'" using "1.prems" by (cases k) auto
    with "1.prems" have "n div 2 < 2 ^ k'" by simp
    with "1.IH" False k show ?thesis by (subst bitlen.simps) simp
  qed
qed

lemma rne_shift_ge: "a div 2 ^ s \<le> rne_shift a s"
  by (simp add: rne_shift_def Let_def)

lemma rne_shift_le: "rne_shift a s * 2 ^ s \<le> a + 2 ^ s div 2"
proof -
  have a: "a = a div 2 ^ s * 2 ^ s + a mod 2 ^ s" by (rule div_mult_mod_eq [symmetric])
  show ?thesis
  proof (cases "0 < s \<and> (2 ^ s div 2 < a mod 2 ^ s \<or> (a mod 2 ^ s = 2 ^ s div 2 \<and> odd (a div 2 ^ s)))")
    case True
    then have up: "rne_shift a s = a div 2 ^ s + 1" and h: "2 ^ s div 2 \<le> a mod 2 ^ s"
      by (auto simp: rne_shift_def Let_def)
    from True have "(2::nat) ^ s = 2 * (2 ^ s div 2)" by (cases s) auto
    then have "(a div 2 ^ s + 1) * 2 ^ s = a div 2 ^ s * 2 ^ s + 2 * (2 ^ s div 2)"
      by (simp add: algebra_simps)
    with h a show ?thesis unfolding up by linarith
  next
    case False
    then have dn: "rne_shift a s = a div 2 ^ s" by (simp add: rne_shift_def Let_def)
    from a show ?thesis unfolding dn by linarith
  qed
qed

lemma dbl_round_small: "a < 2 ^ 53 \<Longrightarrow> dbl_round a = a"
  using bitlen_le [of a 53] by (simp add: dbl_round_def rne_shift_def)

text \<open>C3. The notebook's training-set size \<open>int(0.9 * raw.shape[0])\<close>, computed in binary64,
  is exactly \<open>9 n div 10\<close> for every data set of fewer than \<open>2 ^ 49\<close> rows: the rounding of
  0.9 and of the product never moves a row between the training and the test set.\<close>

theorem train_size_exact:
  assumes n: "n < 2 ^ 49"
  shows "train_size n = 9 * n div 10"
proof -
  define a where "a = dbl_0_9 * n"
  define q where "q = 9 * n div 10"
  define s where "s = bitlen a - 53"
  have nr: "dbl_round n = n" using n by (intro dbl_round_small) simp
  have a10: "10 * a = 9 * n * 2 ^ 53 + 2 * n" by (simp add: a_def dbl_0_9_def)
  have q1: "10 * q \<le> 9 * n" and q2: "9 * n \<le> 10 * q + 9" by (simp_all add: q_def)
  have lo: "q * 2 ^ 53 \<le> a"
  proof -
    have "10 * q * 2 ^ 53 \<le> 9 * n * 2 ^ 53" using q1 by simp
    with a10 show ?thesis by linarith
  qed
  have hi: "a + n < (q + 1) * 2 ^ 53"
  proof -
    have "9 * n * 2 ^ 53 \<le> (10 * q + 9) * 2 ^ 53" using q2 by simp
    moreover have "12 * n < (2::nat) ^ 53" using n by simp
    ultimately have "10 * (a + n) < 10 * ((q + 1) * 2 ^ 53)" using a10 by (simp add: algebra_simps)
    then show ?thesis by (simp only: mult_less_cancel1)
  qed
  have an: "a \<le> 2 ^ 53 * n" by (simp add: a_def dbl_0_9_def)
  have s49: "s \<le> 49"
  proof -
    have "(2::nat) ^ 53 * n < 2 ^ 53 * 2 ^ 49" using n by simp
    then have "a < 2 ^ 102" using an by (simp flip: power_add)
    then show ?thesis using bitlen_le [of a 102] by (simp add: s_def)
  qed
  have r_lo: "q * 2 ^ 53 \<le> rne_shift a s * 2 ^ s"
  proof -
    have p: "(2::nat) ^ 53 = 2 ^ (53 - s) * 2 ^ s" using s49 by (simp flip: power_add)
    have "q * 2 ^ (53 - s) * 2 ^ s \<le> a" using lo p by (simp add: mult.assoc)
    then have "q * 2 ^ (53 - s) \<le> a div 2 ^ s" by (simp add: less_eq_div_iff_mult_less_eq)
    then have "q * 2 ^ (53 - s) \<le> rne_shift a s" using rne_shift_ge [of a s] by linarith
    then have "q * 2 ^ (53 - s) * 2 ^ s \<le> rne_shift a s * 2 ^ s" by (rule mult_right_mono) simp
    then show ?thesis by (simp only: mult.assoc p [symmetric])
  qed
  have half: "2 ^ s div 2 \<le> n"
  proof (cases s)
    case 0 then show ?thesis by simp
  next
    case (Suc k)
    then have "bitlen a - 1 = k + 53" by (simp add: s_def)
    moreover have "0 < a" using Suc by (cases "a = 0") (simp_all add: s_def)
    ultimately have "2 ^ (k + 53) \<le> a" using bitlen_ge [of a] by simp
    with an have "2 ^ k * 2 ^ 53 \<le> 2 ^ 53 * n" by (simp add: power_add)
    with Suc show ?thesis by simp
  qed
  have r_hi: "rne_shift a s * 2 ^ s < (q + 1) * 2 ^ 53"
    using rne_shift_le [of a s] half hi by linarith
  have "dbl_round (dbl_0_9 * dbl_round n) = rne_shift a s * 2 ^ s"
    by (simp only: nr) (simp add: dbl_round_def a_def s_def Let_def)
  then show ?thesis
    unfolding train_size_def q_def [symmetric] using r_lo r_hi by (simp add: div_nat_eqI)
qed

text \<open>The bound is close to tight: from \<open>2 ^ 50\<close> rows on the double product can round up
  to the next integer, as for this row count (Python gives the same value).\<close>

lemma train_size_deviates: "train_size 1398840996149061 = 1258956896534155"
  by (simp add: train_size_def dbl_round_def rne_shift_def dbl_0_9_def bitlen.simps Let_def)

subsection \<open>The split\<close>

subsection \<open>The role cell\<close>

lemma setup_role_ok:
  assumes "iam_errors st ''GetRole'' = None" "iam_errors st ''CreateRole'' = None"
    "iam_errors st ''AttachRolePolicy'' = None"
  shows "setup_role st = (Inr (), st\<lparr>roles := (roles st)(notebook_role \<mapsto>
     (case roles st notebook_role of
        None \<Rightarrow> \<lparr>assume_role_policy = assume_role_policy_document, attached_policies = [sagemaker_full_access]\<rparr>
      | Some r \<Rightarrow> r))\<rparr>)"
  using assms
  by (cases "roles st notebook_role")
     (auto simp: setup_role_def get_role_def create_role_def attach_role_policy_def iam_call_def bindS_def
        fun_upd_idem)

text \<open>C21. When the IAM calls succeed, the role cell completes, leaves the role
  \<open>MysfitsSageMakerRole\<close> in place, creating it with the SageMaker trust policy and the
  \<open>AmazonSageMakerFullAccess\<close> policy only when it is missing (an existing role is kept
  as it is, attached policies included), and running the cell again changes nothing.\<close>

theorem setup_role_effect:
  assumes "iam_errors st ''GetRole'' = None" "iam_errors st ''CreateRole'' = None"
    "iam_errors st ''AttachRolePolicy'' = None"
  shows "fst (setup_role st) = Inr () \<and>
    roles (snd (setup_role st)) notebook_role =
      Some (case roles st notebook_role of
              None \<Rightarrow> \<lparr>assume_role_policy = assume_role_policy_document, attached_policies = [sagemaker_full_access]\<rparr>
            | Some r \<Rightarrow> r) \<and>
    setup_role (snd (setup_role st)) = (Inr (), snd (setup_role st))"
proof -
  have e: "iam_errors (snd (setup_role st)) = iam_errors st" using setup_role_ok [OF assms] by simp
  show ?thesis
    using setup_role_ok [OF assms] setup_role_ok [of "snd (setup_role st)"] assms unfolding e
    by (auto simp: fun_upd_idem split: option.splits)
qed

subsection \<open>The data bucket and the teardown\<close>

lemma update_last_new:
  "k \<notin> fst ` set xs \<Longrightarrow> AList.update k v (xs @ [(k, w)]) = xs @ [(k, v)]"
  by (induction xs) auto

lemma upload_datasets_run:
  assumes "default_bucket_name r a \<notin> fst ` set (buckets s)"
  shows "buckets (snd (upload_datasets r a s)) = buckets s @
     [(default_bucket_name r a, \<lparr>b_location = (if r = ''us-east-1'' then None else Some r),
        b_objects = [path_join (path_join dataset_prefix ''test'') dataset_key,
                     path_join (path_join dataset_prefix ''train'') dataset_key]\<rparr>)]"
proof -
  have "path_join (path_join dataset_prefix ''test'') dataset_key \<noteq> path_join (path_join dataset_prefix ''train'') dataset_key"
    by (simp add: path_join_def dataset_prefix_def dataset_key_def)
  moreover have "map_of (buckets s) (default_bucket_name r a) = None"
    using assms by (simp add: map_of_eq_None_iff)
  ultimately show ?thesis using assms
    by (simp add: upload_datasets_def default_bucket_def upload_object_def bindS_def say_def returnS_def
        update_last_new Let_def map_add_def split del: if_split)
qed

lemma upload_datasets_providers: "providers (snd (upload_datasets r a s)) = providers s"
  by (simp add: upload_datasets_def default_bucket_def upload_object_def bindS_def say_def returnS_def Let_def
      split: option.splits prod.splits sum.splits)

text \<open>C34. The notebook and the teardown: when S3 accepts the cleaner's calls in the cleaned
  regions, the bucket the notebook creates for its data sets, \<open>sagemaker-<region>-<account>\<close>,
  is deleted by the teardown's bucket cleaner (prefixes \<open>mythicalmysfits\<close> and
  \<open>sagemaker\<close>) exactly when the notebook's region is one of the cleaned regions and is not
  us-east-1, where the bucket has no location.\<close>

theorem notebook_bucket_cleaned:
  assumes "distinct (map fst (buckets s))" "default_bucket_name r a \<notin> fst ` set (buckets s)"
    and "\<forall>r'\<in>set regions. s3_ok r' s"
  shows "default_bucket_name r a \<in> fst ` set (buckets (snd (clean_buckets_by_prefixes
            [''mythicalmysfits'', ''sagemaker''] regions (snd (upload_datasets r a s)))))
         \<longleftrightarrow> r \<notin> set regions \<or> r = ''us-east-1''"
proof -
  define b where "b = default_bucket_name r a"
  have up: "buckets (snd (upload_datasets r a s)) = buckets s @ [(b, \<lparr>b_location = (if r = ''us-east-1'' then None else Some r),
        b_objects = [path_join (path_join dataset_prefix ''test'') dataset_key,
                     path_join (path_join dataset_prefix ''train'') dataset_key]\<rparr>)]"
    using upload_datasets_run [OF assms(2)] by (simp add: b_def)
  have d: "distinct (map fst (buckets (snd (upload_datasets r a s))))"
    using assms by (simp add: up b_def)
  have pre: "prefix ''sagemaker'' b" "\<not> prefix ''mythicalmysfits'' b"
    by (simp_all add: b_def default_bucket_name_def)
  have ok: "\<forall>r'\<in>set regions. s3_ok r' (snd (upload_datasets r a s))"
    using assms(3) by (simp add: s3_ok_def upload_datasets_providers)
  show ?thesis
    using clean_buckets_run [OF d ok, of "[''mythicalmysfits'', ''sagemaker'']"] assms(2) pre
    unfolding b_def [symmetric] up
    by (auto simp: bucket_doomed_def image_iff)
qed

subsection \<open>Witnesses\<close>

theorem train_size_exact_witness: "(1000000::nat) < 2 ^ 49 \<and> train_size 1000000 = 900000"
  using train_size_exact [of 1000000] by simp

theorem setup_role_effect_witness:
  "iam_errors \<lparr>roles = Map.empty, iam_errors = Map.empty\<rparr> ''GetRole'' = None \<and>
   fst (setup_role \<lparr>roles = Map.empty, iam_errors = Map.empty\<rparr>) = Inr () \<and>
   roles (snd (setup_role \<lparr>roles = Map.empty, iam_errors = Map.empty\<rparr>)) ''MysfitsSageMakerRole'' =
     Some \<lparr>assume_role_policy = assume_role_policy_document, attached_policies = [sagemaker_full_access]\<rparr>"
  using setup_role_effect [of "\<lparr>roles = Map.empty, iam_errors = Map.empty\<rparr>"] by (simp add: notebook_role_def)

theorem notebook_bucket_cleaned_witness:
  "distinct (map fst (buckets demo_account)) \<and>
   default_bucket_name ''eu-west-1'' ''123456789012'' \<notin> fst ` set (buckets demo_account) \<and>
   s3_ok ''eu-west-1'' demo_account \<and>
   default_bucket_name ''eu-west-1'' ''123456789012'' \<notin> fst ` set (buckets (snd (clean_buckets_by_prefixes
     [''mythicalmysfits'', ''sagemaker''] deployment_region_list
     (snd (upload_datasets ''eu-west-1'' ''123456789012'' demo_account)))))"
  using notebook_bucket_cleaned [of demo_account "''eu-west-1''" "''123456789012''" deployment_region_list]
  by (simp add: demo_account_simps default_bucket_name_def deployment_region_list_def s3_ok_def)

end
