(* ===== verification/TeardownRun.thy ===== *)
theory TeardownRun
  imports Teardown
begin

text \<open>
  Completion of the teardown of \<open>src/webgen/utils/clean_utils.py\<close>: that its main
  section (lines 228--283) runs to its end without an exception on every account that
  is ready for it, and leaves none of the application's SageMaker endpoints,
  endpoint configurations and models (\<open>sagemaker_cleared\<close>).  \<open>runs P m Q\<close> is a total-correctness triple of scripts: from every
  state satisfying \<open>P\<close>, \<open>m\<close> returns normally (no exception escapes) in a state
  satisfying \<open>Q\<close>.  Its rules compose over \<open>bindS\<close>, \<open>forS\<close> and \<open>foldS\<close>; the loops whose
  steps delete what an earlier listing returned (buckets, log groups, SageMaker
  resources) are discharged by the run lemmas of \<open>Teardown\<close> and by \<open>forS_delete_listed\<close>,
  the others by the rules alone.  The predicates of readiness are the conditions the
  code needs: the provider accepts the operations of the teardown in the deployment
  region (the S3 calls of the bucket cleaner included) and \<open>ListUserPools\<close> in the
  default region; names are unique where the provider makes them so; at most ten
  resources match each SageMaker listing, so that its first page, the only one the code
  reads, holds all of them; and no log group of the first page matches two of the
  prefixes (otherwise the second delete raises, \<open>Teardown.log_group_double_match_raises\<close>).
\<close>

definition runs :: "('s \<Rightarrow> bool) \<Rightarrow> ('s, 'a) script \<Rightarrow> ('s \<Rightarrow> bool) \<Rightarrow> bool" where
  "runs P m Q \<longleftrightarrow> (\<forall>s. P s \<longrightarrow> (\<exists>a. fst (m s) = Inr a) \<and> Q (snd (m s)))"

text \<open>The provider operations the main section issues in the deployment region.\<close>

definition teardown_ops :: "string list" where
  "teardown_ops =
     [''ListBuckets'', ''GetBucketLocation'', ''DeleteObjects'', ''DeleteBucket'',
      ''DescribeLogGroups'', ''DeleteLogGroup'', ''DeleteTable'', ''DeleteUserPool'', ''DeleteRepository'',
      ''ListEndpoints'', ''DeleteEndpoint'', ''ListEndpointConfigs'', ''DeleteEndpointConfig'',
      ''ListModels'', ''DeleteModel'', ''DescribeNatGateways'']"

definition ops_ready :: "account \<Rightarrow> bool" where
  "ops_ready s \<longleftrightarrow> list_all (\<lambda>op. op \<notin> failing (providers s ''eu-west-1'')) teardown_ops \<and>
     (case environ (proc s) ''AWS_DEFAULT_REGION'' of
        None \<Rightarrow> False
      | Some e \<Rightarrow> ''ListUserPools'' \<notin> failing (providers s e))"

definition sagemaker_ready :: "account \<Rightarrow> bool" where
  "sagemaker_ready s \<longleftrightarrow>
     distinct (map ep_name (sm_endpoints (providers s ''eu-west-1''))) \<and>
     distinct (map fst (endpoint_configs (regional s ''eu-west-1''))) \<and>
     distinct (map fst (models (regional s ''eu-west-1''))) \<and>
     length (filter (\<lambda>e. ep_status e = InService \<and> sublist ''mysfits'' (ep_name e))
       (sm_endpoints (providers s ''eu-west-1''))) \<le> 10 \<and>
     length (filter (\<lambda>c. sublist ''mysfits'' (fst c)) (endpoint_configs (regional s ''eu-west-1''))) \<le> 10 \<and>
     length (filter (\<lambda>m. sublist ''knn'' (fst m)) (models (regional s ''eu-west-1''))) \<le> 10"

definition logs_ready :: "account \<Rightarrow> bool" where
  "logs_ready s \<longleftrightarrow> distinct (log_groups (regional s ''eu-west-1'')) \<and>
     list_all (\<lambda>g. matches_count [''mysfits'', ''welcome'', ''NotebookInstances'', ''ProcessingJobs'', ''TrainingJobs''] g \<le> 1)
       (take 50 (log_groups (regional s ''eu-west-1'')))"

definition teardown_ready :: "account \<Rightarrow> bool" where
  "teardown_ready s \<longleftrightarrow> distinct (map fst (buckets s)) \<and> logs_ready s \<and> ops_ready s \<and> sagemaker_ready s"

text \<open>What the SageMaker stage of the main section promises: in the deployment region no
  \<open>InService\<close> endpoint and no endpoint configuration with \<open>mysfits\<close> in its name, and no
  model with \<open>knn\<close> in its name, is left.\<close>

definition sagemaker_cleared :: "account \<Rightarrow> bool" where
  "sagemaker_cleared s \<longleftrightarrow>
     \<not> list_ex (\<lambda>e. ep_status e = InService \<and> sublist ''mysfits'' (ep_name e)) (sm_endpoints (providers s ''eu-west-1'')) \<and>
     \<not> list_ex (\<lambda>c. sublist ''mysfits'' (fst c)) (endpoint_configs (regional s ''eu-west-1'')) \<and>
     \<not> list_ex (\<lambda>m. sublist ''knn'' (fst m)) (models (regional s ''eu-west-1''))"

text \<open>The part of the account that \<open>ops_ready\<close> and \<open>sagemaker_ready\<close> read.\<close>

definition ready_view ::
  "account \<Rightarrow> (string \<Rightarrow> string set) \<times> (string \<rightharpoonup> string) \<times> endpoint list \<times> (string \<times> int) list \<times> (string \<times> int) list" where
  "ready_view s = (\<lambda>r. failing (providers s r), environ (proc s), sm_endpoints (providers s ''eu-west-1''),
     endpoint_configs (regional s ''eu-west-1''), models (regional s ''eu-west-1''))"

text \<open>The example account of \<open>Teardown\<close> with one log group fewer: there
  \<open>/aws/lambda/mysfits-welcome\<close> matches two prefixes, here every group at most one.\<close>

definition ready_account :: account where
  "ready_account = demo_account\<lparr>regional := (\<lambda>r. demo_region_res\<lparr>log_groups := [''/aws/lambda/mysfits-api'', ''/other'']\<rparr>)\<rparr>"

named_theorems runs_intros "rules composing the completion of a script"

subsection \<open>Rules of the triple\<close>

lemma runsI: "(\<And>s. P s \<Longrightarrow> (\<exists>a. fst (m s) = Inr a) \<and> Q (snd (m s))) \<Longrightarrow> runs P m Q"
  by (simp add: runs_def)

lemma runsD: "runs P m Q \<Longrightarrow> P s \<Longrightarrow> \<exists>a s'. m s = (Inr a, s') \<and> Q s'"
  unfolding runs_def by (metis prod.collapse)

lemma runs_returnS [runs_intros]: "runs P (returnS a) P"
  by (simp add: runs_def returnS_def)

lemma runs_bindS: "runs P m Q \<Longrightarrow> (\<And>a. runs Q (f a) R) \<Longrightarrow> runs P (bindS m f) R"
  unfolding runs_def bindS_def by (fastforce split: prod.splits sum.splits)

text \<open>The form the rule collection uses: an invariant kept by every step.\<close>

lemma runs_bindS_inv [runs_intros]: "runs P m P \<Longrightarrow> (\<And>a. runs P (f a) P) \<Longrightarrow> runs P (bindS m f) P"
  by (rule runs_bindS)

lemma runs_forS [runs_intros]: "(\<And>x. runs P (f x) P) \<Longrightarrow> runs P (forS f xs) P"
  by (induction xs) (simp_all add: runs_returnS runs_bindS [where Q = P])

lemma runs_foldS [runs_intros]: "(\<And>acc x. runs P (f acc x) P) \<Longrightarrow> runs P (foldS f acc xs) P"
  by (induction xs arbitrary: acc) (simp_all add: runs_returnS runs_bindS [where Q = P])

lemma runs_if [runs_intros]: "(c \<Longrightarrow> runs P a Q) \<Longrightarrow> (\<not> c \<Longrightarrow> runs P b Q) \<Longrightarrow> runs P (if c then a else b) Q"
  by simp

lemma runs_conseq: "runs P m Q \<Longrightarrow> (\<And>s. P' s \<Longrightarrow> P s) \<Longrightarrow> (\<And>s. Q s \<Longrightarrow> Q' s) \<Longrightarrow> runs P' m Q'"
  unfolding runs_def by blast

text \<open>A script that returns normally from \<open>P\<close> and keeps the view \<open>V\<close> of the state
  establishes every \<open>Q\<close> that depends on the view alone.\<close>

lemma runs_frame:
  assumes "\<And>s. P s \<Longrightarrow> \<exists>a. fst (m s) = Inr a" and "\<And>v. preserves (\<lambda>s. V s = v) m"
    and "\<And>s s'. P s \<Longrightarrow> V s' = V s \<Longrightarrow> Q s'"
  shows "runs P m Q"
proof (rule runsI)
  fix s assume "P s"
  moreover have "V (snd (m s)) = V s" using preservesD [OF assms(2) [of "V s"], of s] by simp
  ultimately show "(\<exists>a. fst (m s) = Inr a) \<and> Q (snd (m s))" using assms(1,3) by blast
qed

lemma runs_say [runs_intros]: "(\<And>s. P s \<Longrightarrow> P (snd (say l s))) \<Longrightarrow> runs P (say l) P"
  by (simp add: runs_def say_def)

text \<open>A delete whose not-found error is caught returns normally when the provider
  accepts the operation, whether the name is present or not.\<close>

lemma runs_catch_delete_call [runs_intros]:
  assumes "\<And>s. P s \<Longrightarrow> op \<notin> failing (providers s r)" and "\<And>s. P s \<Longrightarrow> P (del s)"
  shows "runs P (catch_code code (delete_call r op code present del)) P"
  using assms by (simp add: runs_def catch_code_def delete_call_def provider_call_def)

lemma preserves_view_delete_call:
  "(\<And>s. V (del s) = V s) \<Longrightarrow> preserves (\<lambda>s. V s = v) (delete_call r op code present del)"
  unfolding preserves_def delete_call_def by (auto split: sum.splits if_splits)

lemma preserves_view_say: "(\<And>s. V (snd (say l s)) = V s) \<Longrightarrow> preserves (\<lambda>s. V s = v) (say l)"
  by (rule preserves_stateI) simp

text \<open>A loop deleting, one by one, distinct names an earlier listing found in a list
  \<open>E\<close> of resources: each step returns normally on a name still present and removes the
  resources of that name only, so every later name is still there when its turn comes,
  and at the end exactly the listed names are gone.\<close>

lemma image_filter_neq: "name ` set (filter (\<lambda>y. name y \<noteq> k) L) = name ` set L - {k}"
  by auto

lemma forS_delete_listed:
  assumes step: "\<And>x s. P s \<Longrightarrow> key x \<in> name ` set (E s) \<Longrightarrow>
                   \<exists>s'. f x s = (Inr (), s') \<and> P s' \<and> E s' = filter (\<lambda>y. name y \<noteq> key x) (E s)"
  shows "distinct (map key xs) \<Longrightarrow> key ` set xs \<subseteq> name ` set (E s) \<Longrightarrow> P s \<Longrightarrow>
    \<exists>s'. forS f xs s = (Inr (), s') \<and> P s' \<and> E s' = filter (\<lambda>y. name y \<notin> key ` set xs) (E s)"
proof (induction xs arbitrary: s)
  case Nil
  then show ?case by (simp add: returnS_def)
next
  case (Cons x xs)
  have "key x \<in> name ` set (E s)" using Cons.prems(2) by simp
  then obtain s1 where run: "f x s = (Inr (), s1)" and p1: "P s1"
    and e1: "E s1 = filter (\<lambda>y. name y \<noteq> key x) (E s)"
    using step [OF Cons.prems(3)] by blast
  have "key ` set xs \<subseteq> name ` set (E s) - {key x}" using Cons.prems(1,2) by (auto simp: image_iff)
  then have "key ` set xs \<subseteq> name ` set (E s1)" unfolding e1 image_filter_neq .
  with Cons.IH [of s1] Cons.prems(1) p1 obtain s' where
    "forS f xs s1 = (Inr (), s')" "P s'" "E s' = filter (\<lambda>y. name y \<notin> key ` set xs) (E s1)"
    by auto
  then show ?case by (simp add: bindS_def run e1 filter_filter conj_commute)
qed

text \<open>A listing of every resource the loop must delete, followed by the loop: afterwards
  no resource the listing selects is left.\<close>

lemma runs_list_delete:
  assumes lst: "\<And>s. P s \<Longrightarrow> \<exists>xs. l s = (Inr xs, s) \<and> distinct (map key xs) \<and> key ` set xs \<subseteq> name ` set (E s)
                     \<and> (\<forall>y\<in>set (E s). wanted y \<longrightarrow> name y \<in> key ` set xs)"
    and step: "\<And>x s. P s \<Longrightarrow> key x \<in> name ` set (E s) \<Longrightarrow>
                   \<exists>s'. f x s = (Inr (), s') \<and> P s' \<and> E s' = filter (\<lambda>y. name y \<noteq> key x) (E s)"
  shows "runs P (bindS l (forS f)) (\<lambda>s. P s \<and> \<not> list_ex wanted (E s))"
proof (rule runsI)
  fix s assume "P s"
  then obtain xs where l: "l s = (Inr xs, s)" and d: "distinct (map key xs)" "key ` set xs \<subseteq> name ` set (E s)"
    and w: "\<forall>y\<in>set (E s). wanted y \<longrightarrow> name y \<in> key ` set xs"
    using lst by blast
  obtain s' where run: "forS f xs s = (Inr (), s')" "P s'" and e: "E s' = filter (\<lambda>y. name y \<notin> key ` set xs) (E s)"
    using forS_delete_listed [where f = f, OF step d \<open>P s\<close>] by blast
  have "\<not> list_ex wanted (E s')" using w unfolding e by (auto simp: list_ex_iff)
  with run show "(\<exists>a. fst (bindS l (forS f) s) = Inr a) \<and> P (snd (bindS l (forS f) s)) \<and>
      \<not> list_ex wanted (E (snd (bindS l (forS f) s)))"
    by (simp add: bindS_def l)
qed

text \<open>A part \<open>R\<close> of the state that a script's view keeps is carried across it.\<close>

lemma runs_keep:
  assumes "runs P m Q" and "\<And>v. preserves (\<lambda>s. V s = v) m" and "\<And>s s'. V s' = V s \<Longrightarrow> R s' = R s"
  shows "runs (\<lambda>s. P s \<and> R s) m (\<lambda>s. Q s \<and> R s)"
proof (rule runsI)
  fix s assume "P s \<and> R s"
  moreover have "V (snd (m s)) = V s" using preservesD [OF assms(2) [of "V s"], of s] by simp
  ultimately show "(\<exists>a. fst (m s) = Inr a) \<and> Q (snd (m s)) \<and> R (snd (m s))"
    using assms(1,3) unfolding runs_def by blast
qed

subsection \<open>What each stage keeps\<close>

lemma ready_view_eq: "ready_view s' = ready_view s \<Longrightarrow> ops_ready s' = ops_ready s \<and> sagemaker_ready s' = sagemaker_ready s"
  by (auto simp: ready_view_def ops_ready_def sagemaker_ready_def fun_eq_iff split: option.splits)

lemma ready_view_updates [simp]:
  "ready_view (snd (say l s)) = ready_view s"
  "ready_view (upd_regional r (\<lambda>rr. rr\<lparr>log_groups := f rr\<rparr>) s) = ready_view s"
  "ready_view (upd_regional r (\<lambda>rr. rr\<lparr>tables := g rr\<rparr>) s) = ready_view s"
  "ready_view (upd_regional r (\<lambda>rr. rr\<lparr>repositories := h rr\<rparr>) s) = ready_view s"
  "ready_view (upd_provider r (\<lambda>rs. rs\<lparr>user_pools := k rs\<rparr>) s) = ready_view s"
  by (auto simp: ready_view_def say_def upd_regional_def upd_provider_def fun_eq_iff)

lemmas ready_after_updates [simp] =
  ready_view_updates(2-5) [THEN ready_view_eq, THEN conjunct1]
  ready_view_updates(2-5) [THEN ready_view_eq, THEN conjunct2]

lemma ops_ready_frame:
  "(\<And>r. failing (providers s' r) = failing (providers s r)) \<Longrightarrow> environ (proc s') = environ (proc s) \<Longrightarrow>
   ops_ready s' = ops_ready s"
  by (simp add: ops_ready_def split: option.splits)

lemma length_filter_filter_le: "length (filter (\<lambda>x. p x \<and> P x) xs) \<le> length (filter P xs)"
  by (induction xs) auto

lemma ready_after_sagemaker_deletes [simp]:
  "ops_ready (upd_provider r (\<lambda>rs. rs\<lparr>sm_endpoints := filter p (sm_endpoints rs)\<rparr>) s) = ops_ready s"
  "ops_ready (upd_regional r (\<lambda>rr. rr\<lparr>endpoint_configs := filter q (endpoint_configs rr)\<rparr>) s) = ops_ready s"
  "ops_ready (upd_regional r (\<lambda>rr. rr\<lparr>models := filter q (models rr)\<rparr>) s) = ops_ready s"
  "sagemaker_ready s \<Longrightarrow> sagemaker_ready (upd_provider r (\<lambda>rs. rs\<lparr>sm_endpoints := filter p (sm_endpoints rs)\<rparr>) s)"
  "sagemaker_ready s \<Longrightarrow> sagemaker_ready (upd_regional r (\<lambda>rr. rr\<lparr>endpoint_configs := filter q (endpoint_configs rr)\<rparr>) s)"
  "sagemaker_ready s \<Longrightarrow> sagemaker_ready (upd_regional r (\<lambda>rr. rr\<lparr>models := filter q (models rr)\<rparr>) s)"
  by (rule ops_ready_frame; simp add: upd_provider_def upd_regional_def)+
     (auto simp: sagemaker_ready_def upd_regional_def upd_provider_def distinct_map_filter
        intro: order_trans [OF length_filter_filter_le])

lemma ready_after_say [simp]:
  "ops_ready (snd (say l s)) = ops_ready s" "sagemaker_ready (snd (say l s)) = sagemaker_ready s"
  using ready_view_eq [of "snd (say l s)" s] by simp_all

text \<open>The bucket stage touches only the bucket list and the output.\<close>

lemma preserves_bucket_steps:
  "preserves (\<lambda>s. (providers s, regional s, environ (proc s)) = v) (delete_objects r b)"
  "preserves (\<lambda>s. (providers s, regional s, environ (proc s)) = v) (delete_bucket r b)"
  "preserves (\<lambda>s. (providers s, regional s, environ (proc s)) = v) (say l)"
  by (rule preserves_stateI; simp add: delete_objects_def delete_bucket_def say_def split: option.splits sum.splits)+

lemma preserves_delete_buckets_loop_frame:
  "preserves (\<lambda>s. (providers s, regional s, environ (proc s)) = v) (delete_buckets_loop pfx region bs acc)"
proof (induction bs arbitrary: acc)
  case Nil
  then show ?case by (simp add: preserves_returnS)
next
  case (Cons b bs)
  then show ?case
    by (simp only: delete_buckets_loop.simps) (intro preserves_intros preserves_bucket_steps Cons.IH)
qed

lemma preserves_clean_buckets_frame:
  "preserves (\<lambda>s. (providers s, regional s, environ (proc s)) = v) (clean_buckets_by_prefixes pfxs rs)"
proof -
  have "preserves (\<lambda>s. (providers s, regional s, environ (proc s)) = v) (delete_buckets_by_prefix p r)" for p r
    unfolding delete_buckets_by_prefix_def
    by (rule preserves_read, intro preserves_intros preserves_bucket_steps preserves_delete_buckets_loop_frame)
  then show ?thesis
    unfolding clean_buckets_by_prefixes_def by (intro preserves_intros preserves_bucket_steps)
qed

lemma bindS_fst_Inr: "fst (m s) = Inr a \<Longrightarrow> bindS m f s = f a (snd (m s))"
  by (cases "m s") (simp add: bindS_def)

subsection \<open>Completion of each stage\<close>

lemma ops_ready_op:
  "ops_ready s \<Longrightarrow> op \<in> set teardown_ops \<Longrightarrow> op \<notin> failing (providers s ''eu-west-1'')"
  by (simp add: ops_ready_def list_all_iff)

lemmas teardown_op_names = teardown_ops_def [THEN arg_cong [where f = set], simplified]

lemma runs_clean_buckets:
  "runs (\<lambda>s. distinct (map fst (buckets s)) \<and> logs_ready s \<and> ops_ready s \<and> sagemaker_ready s)
     (clean_buckets_by_prefixes pfxs deployment_region_list) (\<lambda>s. logs_ready s \<and> ops_ready s \<and> sagemaker_ready s)"
proof (rule runs_frame [where V = "\<lambda>s. (providers s, regional s, environ (proc s))"])
  fix s s' :: account
  assume "distinct (map fst (buckets s)) \<and> logs_ready s \<and> ops_ready s \<and> sagemaker_ready s"
    and v: "(providers s', regional s', environ (proc s')) = (providers s, regional s, environ (proc s))"
  moreover have "ops_ready s' = ops_ready s" using v by (intro ops_ready_frame) simp_all
  ultimately show "logs_ready s' \<and> ops_ready s' \<and> sagemaker_ready s'"
    by (simp add: logs_ready_def sagemaker_ready_def)
next
  fix s assume "distinct (map fst (buckets s)) \<and> logs_ready s \<and> ops_ready s \<and> sagemaker_ready s"
  moreover have "\<forall>r\<in>set deployment_region_list. s3_ok r s" if "ops_ready s"
    using that by (simp add: deployment_region_list_def s3_ok_def ops_ready_op teardown_op_names)
  ultimately show "\<exists>a. fst (clean_buckets_by_prefixes pfxs deployment_region_list s) = Inr a"
    using clean_buckets_run by blast
qed (simp add: preserves_clean_buckets_frame)

lemma preserves_clean_logs_view:
  "preserves (\<lambda>s. ready_view s = v) (clean_logs_by_prefixes pfxs rs)"
  unfolding clean_logs_by_prefixes_def delete_log_groups_by_prefixes_def log_group_body_def delete_log_group_def
  by (intro preserves_intros preserves_view_say preserves_view_delete_call) simp_all

lemma runs_clean_logs:
  "runs (\<lambda>s. logs_ready s \<and> ops_ready s \<and> sagemaker_ready s)
     (clean_logs_by_prefixes [''mysfits'', ''welcome'', ''NotebookInstances'', ''ProcessingJobs'', ''TrainingJobs'']
        deployment_region_list)
     (\<lambda>s. ops_ready s \<and> sagemaker_ready s)"
proof (rule runs_frame [where V = ready_view])
  fix s assume P: "logs_ready s \<and> ops_ready s \<and> sagemaker_ready s"
  define pfxs where "pfxs = [''mysfits'', ''welcome'', ''NotebookInstances'', ''ProcessingJobs'', ''TrainingJobs'']"
  define s2 where "s2 = snd (say (nl @ ''Region '' @ ''eu-west-1'' @ '':'')
    (snd (say (nl @ ''---------- LOG GROUPS -----------------------------------------------'') s)))"
  have h: "''DescribeLogGroups'' \<notin> failing (providers s2 ''eu-west-1'')" "''DeleteLogGroup'' \<notin> failing (providers s2 ''eu-west-1'')"
    "distinct (log_groups (regional s2 ''eu-west-1''))"
    using P by (simp_all add: s2_def ops_ready_op teardown_op_names logs_ready_def)
  have "\<forall>g\<in>set (take 50 (log_groups (regional s2 ''eu-west-1''))). matches_count pfxs g \<le> 1"
    using P by (simp add: s2_def logs_ready_def pfxs_def list_all_iff)
  then have "fst (delete_log_groups_by_prefixes ''eu-west-1'' pfxs s2) = Inr ()"
    using delete_log_groups_run [OF h] by simp
  then show "\<exists>a. fst (clean_logs_by_prefixes pfxs deployment_region_list s) = Inr a"
    unfolding clean_logs_by_prefixes_def deployment_region_list_def
    by (simp add: bindS_say bindS_fst_Inr s2_def returnS_def)
next
  show "preserves (\<lambda>s. ready_view s = v) (clean_logs_by_prefixes pfxs deployment_region_list)" for v pfxs
    by (rule preserves_clean_logs_view)
next
  fix s s' :: account
  assume "logs_ready s \<and> ops_ready s \<and> sagemaker_ready s" "ready_view s' = ready_view s"
  then show "ops_ready s' \<and> sagemaker_ready s'" using ready_view_eq by blast
qed

lemma runs_clean_tables:
  "runs (\<lambda>s. ops_ready s \<and> sagemaker_ready s) (clean_tables_by_names names deployment_region_list)
     (\<lambda>s. ops_ready s \<and> sagemaker_ready s)"
  unfolding clean_tables_by_names_def clean_by_names_def report_deleted_def table_step_def delete_table_def
    deployment_region_list_def foldS.simps
  by (intro runs_intros) (simp_all add: ops_ready_op teardown_op_names)

lemma runs_clean_repositories:
  "runs (\<lambda>s. ops_ready s \<and> sagemaker_ready s) (clean_repositories_by_names names deployment_region_list)
     (\<lambda>s. ops_ready s \<and> sagemaker_ready s)"
  unfolding clean_repositories_by_names_def clean_by_names_def report_deleted_def repository_step_def
    delete_repository_def deployment_region_list_def foldS.simps
  by (intro runs_intros) (simp_all add: ops_ready_op teardown_op_names)

text \<open>The pool step reads the default region from the environment and lists its pools
  there; the delete of the pool found, in the deployment region, swallows a missing id.\<close>

lemma runs_pool_step:
  "runs (\<lambda>s. ops_ready s \<and> sagemaker_ready s) (pool_step ''eu-west-1'' n) (\<lambda>s. ops_ready s \<and> sagemaker_ready s)"
proof (rule runsI)
  fix s assume P: "ops_ready s \<and> sagemaker_ready s"
  then obtain e where env: "environ (proc s) ''AWS_DEFAULT_REGION'' = Some e"
    and lup: "''ListUserPools'' \<notin> failing (providers s e)"
    by (auto simp: ops_ready_def split: option.splits)
  have g: "get_user_pool_id (providers s) (proc s) ''MysfitsUserPool'' ''eu-west-1'' =
      Inr (map_of (rev (take 10 (user_pools (providers s e)))) ''MysfitsUserPool'')"
    by (rule get_user_pool_id_result [where c = "providers s" and st = "proc s", OF env lup])
  have del: "runs (\<lambda>s. ops_ready s \<and> sagemaker_ready s)
      (catch_code ''ResourceNotFoundException'' (delete_user_pool ''eu-west-1'' pid)) (\<lambda>s. ops_ready s \<and> sagemaker_ready s)" for pid
    unfolding delete_user_pool_def
    by (intro runs_intros) (simp_all add: ops_ready_op teardown_op_names)
  show "(\<exists>a. fst (pool_step ''eu-west-1'' n s) = Inr a) \<and> ops_ready (snd (pool_step ''eu-west-1'' n s)) \<and>
      sagemaker_ready (snd (pool_step ''eu-west-1'' n s))"
  proof (cases "map_of (rev (take 10 (user_pools (providers s e)))) ''MysfitsUserPool''")
    case None
    with P show ?thesis unfolding pool_step_def g by (simp add: bindS_liftS returnS_def)
  next
    case (Some pid)
    obtain d s' where "catch_code ''ResourceNotFoundException'' (delete_user_pool ''eu-west-1'' pid) s = (Inr d, s')"
      "ops_ready s' \<and> sagemaker_ready s'"
      using runsD [OF del P] by blast
    with Some show ?thesis unfolding pool_step_def g by (simp add: bindS_liftS bindS_def returnS_def)
  qed
qed

lemma runs_clean_pools:
  "runs (\<lambda>s. ops_ready s \<and> sagemaker_ready s) (clean_pools_by_names names deployment_region_list)
     (\<lambda>s. ops_ready s \<and> sagemaker_ready s)"
  unfolding clean_pools_by_names_def clean_by_names_def report_deleted_def deployment_region_list_def foldS.simps
  by (intro runs_intros runs_pool_step) simp_all

text \<open>The three loops of the SageMaker stage delete distinct names their listing found.\<close>

lemma delete_then_say:
  "op \<notin> failing (providers s r) \<Longrightarrow> present s \<Longrightarrow>
   bindS (delete_call r op code present del) (\<lambda>_. say l) s = (Inr (), snd (say l (del s)))"
  by (simp add: delete_call_def provider_call_def bindS_def say_def)

lemma upd_fields:
  "providers (upd_provider r f s) = (providers s)(r := f (providers s r))"
  "regional (upd_regional r g s) = (regional s)(r := g (regional s r))"
  "regional (upd_provider r f s) = regional s" "providers (upd_regional r g s) = providers s"
  by (simp_all add: upd_provider_def upd_regional_def)

lemma runs_delete_endpoints:
  "runs (\<lambda>s. ops_ready s \<and> sagemaker_ready s)
     (bindS (\<lambda>s. (list_endpoints (providers s ''eu-west-1'') ''mysfits'', s))
        (forS (\<lambda>e. bindS (delete_endpoint ''eu-west-1'' (ep_name e)) (\<lambda>_.
                     say (''Deleted endpoint '' @ ep_name e @ '' in region '' @ ''eu-west-1'')))))
     (\<lambda>s. (ops_ready s \<and> sagemaker_ready s) \<and>
          \<not> list_ex (\<lambda>e. ep_status e = InService \<and> sublist ''mysfits'' (ep_name e)) (sm_endpoints (providers s ''eu-west-1'')))"
  by (rule runs_list_delete [where key = ep_name and name = ep_name and E = "\<lambda>s. sm_endpoints (providers s ''eu-west-1'')"])
     (auto simp: list_endpoints_def provider_call_def ops_ready_op teardown_op_names sagemaker_ready_def
        distinct_map_rev_sort_key distinct_map_filter delete_endpoint_def delete_then_say upd_fields
        intro: order_trans [OF length_filter_filter_le])

lemma runs_delete_configs:
  "runs (\<lambda>s. ops_ready s \<and> sagemaker_ready s)
     (bindS (list_endpoint_configs ''eu-west-1'' ''mysfits'')
        (forS (\<lambda>c. bindS (delete_endpoint_config ''eu-west-1'' c) (\<lambda>_.
                     say (''Deleted endpoint configuration '' @ c @ '' in region '' @ ''eu-west-1'')))))
     (\<lambda>s. (ops_ready s \<and> sagemaker_ready s) \<and> \<not> list_ex (\<lambda>c. sublist ''mysfits'' (fst c)) (endpoint_configs (regional s ''eu-west-1'')))"
  by (rule runs_list_delete [where key = id and name = fst and E = "\<lambda>s. endpoint_configs (regional s ''eu-west-1'')"])
     (auto simp: list_endpoint_configs_def newest_containing_def provider_call_def ops_ready_op teardown_op_names
        sagemaker_ready_def distinct_map_rev_sort_key distinct_map_filter delete_endpoint_config_def delete_then_say upd_fields
        intro: order_trans [OF length_filter_filter_le])

lemma runs_delete_models:
  "runs (\<lambda>s. ops_ready s \<and> sagemaker_ready s)
     (bindS (list_models ''eu-west-1'' ''knn'')
        (forS (\<lambda>m. bindS (delete_model ''eu-west-1'' m) (\<lambda>_.
                     say (''Deleted model '' @ m @ '' in region '' @ ''eu-west-1'')))))
     (\<lambda>s. (ops_ready s \<and> sagemaker_ready s) \<and> \<not> list_ex (\<lambda>m. sublist ''knn'' (fst m)) (models (regional s ''eu-west-1'')))"
  by (rule runs_list_delete [where key = id and name = fst and E = "\<lambda>s. models (regional s ''eu-west-1'')"])
     (auto simp: list_models_def newest_containing_def provider_call_def ops_ready_op teardown_op_names
        sagemaker_ready_def distinct_map_rev_sort_key distinct_map_filter delete_model_def delete_then_say upd_fields
        intro: order_trans [OF length_filter_filter_le])

lemma sagemaker_cleared_say [simp]: "sagemaker_cleared (snd (say l s)) = sagemaker_cleared s"
  by (simp add: sagemaker_cleared_def)

lemma runs_clean_sagemaker:
  "runs (\<lambda>s. ops_ready s \<and> sagemaker_ready s)
     (clean_sagemaker_endpoints_by_prefix deployment_region_list (Some ''mysfits'') (Some ''mysfits'') (Some ''knn''))
     (\<lambda>s. (ops_ready s \<and> sagemaker_ready s) \<and> sagemaker_cleared s)"
proof -
  let ?L = "\<lambda>s. ops_ready s \<and> sagemaker_ready s"
  let ?E = "\<lambda>s. \<not> list_ex (\<lambda>e. ep_status e = InService \<and> sublist ''mysfits'' (ep_name e)) (sm_endpoints (providers s ''eu-west-1''))"
  let ?C = "\<lambda>s. \<not> list_ex (\<lambda>c. sublist ''mysfits'' (fst c)) (endpoint_configs (regional s ''eu-west-1''))"
  have cfg: "runs (\<lambda>s. ?L s \<and> ?E s)
     (bindS (list_endpoint_configs ''eu-west-1'' ''mysfits'')
        (forS (\<lambda>c. bindS (delete_endpoint_config ''eu-west-1'' c) (\<lambda>_.
                     say (''Deleted endpoint configuration '' @ c @ '' in region '' @ ''eu-west-1'')))))
     (\<lambda>s. (?L s \<and> ?C s) \<and> ?E s)"
    by (rule runs_keep [OF runs_delete_configs, where V = "\<lambda>s. sm_endpoints (providers s ''eu-west-1'')"],
        unfold delete_endpoint_config_def, intro preserves_intros preserves_view_delete_call preserves_view_say)
       (simp_all add: upd_fields)
  have mdl: "runs (\<lambda>s. ?L s \<and> (?C s \<and> ?E s))
     (bindS (list_models ''eu-west-1'' ''knn'')
        (forS (\<lambda>m. bindS (delete_model ''eu-west-1'' m) (\<lambda>_.
                     say (''Deleted model '' @ m @ '' in region '' @ ''eu-west-1'')))))
     (\<lambda>s. (?L s \<and> \<not> list_ex (\<lambda>m. sublist ''knn'' (fst m)) (models (regional s ''eu-west-1''))) \<and> (?C s \<and> ?E s))"
    by (rule runs_keep [OF runs_delete_models,
          where V = "\<lambda>s. (sm_endpoints (providers s ''eu-west-1''), endpoint_configs (regional s ''eu-west-1''))"],
        unfold delete_model_def, intro preserves_intros preserves_view_delete_call preserves_view_say)
       (simp_all add: upd_fields)
  have sr: "runs ?L (sagemaker_region ''eu-west-1'' (Some ''mysfits'') (Some ''mysfits'') (Some ''knn''))
      (\<lambda>s. ?L s \<and> sagemaker_cleared s)"
    unfolding sagemaker_region_def
    by (simp only: truthy.simps option.sel simp_thms if_True list.simps)
       (rule runs_bindS [OF runs_delete_endpoints], rule runs_bindS [OF cfg],
        rule runs_conseq [OF mdl], simp_all add: sagemaker_cleared_def)
  have say: "runs ?L (say l) ?L" for l by (rule runs_say) simp
  show ?thesis
    unfolding clean_sagemaker_endpoints_by_prefix_def deployment_region_list_def forS.simps
    by (rule runs_bindS [OF say], rule runs_bindS [OF sr], rule runs_conseq [OF runs_returnS]) simp_all
qed

lemma runs_describe_nat_gateways:
  "(\<And>s. P s \<Longrightarrow> ''DescribeNatGateways'' \<notin> failing (providers s r)) \<Longrightarrow> runs P (describe_nat_gateways r) P"
  by (simp add: runs_def describe_nat_gateways_def provider_call_def)

lemma runs_list_nat_gateways:
  assumes "\<And>s. P s \<Longrightarrow> ops_ready s" and "\<And>s l. P s \<Longrightarrow> P (snd (say l s))" and "\<And>gws. runs P (f gws) P"
  shows "runs P (bindS (list_nat_gateways deployment_region_list) f) P"
  unfolding list_nat_gateways_def deployment_region_list_def foldS.simps
  by (intro runs_intros assms runs_describe_nat_gateways) (simp_all add: assms ops_ready_op teardown_op_names)

subsection \<open>The main section\<close>

lemma runs_clean_main: "runs teardown_ready clean_main sagemaker_cleared"
proof -
  let ?L = "\<lambda>s. ops_ready s \<and> sagemaker_ready s"
  have b: "runs teardown_ready (clean_buckets_by_prefixes [''mythicalmysfits'', ''sagemaker''] deployment_region_list)
      (\<lambda>s. logs_ready s \<and> ?L s)"
    by (rule runs_conseq [OF runs_clean_buckets]) (simp_all add: teardown_ready_def)
  have n: "runs (\<lambda>s. ?L s \<and> sagemaker_cleared s) (bindS (list_nat_gateways deployment_region_list) (\<lambda>current_nat_gateways.
       if current_nat_gateways \<noteq> []
       then forS (\<lambda>g. say (''Please check if the following NAT Gateway requires manual deletion: '' @ fst g @
                            ''  -  state: '' @ snd g)) current_nat_gateways
       else say ''Found no NAT Gateway'')) (\<lambda>s. ?L s \<and> sagemaker_cleared s)"
    by (rule runs_list_nat_gateways, simp, simp, intro runs_intros) simp_all
  show ?thesis
    unfolding clean_main_def
    by (rule runs_bindS [OF b], rule runs_bindS [OF runs_clean_logs], rule runs_bindS [OF runs_clean_tables],
        rule runs_bindS [OF runs_clean_pools], rule runs_bindS [OF runs_clean_repositories],
        rule runs_bindS [OF runs_clean_sagemaker], rule runs_conseq [OF n]) simp_all
qed

lemma bindS_Inl: "m s = (Inl e, s') \<Longrightarrow> bindS m f s = (Inl e, s')"
  by (simp add: bindS_def)

lemma list_buckets_refused:
  "''ListBuckets'' \<in> failing (providers s r) \<Longrightarrow>
   list_buckets r s = (Inl (ClientError ''AccessDeniedException''), s)"
  by (simp add: list_buckets_def provider_call_def)

subsection \<open>Completion of the teardown\<close>

text \<open>C1. On every account ready for it (the provider accepts the teardown's operations,
  S3 ones included, in the deployment region and \<open>ListUserPools\<close> in the default region,
  names are unique, each SageMaker listing has at most ten matches so its first page holds
  them all, and no first-page log group matches two of the prefixes), the main section of
  \<open>clean_utils.py\<close> runs through all seven cleaners and returns normally, whatever
  resources exist or are missing, and leaves no SageMaker endpoint, endpoint
  configuration or model of the application in the deployment region.\<close>

theorem clean_main_completes:
  assumes "teardown_ready s"
  shows "\<exists>s'. clean_main s = (Inr (), s') \<and> sagemaker_cleared s'"
  using runsD [OF runs_clean_main assms] by auto

text \<open>C2. The main section catches no error of S3: when the provider refuses
  \<open>ListBuckets\<close> in the deployment region, \<open>clean_utils.py\<close> raises
  \<open>AccessDeniedException\<close> out of its first cleaner, and none of the later cleaners runs,
  so no bucket, log group, table, pool, repository or SageMaker resource is deleted.\<close>

theorem clean_main_s3_refused:
  assumes "''ListBuckets'' \<in> failing (providers s ''eu-west-1'')"
  shows "fst (clean_main s) = Inl (ClientError ''AccessDeniedException'') \<and>
    buckets (snd (clean_main s)) = buckets s \<and> regional (snd (clean_main s)) = regional s \<and>
    providers (snd (clean_main s)) = providers s"
proof -
  define s1 where "s1 = snd (say (nl @ ''Region '' @ ''eu-west-1'' @ '':'')
    (snd (say (nl @ ''---------- BUCKETS --------------------------------------------------'') s)))"
  have "list_buckets ''eu-west-1'' s1 = (Inl (ClientError ''AccessDeniedException''), s1)"
    using assms by (intro list_buckets_refused) (simp add: s1_def say_def)
  then have "clean_buckets_by_prefixes [''mythicalmysfits'', ''sagemaker''] deployment_region_list s =
      (Inl (ClientError ''AccessDeniedException''), s1)"
    unfolding clean_buckets_by_prefixes_def deployment_region_list_def delete_buckets_by_prefix_def
    by (simp only: bindS_say forS.simps s1_def [symmetric] bindS_assoc) (rule bindS_Inl)
  then show ?thesis
    unfolding clean_main_def by (simp add: bindS_def s1_def say_def)
qed

theorem clean_main_completes_witness:
  "teardown_ready ready_account \<and> (\<exists>s'. clean_main ready_account = (Inr (), s') \<and> sagemaker_cleared s')"
proof -
  have r: "teardown_ready ready_account"
    by (simp add: teardown_ready_def logs_ready_def ops_ready_def sagemaker_ready_def teardown_ops_def
        ready_account_def demo_account_simps matches_count_def log_group_matches_def str_lower_def lower_char_def
        upper_chars_def lower_chars_def sublist_eval)
  show ?thesis using clean_main_completes [OF r] r by simp
qed

theorem clean_main_s3_refused_witness:
  "''ListBuckets'' \<in> failing (providers (demo_account\<lparr>providers := \<lambda>r. empty_region\<lparr>failing := {''ListBuckets''}\<rparr>\<rparr>) ''eu-west-1'') \<and>
   fst (clean_main (demo_account\<lparr>providers := \<lambda>r. empty_region\<lparr>failing := {''ListBuckets''}\<rparr>\<rparr>)) =
     Inl (ClientError ''AccessDeniedException'') \<and>
   buckets (snd (clean_main (demo_account\<lparr>providers := \<lambda>r. empty_region\<lparr>failing := {''ListBuckets''}\<rparr>\<rparr>))) =
     buckets demo_account"
proof -
  have f: "''ListBuckets'' \<in> failing (providers (demo_account\<lparr>providers := \<lambda>r. empty_region\<lparr>failing := {''ListBuckets''}\<rparr>\<rparr>) ''eu-west-1'')"
    by simp
  show ?thesis using clean_main_s3_refused [OF f] f by simp
qed

end
