(* ===== verification/Spec2Isabelle.thy ===== *)
theory Spec2Isabelle
  imports Orchestration TableClient Probes Stacks Notebook TeardownRun
begin

text \<open>
  A verification library for the Mythical Mysfits CDK project of \<open>src/webgen\<close>: the CDK
  application that deploys the site, the Python scripts that configure it after
  deployment and tear it down, the Flask service's DynamoDB client, and the probes the
  notebook and the pipeline run.  Every definition below translates code of \<open>src/\<close>;
  AWS itself (the answers of boto3 calls, what CloudFormation synthesises, IAM's
  evaluation) is modelled from the AWS documentation, as the environment the code runs in.

  \<^bold>\<open>Parts and theories.\<close>
  \<^item> \<open>Prelude\<close>: Python exceptions as the datatype \<open>exn\<close>; a script is a function from a
    state to a result (\<open>Inl\<close> the exception raised, \<open>Inr\<close> the value) and the state left
    behind, composed by \<open>bindS\<close>, \<open>forS\<close> (a \<open>for\<close> loop), \<open>foldS\<close> and \<open>catch_code\<close> (an
    \<open>except ClientError\<close> that tests the error code).  The process state \<open>pstate\<close> holds
    the files, standard output and \<open>os.environ\<close>.  \<open>preserves\<close> and \<open>script_frame\<close> state
    invariants and frames of scripts, with rule collections that compose them.
  \<^item> \<open>PyStr\<close>: \<open>str.replace\<close>, \<open>split\<close>, \<open>join\<close>, \<open>lower\<close>, \<open>int()\<close> and \<open>str()\<close> of integers,
    the string functions of Python the code relies on, modelled from Python's semantics
    (they are the language's library, not code of the repository).
  \<^item> \<open>Substitution\<close>: \<open>utils/prepare_files.py\<close>' \<open>substitute\<close> and \<open>replace_string_in_file\<close>.
  \<^item> \<open>Provider\<close>: the AWS account as seen by the lookup functions of
    \<open>utils/prepare_files.py\<close> (\<open>get_execute_api_endpoint\<close>, \<open>get_user_pool_id\<close>,
    \<open>get_user_pool_client_id\<close>, \<open>get_sagemaker_endpoint_name\<close>): REST APIs, user pools,
    SageMaker endpoints and the operations refused, per region.
  \<^item> \<open>Orchestration\<close>: \<open>utils/prepare_files.py\<close>' \<open>prepare_*\<close> functions and its main block,
    the mode dispatch that rewrites the web files and the stack sources.
  \<^item> \<open>TableClient\<close>: \<open>app/service/mysfitsTableClient.py\<close> over a table of items, with the
    schema of \<open>populate-dynamodb.json\<close> items as a typing invariant.
  \<^item> \<open>Teardown\<close>: \<open>utils/clean_utils.py\<close>, the cleaners of buckets, log groups, tables,
    user pools, repositories and SageMaker endpoints, and its main section, over an
    \<open>account\<close> record (process state, provider state, buckets, regional resources).
  \<^item> \<open>TeardownRun\<close>: completion of the teardown's main section, with a total-correctness
    triple \<open>runs P m Q\<close> over scripts (rules for \<open>bindS\<close>, \<open>forS\<close>, \<open>foldS\<close>, caught deletes,
    and loops deleting what a listing returned) and the predicate \<open>teardown_ready\<close> of the
    accounts it completes on (the teardown's operations, S3 ones included, accepted; unique
    names; at most ten matches per SageMaker listing; no log group matching two
    prefixes); and the abort of the whole teardown when S3 refuses its first call.
  \<^item> \<open>Probes\<close>: \<open>utils/test_ecr_empty.py\<close>, \<open>utils/test_no_inference_endpoint.py\<close>,
    \<open>utils/deploy_ecs_service.py\<close> and the endpoint name of the notebook
    \<open>sagemaker/mysfit_recommendations_knn.py\<close>.
  \<^item> \<open>Notebook\<close>: the cells of \<open>sagemaker/mysfit_recommendations_knn.py\<close> that compute or
    change state: the IAM role cell (\<open>get_role\<close>, \<open>create_role\<close>, \<open>attach_role_policy\<close>
    over an IAM state), the paths of the data files, the train/test split with
    \<open>int(0.9 * n)\<close> computed in binary64, the upload of the two datasets to the session's
    default bucket \<open>sagemaker-<region>-<account>\<close>, and the estimator's parameters.
  \<^item> \<open>Iam\<close>: IAM statements as \<open>aws_iam.PolicyStatement\<close> builds them, and their evaluation
    with the wildcard matcher \<open>glob\<close>, proved equal to its pattern language.
  \<^item> \<open>Stacks\<close>: the stacks of \<open>webgen/*.py\<close> and \<open>app.py\<close>: each stack constructor is the
    list of its declarations (constructs with their keyword arguments, method calls,
    outputs) in code order, \<open>app\<close> instantiates them as \<open>app.py\<close> does, and queries read
    the policies, tables, APIs, indexes and references off the declarations.  The
    stacks \<open>app.py\<close> leaves out (CI/CD, NetworkECR, Webgen) are modelled the same way.

  \<^bold>\<open>How the parts meet.\<close>  The stacks declare the names the scripts look up (the REST
  APIs \<open>MysfitsApi\<close>, \<open>ClickProcessingApi\<close>, \<open>QuestionsAPI\<close>, \<open>RecommendationsAPI\<close>, the pool
  \<open>MysfitsUserPool\<close>, the tables and the repository the teardown deletes); the table client
  queries the indexes of the deployed table, which the model fixes as the DynamoDB stack
  declares them (\<open>TableClient.table_indexes\<close>, the provider's state); the orchestration rewrites the
  placeholders \<open>REPLACE_ME_API_URL\<close> and \<open>REPLACE_ME_RECEIVER_EMAIL\<close> that the Kinesis and
  X-Ray stacks hold.  \<open>Stacks.app_apis_ok\<close> and \<open>Stacks.app_tables_ok\<close> list the REST APIs
  and tables the application declares, the names the orchestration and the teardown
  use; this theory proves that the ECS task role the Flask service runs under
  allows every operation of the client (\<open>table_client_allowed\<close>).  The teardown's
  \<open>Probes.notebook_endpoint_cleared\<close> relates the notebook, the teardown and a probe;
  \<open>Notebook.notebook_bucket_cleaned\<close> follows the notebook's data bucket from its upload to
  the teardown's bucket cleaner, which removes it in every deployment region but
  \<open>us-east-1\<close>.

  \<^bold>\<open>What the lemmas show, by group.\<close>
  \<^item> Strings (\<open>PyStr\<close>): \<open>str.replace\<close> is one left-to-right scan, equal to splitting at
    the occurrences and joining with the new text; \<open>int(str(i)) = i\<close>.
  \<^item> Substitution: the spec's scenario, that a text without tokens is unchanged, that later
    bindings rescan text inserted by earlier ones, that an empty value behaves exactly as
    an absent one wherever it stands (both become \<open>NOT_FOUND\<close>), and that
    \<open>replace_string_in_file\<close> writes only its target.
  \<^item> Provider and orchestration: which API, pool or endpoint each lookup returns; which
    files each mode may touch (frames, proved for every outcome); the exits and
    exceptions of the main block; the diagnostics the web mode can never print.
  \<^item> Table client: an item schema invariant kept by every write and by loading the
    initial values; the answers of the read operations on every branch, errors included;
    the round trip of ages through \<open>str\<close>/\<open>int\<close>; \<open>getAllMysfits\<close> answers the bare \<open>{}\<close>
    exactly on an empty table.
  \<^item> Teardown: the exact effect of each cleaner (which buckets, log groups, tables,
    endpoints disappear and which survive), the exceptions of its corner cases, and an
    invariant of the whole main section (buckets of other prefixes survive).  Every S3
    call can be refused; the bucket results hold when S3 accepts the calls (\<open>s3_ok\<close>),
    and \<open>TeardownRun.clean_main_s3_refused\<close> shows that a refusal aborts the teardown.
    \<open>TeardownRun.clean_main_completes\<close>: the main section returns normally on every ready
    account; each of its seven stages is a triple proved from the stage's run lemma or
    from the rule collection \<open>runs_intros\<close>.
  \<^item> Notebook: the float computation of the training-set size equals \<open>9n div 10\<close> below
    \<open>2^49\<close> rows; the role cell's effect on
    IAM, including that an existing role is left as it is; the data bucket's fate.
  \<^item> Probes: the output of each probe as a function of the account, and their relation
    to the teardown (the notebook's endpoint is among those the teardown deletes).
  \<^item> Stacks and IAM: the application's references resolve in creation order; the
    wildcard matcher is exact; the roles' permissions (the click API role may do one
    action on one resource, the ECS task role every DynamoDB action).

  \<^bold>\<open>Bounds.\<close>  The model keeps the page sizes the code asks for, because results depend
  on them: 25 REST APIs (\<open>get_rest_apis\<close>), 10 user pools and clients (\<open>MaxResults=10\<close>),
  50 log groups (one \<open>describe_log_groups\<close> page), 10 SageMaker endpoints, endpoint
  configurations and models (\<open>list_endpoints\<close>, \<open>list_endpoint_configs\<close>, \<open>list_models\<close>
  with the default \<open>MaxResults\<close>, newest first).  \<open>TeardownRun.teardown_ready\<close> asks for at
  most ten matches per SageMaker listing, the condition under which one page covers them.  The loops of the scripts are \<open>for\<close>
  loops over finite lists (\<open>forS\<close>, \<open>foldS\<close>) or structural recursion, so every model
  is total and no fuel is needed; \<open>replace_scan\<close> and \<open>split_scan\<close> are \<open>function\<close>s whose
  termination is proved by the length of the text left.  A total model may still raise:
  that the teardown returns without an exception is the separate theorem
  \<open>TeardownRun.clean_main_completes\<close>.  \<open>int(0.9 * n)\<close> is modelled with the binary64 rounding of both the product
  and the conversion of \<open>n\<close> (\<open>dbl_round\<close>, round half to even on 53 significant bits);
  the bound \<open>2^49\<close> of \<open>Notebook.train_size_exact\<close> is where the rounding error of the
  constant \<open>0.9\<close> stays below the distance to the next integer, and
  \<open>Notebook.train_size_deviates\<close> exhibits a row count near \<open>2^50\<close> where it does not.

  \<^bold>\<open>Not modelled.\<close>  In the notebook: the download and \<open>np.loadtxt\<close> parsing of the CSV
  file, the random shuffle (the split takes the shuffled rows as its argument), the
  RecordIO encoding of the datasets, and what the estimator's \<open>fit\<close> and \<open>deploy\<close> do
  inside SageMaker (the model and the endpoint name it deploys under are the
  parameters the code passes).  Pagination beyond the first page is not followed,
  because the code does not follow it.  What CDK and CloudFormation synthesise from
  the stack declarations (generated physical names, the resources an L2 construct
  expands to, grants the constructs add on their own) is outside the code; so is the
  parsing of JSON (\<open>json.load\<close> and \<open>json.loads\<close>), modelled by the values they return.
  The Lambda functions and the web front end deployed by the stacks are not under
  \<open>src/\<close>.
\<close>

section \<open>Properties spanning components\<close>

text \<open>The DynamoDB operations of the table client, as IAM names them: \<open>table.put_item\<close>
  (line 52), \<open>client.scan\<close> (67), \<open>client.query\<close> (95), \<open>client.get_item\<close> (129) and
  \<open>client.update_item\<close> (160, 181).\<close>

definition table_client_actions :: "string list" where
  "table_client_actions =
     [''dynamodb:PutItem'', ''dynamodb:Scan'', ''dynamodb:Query'', ''dynamodb:GetItem'', ''dynamodb:UpdateItem'']"

text \<open>The Flask service runs as the task of the ECS stack's Fargate service, whose task role
  allows every operation the table client issues, on the table of the DynamoDB stack.\<close>

lemma table_client_allowed:
  "a \<in> set table_client_actions \<Longrightarrow>
   policy_allows (policy_of (ecs_stack n r v e) (TaskRoleP ''MythicalMysfits-FargateService'')) a
     (obj_attr (''MythicalMysfits-DynamoDB-stack'', ''MysfitsTable'') ''table_arn'')"
  unfolding table_client_actions_def
  using ecs_task_role_allows_dynamodb [of n r v e "''PutItem''"] ecs_task_role_allows_dynamodb [of n r v e "''Scan''"]
    ecs_task_role_allows_dynamodb [of n r v e "''Query''"] ecs_task_role_allows_dynamodb [of n r v e "''GetItem''"]
    ecs_task_role_allows_dynamodb [of n r v e "''UpdateItem''"]
  by auto

end
